theory Spec2Isabelle
  imports Complex_Main "HOL-Library.Sublist"
begin

section \<open>Python strings\<close>

text \<open>
  Text is a list of characters. The model covers ASCII text: \<open>str.lower\<close>, the
  whitespace of \<open>str.split()\<close> and the digits of \<open>\d\<close> are the ASCII ones.
\<close>

definition ascii_upper :: string where
  "ascii_upper = ''ABCDEFGHIJKLMNOPQRSTUVWXYZ''"

definition ascii_lower :: string where
  "ascii_lower = ''abcdefghijklmnopqrstuvwxyz''"

definition digits :: string where
  "digits = ''0123456789''"

definition whitespace :: string where
  "whitespace = [CHR 0x09, CHR 0x0A, CHR 0x0B, CHR 0x0C, CHR 0x0D,
                 CHR 0x1C, CHR 0x1D, CHR 0x1E, CHR 0x1F, CHR 0x20]"

definition is_space :: "char \<Rightarrow> bool" where
  "is_space c = (c \<in> set whitespace)"

definition is_digit :: "char \<Rightarrow> bool" where
  "is_digit c = (c \<in> set digits)"

definition lower_char :: "char \<Rightarrow> char" where
  "lower_char c = (case map_of (zip ascii_upper ascii_lower) c of None \<Rightarrow> c | Some l \<Rightarrow> l)"

text \<open>\<open>text.lower()\<close>\<close>

definition lower :: "string \<Rightarrow> string" where
  "lower s = map lower_char s"

text \<open>\<open>sub in text\<close>: \<open>sub\<close> occurs in \<open>text\<close> as a contiguous substring.\<close>

fun py_in :: "string \<Rightarrow> string \<Rightarrow> bool" where
  "py_in sub [] = (sub = [])"
| "py_in sub (c # cs) = (prefix sub (c # cs) \<or> py_in sub cs)"

text \<open>\<open>any(p(x) for x in xs)\<close>\<close>

fun py_any :: "('a \<Rightarrow> bool) \<Rightarrow> 'a list \<Rightarrow> bool" where
  "py_any p [] = False"
| "py_any p (x # xs) = (if p x then True else py_any p xs)"

text \<open>
  \<open>text.split()\<close>: the maximal runs of non-whitespace characters, in order.
  \<open>split_ws cur s\<close> scans \<open>s\<close> with the word read so far in \<open>cur\<close>.
\<close>

fun split_ws :: "string \<Rightarrow> string \<Rightarrow> string list" where
  "split_ws cur [] = (if cur = [] then [] else [cur])"
| "split_ws cur (c # cs) =
     (if is_space c then (if cur = [] then [] else [cur]) @ split_ws [] cs
      else split_ws (cur @ [c]) cs)"

definition py_split :: "string \<Rightarrow> string list" where
  "py_split s = split_ws [] s"

text \<open>\<open>text.split(sep)\<close> for a separator of one character.\<close>

fun split_sep :: "char \<Rightarrow> string \<Rightarrow> string \<Rightarrow> string list" where
  "split_sep sep cur [] = [cur]"
| "split_sep sep cur (c # cs) =
     (if c = sep then cur # split_sep sep [] cs else split_sep sep (cur @ [c]) cs)"

definition py_split_on :: "char \<Rightarrow> string \<Rightarrow> string list" where
  "py_split_on sep s = split_sep sep [] s"

text \<open>\<open>sep.join(xs)\<close>\<close>

fun py_join :: "string \<Rightarrow> string list \<Rightarrow> string" where
  "py_join sep [] = []"
| "py_join sep [x] = x"
| "py_join sep (x # y # ys) = x @ sep @ py_join sep (y # ys)"

section \<open>Section classifier\<close>

text \<open>
  \<open>_classify_section\<close>, the same in \<open>InsurancePolicyChunker\<close> and
  \<open>SimpleInsuranceChunker\<close>: an if/elif chain over the lower-cased line.
\<close>

definition classify_section :: "string \<Rightarrow> string" where
  "classify_section text =
     (let text_lower = lower text in
      if py_any (\<lambda>word. py_in word text_lower) [''coverage'', ''cover'', ''insured'']
        then ''coverage''
      else if py_any (\<lambda>word. py_in word text_lower) [''exclusion'', ''excluded'', ''not covered'']
        then ''exclusion''
      else if py_any (\<lambda>word. py_in word text_lower) [''definition'', ''defined'', ''means'']
        then ''definition''
      else if py_any (\<lambda>word. py_in word text_lower) [''condition'', ''term'', ''provision'']
        then ''condition''
      else if py_any (\<lambda>word. py_in word text_lower) [''premium'', ''payment'', ''cost'']
        then ''premium''
      else if py_any (\<lambda>word. py_in word text_lower) [''claim'', ''claimant'', ''notification'']
        then ''claim''
      else if py_any (\<lambda>word. py_in word text_lower) [''schedule'', ''table'', ''summary'']
        then ''schedule''
      else ''general'')"

text \<open>
  The cascade as a table, in the order the specification gives: each rule is a list of
  keywords and the category it assigns. \<open>first_match\<close> returns the category of the
  first rule one of whose keywords is a substring of the lower-cased line.
\<close>

definition section_rules :: "(string list \<times> string) list" where
  "section_rules =
     [([''coverage'', ''cover'', ''insured''], ''coverage''),
      ([''exclusion'', ''excluded'', ''not covered''], ''exclusion''),
      ([''definition'', ''defined'', ''means''], ''definition''),
      ([''condition'', ''term'', ''provision''], ''condition''),
      ([''premium'', ''payment'', ''cost''], ''premium''),
      ([''claim'', ''claimant'', ''notification''], ''claim''),
      ([''schedule'', ''table'', ''summary''], ''schedule'')]"

definition rule_hits :: "string list \<times> string \<Rightarrow> string \<Rightarrow> bool" where
  "rule_hits r text = (\<exists>w \<in> set (fst r). sublist w (lower text))"

fun first_match :: "(string list \<times> string) list \<Rightarrow> string \<Rightarrow> string" where
  "first_match [] text = ''general''"
| "first_match (r # rs) text = (if rule_hits r text then snd r else first_match rs text)"

section \<open>Errors, substring counts and regular expressions\<close>

text \<open>The exceptions the model distinguishes; \<open>ExternalError\<close> is one raised by a library.\<close>

datatype py_error = ZeroDivisionError | IndexError | TypeError | ExternalError string

text \<open>\<open>s.count(sub)\<close>: the number of non-overlapping occurrences, scanning from the left.\<close>

function py_count :: "string \<Rightarrow> string \<Rightarrow> nat" where
  "py_count sub s =
     (if sub = [] then length s + 1
      else if s = [] then 0
      else if prefix sub s then 1 + py_count sub (drop (length sub) s)
      else py_count sub (tl s))"
  by pat_completeness auto
termination
  by (relation "measure (\<lambda>(sub, s). length s)") auto

declare py_count.simps [simp del]

text \<open>
  The regular expressions of the source are built from character classes (\<open>Atom\<close>,
  one character of the listed ones), sequencing, optional groups and greedy repetition
  of a character class between a lower and an optional upper bound (\<open>Rep\<close>).
  \<open>rmatch r s\<close> lists the lengths of the prefixes of \<open>s\<close> that \<open>r\<close> matches, in
  the order a backtracking matcher tries them: its head is the match found.
\<close>

datatype regex = Atom string | Seq regex regex | Opt regex | Rep string nat "nat option"

fun rmatch :: "regex \<Rightarrow> string \<Rightarrow> nat list" where
  "rmatch (Atom cls) s = (case s of [] \<Rightarrow> [] | c # _ \<Rightarrow> if c \<in> set cls then [1] else [])"
| "rmatch (Seq a b) s = concat (map (\<lambda>i. map (\<lambda>j. i + j) (rmatch b (drop i s))) (rmatch a s))"
| "rmatch (Opt a) s = rmatch a s @ [0]"
| "rmatch (Rep cls lo hi) s =
     (let n = length (takeWhile (\<lambda>c. c \<in> set cls) s);
          m = (case hi of None \<Rightarrow> n | Some h \<Rightarrow> min n h)
      in rev [lo..<Suc m])"

text \<open>
  \<open>re.findall(r, s)\<close> for a pattern without groups: the non-overlapping matches, scanning
  from the left. Every pattern of the source consumes at least one character.
\<close>

function findall :: "regex \<Rightarrow> string \<Rightarrow> string list" where
  "findall r s =
     (if s = [] then (case rmatch r [] of [] \<Rightarrow> [] | k # _ \<Rightarrow> [[]])
      else (case rmatch r s of
              [] \<Rightarrow> findall r (tl s)
            | k # _ \<Rightarrow> take k s # findall r (drop (max k 1) s)))"
  by pat_completeness auto
termination
  by (relation "measure (\<lambda>(r, s). length s)") auto

declare findall.simps [simp del]

text \<open>\<open>re.match(r, s)\<close> as a truth value: \<open>r\<close> matches at the start of \<open>s\<close>.\<close>

definition re_match :: "regex \<Rightarrow> string \<Rightarrow> bool" where
  "re_match r s = (rmatch r s \<noteq> [])"

text \<open>
  The patterns of \<open>_extract_features\<close> and \<open>_calculate_semantic_score\<close>:
  \<^verbatim>\<open>\$[\d,]+(?:\.\d{2})?\<close>, \<^verbatim>\<open>\d+(?:\.\d+)?%\<close>,
  \<^verbatim>\<open>\d{1,2}[/-]\d{1,2}[/-]\d{2,4}\<close>, \<^verbatim>\<open>[A-Z]{2,}\d{6,}\<close> and \<^verbatim>\<open>\d+\<close>.
\<close>

definition re_amount :: regex where
  "re_amount = Seq (Atom ''$'') (Seq (Rep (digits @ '','') 1 None)
                 (Opt (Seq (Atom ''.'') (Rep digits 2 (Some 2)))))"

definition re_percentage :: regex where
  "re_percentage = Seq (Rep digits 1 None)
                     (Seq (Opt (Seq (Atom ''.'') (Rep digits 1 None))) (Atom ''%''))"

definition re_date :: regex where
  "re_date = Seq (Rep digits 1 (Some 2)) (Seq (Atom ''/-'')
               (Seq (Rep digits 1 (Some 2)) (Seq (Atom ''/-'') (Rep digits 2 (Some 4)))))"

definition re_policy_ref :: regex where
  "re_policy_ref = Seq (Rep ascii_upper 2 None) (Rep digits 6 None)"

definition re_digit_run :: regex where
  "re_digit_run = Rep digits 1 None"

section \<open>Feature extractor\<close>

text \<open>\<open>a / b\<close> on two lengths: true division, which raises on a zero divisor.\<close>

definition py_truediv :: "nat \<Rightarrow> nat \<Rightarrow> py_error + real" where
  "py_truediv a b = (if b = 0 then Inl ZeroDivisionError else Inr (real a / real b))"

text \<open>The vocabularies \<open>self.insurance_terms\<close> of the two embedder classes.\<close>

definition SimpleInsuranceEmbedder_insurance_terms :: "string list" where
  "SimpleInsuranceEmbedder_insurance_terms =
     [''premium'', ''deductible'', ''coverage'', ''exclusion'', ''claim'',
      ''policyholder'', ''beneficiary'', ''endorsement'', ''rider'',
      ''underwriting'', ''actuary'', ''indemnity'', ''subrogation'']"

definition InsuranceEmbedder_insurance_terms :: "string list" where
  "InsuranceEmbedder_insurance_terms =
     [''premium'', ''deductible'', ''coverage'', ''exclusion'', ''claim'',
      ''policyholder'', ''beneficiary'', ''endorsement'', ''rider'',
      ''underwriting'', ''actuary'', ''indemnity'', ''subrogation'',
      ''grace period'', ''contestability'', ''incontestability'']"

text \<open>
  The dictionary \<open>_extract_features\<close> returns. \<open>insurance_terms\<close> is the dictionary
  of term counts, in insertion order. Floats are modelled as exact reals.
\<close>

record features =
  insurance_terms :: "(string \<times> nat) list"
  amounts :: "string list"
  percentages :: "string list"
  dates :: "string list"
  word_count :: nat
  sentence_count :: nat
  avg_sentence_length :: real
  has_table_data :: bool
  has_legal_terms :: bool

record full_features = features +
  policy_references :: "string list"

text \<open>\<open>SimpleInsuranceEmbedder._extract_features\<close>\<close>

definition SimpleInsuranceEmbedder_extract_features :: "string \<Rightarrow> py_error + features" where
  "SimpleInsuranceEmbedder_extract_features text =
     (let text_lower = lower text;
          term_counts = map (\<lambda>term. (term, py_count term text_lower))
                          SimpleInsuranceEmbedder_insurance_terms;
          amounts = findall re_amount text;
          percentages = findall re_percentage text;
          dates = findall re_date text;
          words = py_split text;
          sentences = py_split_on CHR ''.'' text
      in case (if sentences \<noteq> [] then py_truediv (length words) (length sentences)
               else Inr 0) of
           Inl e \<Rightarrow> Inl e
         | Inr avg \<Rightarrow> Inr
            \<lparr>insurance_terms = term_counts,
             amounts = amounts,
             percentages = percentages,
             dates = dates,
             word_count = length words,
             sentence_count = length sentences,
             avg_sentence_length = avg,
             has_table_data = py_any is_digit text,
             has_legal_terms = py_any (\<lambda>term. py_in term text_lower)
                                 [''shall'', ''must'', ''required'', ''obligation'']\<rparr>)"

text \<open>\<open>InsuranceEmbedder._extract_features\<close>: a larger vocabulary, and policy references.\<close>

definition InsuranceEmbedder_extract_features :: "string \<Rightarrow> py_error + full_features" where
  "InsuranceEmbedder_extract_features text =
     (let text_lower = lower text;
          term_counts = map (\<lambda>term. (term, py_count term text_lower))
                          InsuranceEmbedder_insurance_terms;
          amounts = findall re_amount text;
          percentages = findall re_percentage text;
          dates = findall re_date text;
          policy_refs = findall re_policy_ref text;
          words = py_split text;
          sentences = py_split_on CHR ''.'' text
      in case (if sentences \<noteq> [] then py_truediv (length words) (length sentences)
               else Inr 0) of
           Inl e \<Rightarrow> Inl e
         | Inr avg \<Rightarrow> Inr
            \<lparr>insurance_terms = term_counts,
             amounts = amounts,
             percentages = percentages,
             dates = dates,
             word_count = length words,
             sentence_count = length sentences,
             avg_sentence_length = avg,
             has_table_data = py_any is_digit text,
             has_legal_terms = py_any (\<lambda>term. py_in term text_lower)
                                 [''shall'', ''must'', ''required'', ''obligation''],
             policy_references = policy_refs\<rparr>)"

text \<open>
  \<open>_calculate_semantic_score\<close>, the same in both embedder classes but for the
  vocabulary \<open>self.insurance_terms\<close>, taken here as the parameter \<open>terms\<close>.
\<close>

definition legal_words :: "string list" where
  "legal_words = [''shall'', ''must'', ''required'', ''obligation'', ''liability'']"

definition calculate_semantic_score :: "string list \<Rightarrow> string \<Rightarrow> real" where
  "calculate_semantic_score terms text =
     (let text_lower = lower text;
          term_score = sum_list (map (\<lambda>term. 1::nat)
                         (filter (\<lambda>term. py_in term text_lower) terms));
          legal_boost = sum_list (map (\<lambda>word. 1::nat)
                          (filter (\<lambda>word. py_in word text_lower) legal_words));
          numerical_boost = real (length (findall re_digit_run text)) * 0.1;
          total_score = (real term_score + real legal_boost + numerical_boost)
                          / real (max (length (py_split text)) 1)
      in min total_score 1.0)"

definition SimpleInsuranceEmbedder_calculate_semantic_score :: "string \<Rightarrow> real" where
  "SimpleInsuranceEmbedder_calculate_semantic_score text =
     calculate_semantic_score SimpleInsuranceEmbedder_insurance_terms text"

definition InsuranceEmbedder_calculate_semantic_score :: "string \<Rightarrow> real" where
  "InsuranceEmbedder_calculate_semantic_score text =
     calculate_semantic_score InsuranceEmbedder_insurance_terms text"

text \<open>
  The maximal runs of digits of a text, read off the text directly: a run starts at a
  digit and extends over all digits that follow.
\<close>

function digit_runs :: "string \<Rightarrow> string list" where
  "digit_runs [] = []"
| "digit_runs (c # cs) =
     (if is_digit c then (c # takeWhile is_digit cs) # digit_runs (dropWhile is_digit cs)
      else digit_runs cs)"
  by pat_completeness auto
termination
  by (relation "measure length") (auto simp: less_Suc_eq_le length_dropWhile_le)

text \<open>
  The score as the specification words it, with \<open>legal_boost\<close> the number of
  occurrences of the five words in the lower-cased text.
\<close>

definition semantic_score_as_specified :: "string list \<Rightarrow> string \<Rightarrow> real" where
  "semantic_score_as_specified terms text =
     (let term_score = length (filter (\<lambda>term. py_in term (lower text)) (remdups terms));
          legal_boost = sum_list (map (\<lambda>word. py_count word (lower text)) legal_words);
          numerical_boost = 0.1 * real (length (digit_runs text))
      in min ((real term_score + real legal_boost + numerical_boost)
                / real (max (length (py_split text)) 1)) 1)"

text \<open>The fixture of the specification's feature-extraction property.\<close>

definition fixture :: string where
  "fixture = ''The premium is $1,200.50 due by 01/15/2024 (10% surcharge).''"

text \<open>The words of a list that occur in the lower-cased text.\<close>

definition present :: "string list \<Rightarrow> string \<Rightarrow> string set" where
  "present ws text = {w \<in> set ws. sublist w (lower text)}"

section \<open>Chunker construction\<close>

text \<open>The attributes \<open>__init__\<close> sets on a \<open>SimpleInsuranceChunker\<close>.\<close>

record chunker =
  chunk_size :: int
  chunk_overlap :: int
  section_keywords :: "string list"

definition section_keywords_list :: "string list" where
  "section_keywords_list =
     [''policy'', ''coverage'', ''exclusions'', ''terms'', ''conditions'',
      ''premium'', ''deductible'', ''claim'', ''benefits'', ''limitations'',
      ''definitions'', ''general conditions'', ''special conditions'',
      ''schedule'', ''endorsement'', ''rider'', ''clause'', ''provision'']"

text \<open>
  \<open>SimpleInsuranceChunker.__init__\<close>: two assignments and the keyword list; no
  statement of it raises. The result is a sum so that a raise would be a value.
\<close>

definition SimpleInsuranceChunker_init :: "int \<Rightarrow> int \<Rightarrow> py_error + chunker" where
  "SimpleInsuranceChunker_init csize coverlap =
     Inr \<lparr>chunk_size = csize, chunk_overlap = coverlap,
          section_keywords = section_keywords_list\<rparr>"

text \<open>
  \<open>InsurancePolicyChunker.__init__\<close> also builds two text splitters of an external
  library, \<open>RecursiveCharacterTextSplitter(chunk_size, chunk_overlap, separators)\<close> and
  \<open>TokenTextSplitter(chunk_size, chunk_overlap)\<close>. Their constructors are the
  parameters \<open>mk_recursive\<close> and \<open>mk_token\<close>; each may raise.
\<close>

record ('r, 't) policy_chunker = chunker +
  recursive_splitter :: 'r
  token_splitter :: 't

definition InsurancePolicyChunker_init ::
  "(int \<Rightarrow> int \<Rightarrow> string list \<Rightarrow> py_error + 'r) \<Rightarrow> (int \<Rightarrow> int \<Rightarrow> py_error + 't)
     \<Rightarrow> int \<Rightarrow> int \<Rightarrow> py_error + ('r, 't) policy_chunker" where
  "InsurancePolicyChunker_init mk_recursive mk_token csize coverlap =
     (case mk_recursive csize coverlap [[CHR 0x0A, CHR 0x0A], [CHR 0x0A], ''. '', '' '', ''''] of
        Inl e \<Rightarrow> Inl e
      | Inr r \<Rightarrow>
         (case mk_token csize coverlap of
            Inl e \<Rightarrow> Inl e
          | Inr t \<Rightarrow>
             Inr \<lparr>chunk_size = csize, chunk_overlap = coverlap,
                  section_keywords = section_keywords_list,
                  recursive_splitter = r, token_splitter = t\<rparr>))"

section \<open>Retrieval\<close>

text \<open>\<open>xs[i]\<close> for an index that is not negative.\<close>

definition py_index :: "'a list \<Rightarrow> nat \<Rightarrow> py_error + 'a" where
  "py_index xs i = (if i < length xs then Inr (xs ! i) else Inl IndexError)"

text \<open>
  The dictionary \<open>collection.query\<close> returns, with the three keys the code reads; each
  holds one list per query embedding. Metadata is of any type \<open>'m\<close>, and distances are
  numbers of any type \<open>'a\<close> with a 1 and a subtraction.
\<close>

record ('m, 'a) query_results =
  documents :: "string list list"
  metadatas :: "'m list list"
  distances :: "'a list list"

text \<open>One entry of \<open>formatted_results\<close>.\<close>

record ('m, 'a) retrieval_result =
  content :: string
  metadata :: 'm
  similarity_score :: 'a
  rank :: int

text \<open>The dictionary built in the body of the formatting loop, for index \<open>i\<close>.\<close>

definition format_result ::
  "('m, 'a :: {one, minus}) query_results \<Rightarrow> nat \<Rightarrow> py_error + ('m, 'a) retrieval_result" where
  "format_result results i =
     (case py_index (documents results) 0 of Inl e \<Rightarrow> Inl e | Inr docs \<Rightarrow>
      case py_index docs i of Inl e \<Rightarrow> Inl e | Inr doc \<Rightarrow>
      case py_index (metadatas results) 0 of Inl e \<Rightarrow> Inl e | Inr metas \<Rightarrow>
      case py_index metas i of Inl e \<Rightarrow> Inl e | Inr meta \<Rightarrow>
      case py_index (distances results) 0 of Inl e \<Rightarrow> Inl e | Inr dists \<Rightarrow>
      case py_index dists i of Inl e \<Rightarrow> Inl e | Inr distance \<Rightarrow>
        Inr \<lparr>content = doc, metadata = meta, similarity_score = 1 - distance,
             rank = int i + 1\<rparr>)"

text \<open>The loop \<open>for i in range(...)\<close>, appending one entry per index.\<close>

fun format_results ::
  "('m, 'a :: {one, minus}) query_results \<Rightarrow> nat list
     \<Rightarrow> ('m, 'a) retrieval_result list \<Rightarrow> py_error + ('m, 'a) retrieval_result list" where
  "format_results results [] formatted = Inr formatted"
| "format_results results (i # rest) formatted =
     (case format_result results i of
        Inl e \<Rightarrow> Inl e
      | Inr r \<Rightarrow> format_results results rest (formatted @ [r]))"

text \<open>
  \<open>query\<close>, the same in \<open>InsuranceRAGSystem\<close> and \<open>SimpleInsuranceRAGSystem\<close>. The
  embedding model (\<open>encode\<close>) and the vector store (\<open>collection_query\<close>, called with the
  embedding, \<open>n_results\<close> and the \<open>where\<close> clause) are parameters; each may raise.
\<close>

definition where_clause_of :: "'f list option \<Rightarrow> 'f list option" where
  "where_clause_of filter_metadata =
     (case filter_metadata of
        None \<Rightarrow> None
      | Some f \<Rightarrow> if f \<noteq> [] then Some f else None)"

definition query ::
  "(string \<Rightarrow> py_error + 'v)
     \<Rightarrow> ('v \<Rightarrow> int \<Rightarrow> 'f list option \<Rightarrow> py_error + ('m, 'a :: {one, minus}) query_results)
     \<Rightarrow> string \<Rightarrow> int \<Rightarrow> 'f list option \<Rightarrow> py_error + ('m, 'a) retrieval_result list" where
  "query encode collection_query question top_k filter_metadata =
     (case encode question of Inl e \<Rightarrow> Inl e | Inr query_embedding \<Rightarrow>
      let where_clause = where_clause_of filter_metadata in
      case collection_query query_embedding top_k where_clause of
        Inl e \<Rightarrow> Inl e
      | Inr results \<Rightarrow>
         (case py_index (documents results) 0 of
            Inl e \<Rightarrow> Inl e
          | Inr docs \<Rightarrow> format_results results [0..<length docs] []))"

text \<open>A store answering every query with two documents at distances 0.2 and 0.5.\<close>

definition demo_store :: "unit \<Rightarrow> int \<Rightarrow> unit list option \<Rightarrow> py_error + (string, real) query_results" where
  "demo_store v k w =
     Inr \<lparr>documents = [[''first'', ''second'']],
          metadatas = [[''a.pdf'', ''b.pdf'']],
          distances = [[0.2, 0.5]]\<rparr>"

section \<open>Chunk builder\<close>

text \<open>
  One entry of \<open>extracted_data['text_content']\<close>: the keys \<open>page\<close>, \<open>line\<close>, \<open>text\<close>,
  \<open>is_header\<close> and \<open>section_type\<close>.
\<close>

record text_item =
  item_page :: nat
  item_line :: nat
  item_text :: string
  item_is_header :: bool
  item_section_type :: string

text \<open>
  A table as \<open>SimpleInsuranceChunker.extract_text_from_pdf\<close> records it, and as
  \<open>InsurancePolicyChunker.extract_tables_from_pdf\<close> does: there the keys \<open>page\<close> and
  \<open>accuracy\<close> are present for some extraction methods only, and \<open>data\<close>, which no
  later step reads, is left out.
\<close>

record simple_table =
  table_page :: nat
  table_index :: nat
  table_text :: string

record policy_table =
  ptable_method :: string
  ptable_index :: nat
  ptable_page :: "nat option"
  ptable_accuracy :: "real option"
  ptable_text :: string

text \<open>The dictionary the extraction methods return.\<close>

record 't extracted_data =
  text_content :: "text_item list"
  tables :: "'t list"
  total_pages :: nat

text \<open>
  A chunk: \<open>content\<close>, \<open>type\<close> and \<open>metadata\<close>. The metadata of a text chunk holds the
  section type, the word count, the character count and the timestamp; that of a table
  chunk the page and table index, and in \<open>InsurancePolicyChunker\<close> the source and the
  accuracy as well.
\<close>

datatype chunk_metadata =
    TextMetadata (md_section_type: string) (md_word_count: nat) (md_char_count: nat)
      (md_timestamp: string)
  | TableMetadata (md_page: nat) (md_table_index: nat)
  | PolicyTableMetadata (md_source: string) (md_ptable_index: nat) (md_ptable_page: nat)
      (md_accuracy: real)

record chunk =
  chunk_content :: string
  chunk_type :: string
  chunk_metadata :: chunk_metadata

text \<open>
  \<open>_create_chunk_metadata\<close>. \<open>now\<close> is the reading of the clock,
  \<open>datetime.now().isoformat()\<close>.
\<close>

definition create_chunk_metadata :: "string list \<Rightarrow> string \<Rightarrow> string \<Rightarrow> chunk" where
  "create_chunk_metadata text_list section_type now =
     (let content = py_join '' '' text_list in
      \<lparr>chunk_content = content,
       chunk_type = ''text'',
       chunk_metadata = TextMetadata section_type (length (py_split content)) (length content) now\<rparr>)"

text \<open>
  The inner loop \<open>for sentence in sentences\<close> of the overflow split. Every call of
  \<open>_create_chunk_metadata\<close> appends its chunk to \<open>chunks\<close>, so the call that builds
  chunk number k reads the clock for the k-th time: \<open>clock k\<close>.
\<close>

fun split_loop ::
  "int \<Rightarrow> (nat \<Rightarrow> string) \<Rightarrow> string \<Rightarrow> string list \<Rightarrow> string list \<Rightarrow> chunk list
     \<Rightarrow> string list \<times> chunk list" where
  "split_loop csize clock current_section [] temp_chunk chunks = (temp_chunk, chunks)"
| "split_loop csize clock current_section (sentence # rest) temp_chunk chunks =
     (let temp_chunk1 = temp_chunk @ [sentence];
          temp_text = py_join '' '' temp_chunk1
      in if int (length (py_split temp_text)) > csize
         then split_loop csize clock current_section rest [sentence]
                (if temp_chunk1 \<noteq> []
                 then chunks @ [create_chunk_metadata (butlast temp_chunk1) current_section
                                  (clock (length chunks))]
                 else chunks)
         else split_loop csize clock current_section rest temp_chunk1 chunks)"

text \<open>
  The loop \<open>for item in text_content\<close>, with the state \<open>current_chunk\<close>,
  \<open>current_section\<close> and \<open>chunks\<close>. The sentence splitter \<open>_split_into_sentences\<close>
  calls an external language model; it is the parameter \<open>split_sentences\<close> and may raise.
\<close>

fun chunk_loop ::
  "int \<Rightarrow> (string \<Rightarrow> py_error + string list) \<Rightarrow> (nat \<Rightarrow> string) \<Rightarrow> text_item list
     \<Rightarrow> string list \<Rightarrow> string \<Rightarrow> chunk list
     \<Rightarrow> py_error + (string list \<times> string \<times> chunk list)" where
  "chunk_loop csize split_sentences clock [] current_chunk current_section chunks =
     Inr (current_chunk, current_section, chunks)"
| "chunk_loop csize split_sentences clock (item # items) current_chunk current_section chunks =
     (let text = item_text item;
          (chunks1, current_chunk1, current_section1) =
            (if item_is_header item \<and> item_section_type item \<noteq> current_section
             then ((if current_chunk \<noteq> []
                    then chunks @ [create_chunk_metadata current_chunk current_section
                                     (clock (length chunks))]
                    else chunks),
                   [text], item_section_type item)
             else (chunks, current_chunk @ [text], current_section));
          chunk_text = py_join '' '' current_chunk1
      in if int (length (py_split chunk_text)) > csize
         then (case split_sentences chunk_text of
                 Inl e \<Rightarrow> Inl e
               | Inr sentences \<Rightarrow>
                  (case split_loop csize clock current_section1 sentences [] chunks1 of
                     (temp_chunk, chunks2) \<Rightarrow>
                       chunk_loop csize split_sentences clock items temp_chunk current_section1
                         chunks2))
         else chunk_loop csize split_sentences clock items current_chunk1 current_section1
                chunks1)"

text \<open>
  The text part of \<open>create_chunks\<close> and of \<open>create_semantic_chunks\<close>, which is the same
  code: the loop, then the remaining chunk.
\<close>

definition chunk_text_content ::
  "int \<Rightarrow> (string \<Rightarrow> py_error + string list) \<Rightarrow> (nat \<Rightarrow> string) \<Rightarrow> text_item list
     \<Rightarrow> py_error + chunk list" where
  "chunk_text_content csize split_sentences clock items =
     (case chunk_loop csize split_sentences clock items [] ''general'' [] of
        Inl e \<Rightarrow> Inl e
      | Inr (current_chunk, current_section, chunks) \<Rightarrow>
          Inr (if current_chunk \<noteq> []
               then chunks @ [create_chunk_metadata current_chunk current_section
                                (clock (length chunks))]
               else chunks))"

text \<open>The table chunks of the two classes.\<close>

definition table_chunk :: "simple_table \<Rightarrow> chunk" where
  "table_chunk t =
     \<lparr>chunk_content = table_text t,
      chunk_type = ''table'',
      chunk_metadata = TableMetadata (table_page t) (table_index t)\<rparr>"

definition policy_table_chunk :: "policy_table \<Rightarrow> chunk" where
  "policy_table_chunk t =
     \<lparr>chunk_content = ptable_text t,
      chunk_type = ''table'',
      chunk_metadata = PolicyTableMetadata (ptable_method t) (ptable_index t)
        (case ptable_page t of None \<Rightarrow> 0 | Some p \<Rightarrow> p)
        (case ptable_accuracy t of None \<Rightarrow> 0.0 | Some a \<Rightarrow> a)\<rparr>"

text \<open>\<open>SimpleInsuranceChunker.create_chunks\<close>\<close>

definition create_chunks ::
  "int \<Rightarrow> (string \<Rightarrow> py_error + string list) \<Rightarrow> (nat \<Rightarrow> string)
     \<Rightarrow> simple_table extracted_data \<Rightarrow> py_error + chunk list" where
  "create_chunks csize split_sentences clock extracted =
     (case chunk_text_content csize split_sentences clock (text_content extracted) of
        Inl e \<Rightarrow> Inl e
      | Inr chunks \<Rightarrow> Inr (chunks @ map table_chunk (tables extracted)))"

text \<open>\<open>InsurancePolicyChunker.create_semantic_chunks\<close>\<close>

definition create_semantic_chunks ::
  "int \<Rightarrow> (string \<Rightarrow> py_error + string list) \<Rightarrow> (nat \<Rightarrow> string)
     \<Rightarrow> policy_table extracted_data \<Rightarrow> py_error + chunk list" where
  "create_semantic_chunks csize split_sentences clock extracted =
     (case chunk_text_content csize split_sentences clock (text_content extracted) of
        Inl e \<Rightarrow> Inl e
      | Inr chunks \<Rightarrow> Inr (chunks @ map policy_table_chunk (tables extracted)))"

text \<open>
  The same two loops, recording for every text chunk the list \<open>text_list\<close> it is
  built from (the lines or sentences it consists of) and its section, in place of the
  chunk.
\<close>

fun split_parts ::
  "int \<Rightarrow> string \<Rightarrow> string list \<Rightarrow> string list \<Rightarrow> (string list \<times> string) list
     \<Rightarrow> string list \<times> (string list \<times> string) list" where
  "split_parts csize current_section [] temp_chunk parts = (temp_chunk, parts)"
| "split_parts csize current_section (sentence # rest) temp_chunk parts =
     (let temp_chunk1 = temp_chunk @ [sentence];
          temp_text = py_join '' '' temp_chunk1
      in if int (length (py_split temp_text)) > csize
         then split_parts csize current_section rest [sentence]
                (if temp_chunk1 \<noteq> []
                 then parts @ [(butlast temp_chunk1, current_section)]
                 else parts)
         else split_parts csize current_section rest temp_chunk1 parts)"

fun parts_loop ::
  "int \<Rightarrow> (string \<Rightarrow> py_error + string list) \<Rightarrow> text_item list
     \<Rightarrow> string list \<Rightarrow> string \<Rightarrow> (string list \<times> string) list
     \<Rightarrow> py_error + (string list \<times> string \<times> (string list \<times> string) list)" where
  "parts_loop csize split_sentences [] current_chunk current_section parts =
     Inr (current_chunk, current_section, parts)"
| "parts_loop csize split_sentences (item # items) current_chunk current_section parts =
     (let text = item_text item;
          (parts1, current_chunk1, current_section1) =
            (if item_is_header item \<and> item_section_type item \<noteq> current_section
             then ((if current_chunk \<noteq> []
                    then parts @ [(current_chunk, current_section)]
                    else parts),
                   [text], item_section_type item)
             else (parts, current_chunk @ [text], current_section));
          chunk_text = py_join '' '' current_chunk1
      in if int (length (py_split chunk_text)) > csize
         then (case split_sentences chunk_text of
                 Inl e \<Rightarrow> Inl e
               | Inr sentences \<Rightarrow>
                  (case split_parts csize current_section1 sentences [] parts1 of
                     (temp_chunk, parts2) \<Rightarrow>
                       parts_loop csize split_sentences items temp_chunk current_section1 parts2))
         else parts_loop csize split_sentences items current_chunk1 current_section1 parts1)"

definition text_parts ::
  "int \<Rightarrow> (string \<Rightarrow> py_error + string list) \<Rightarrow> text_item list
     \<Rightarrow> py_error + (string list \<times> string) list" where
  "text_parts csize split_sentences items =
     (case parts_loop csize split_sentences items [] ''general'' [] of
        Inl e \<Rightarrow> Inl e
      | Inr (current_chunk, current_section, parts) \<Rightarrow>
          Inr (if current_chunk \<noteq> []
               then parts @ [(current_chunk, current_section)]
               else parts))"

text \<open>The chunks built from the recorded text lists, the k-th at clock reading k.\<close>

definition chunks_of_parts :: "(nat \<Rightarrow> string) \<Rightarrow> (string list \<times> string) list \<Rightarrow> chunk list" where
  "chunks_of_parts clock parts =
     map (\<lambda>k. create_chunk_metadata (fst (parts ! k)) (snd (parts ! k)) (clock k))
       [0..<length parts]"

text \<open>
  \<open>is_sentence split_sentences s\<close>: \<open>s\<close> is one of the sentences the splitter returns
  for some text.
\<close>

definition is_sentence :: "(string \<Rightarrow> py_error + string list) \<Rightarrow> string \<Rightarrow> bool" where
  "is_sentence split_sentences s = (\<exists>t ss. split_sentences t = Inr ss \<and> s \<in> set ss)"

text \<open>
  The size bound on a text list: its joined text has at most \<open>csize\<close> words, or it is
  one sentence of more than \<open>csize\<close> words.
\<close>

definition within_bound :: "int \<Rightarrow> (string \<Rightarrow> py_error + string list) \<Rightarrow> string list \<Rightarrow> bool" where
  "within_bound csize split_sentences text_list =
     (int (length (py_split (py_join '' '' text_list))) \<le> csize
      \<or> (\<exists>s. text_list = [s] \<and> is_sentence split_sentences s
              \<and> csize < int (length (py_split s))))"

text \<open>
  Inputs for the examples: a splitter that takes every text to be one sentence, a clock
  that always reads the same, and the line \<open>a b c\<close> on page 1.
\<close>

definition one_sentence :: "string \<Rightarrow> py_error + string list" where
  "one_sentence t = Inr [t]"

definition fixed_clock :: "nat \<Rightarrow> string" where
  "fixed_clock k = ''2024-01-15T10:00:00''"

definition line_abc :: text_item where
  "line_abc = \<lparr>item_page = 1, item_line = 1, item_text = ''a b c'', item_is_header = False,
                item_section_type = ''general''\<rparr>"

definition line_a :: text_item where
  "line_a = \<lparr>item_page = 1, item_line = 1, item_text = ''a'', item_is_header = False,
              item_section_type = ''general''\<rparr>"

definition abc_data :: "simple_table extracted_data" where
  "abc_data = \<lparr>text_content = [line_abc], tables = [], total_pages = 1\<rparr>"

definition a_data :: "simple_table extracted_data" where
  "a_data = \<lparr>text_content = [line_a], tables = [], total_pages = 1\<rparr>"

text \<open>The chunk with no text, as \<open>_create_chunk_metadata([], section)\<close> builds it.\<close>

definition empty_chunk :: "string \<Rightarrow> string \<Rightarrow> chunk" where
  "empty_chunk section_type now =
     \<lparr>chunk_content = [], chunk_type = ''text'',
      chunk_metadata = TextMetadata section_type 0 0 now\<rparr>"

section \<open>Header detection\<close>

text \<open>\<open>text.strip()\<close> and \<open>text.isupper()\<close>.\<close>

definition py_strip :: "string \<Rightarrow> string" where
  "py_strip s = rev (dropWhile is_space (rev (dropWhile is_space s)))"

definition py_isupper :: "string \<Rightarrow> bool" where
  "py_isupper s = (py_any (\<lambda>c. c \<in> set ascii_upper) s \<and> \<not> py_any (\<lambda>c. c \<in> set ascii_lower) s)"

text \<open>The pattern \<^verbatim>\<open>^\d+\.?\d*\s+[A-Z]\<close> of \<open>_is_section_header\<close>.\<close>

definition re_numbered_section :: regex where
  "re_numbered_section =
     Seq (Rep digits 1 None) (Seq (Opt (Atom ''.'')) (Seq (Rep digits 0 None)
       (Seq (Rep whitespace 1 None) (Atom ascii_upper))))"

text \<open>\<open>_is_section_header\<close>, the same in both chunker classes.\<close>

definition is_section_header :: "string \<Rightarrow> bool" where
  "is_section_header text =
     (if re_match re_numbered_section text then True
      else if py_isupper text \<and> length text > 3 \<and> length text < 100 then True
      else py_any (\<lambda>keyword. py_in keyword (lower text)) section_keywords_list)"

section \<open>Extraction\<close>

text \<open>
  The PDF library is external. What the code observes of it: opening a path raises or
  gives a document; reading \<open>pdf.pages\<close> inside the \<open>with\<close> block raises or gives the
  pages; \<open>len(pdf.pages)\<close> in the return statement raises or gives a number; a page's
  \<open>extract_text()\<close> raises or gives a text or \<open>None\<close>; its \<open>extract_tables()\<close> raises or
  gives tables, each a list of rows of cells, a cell being a text or \<open>None\<close>.
\<close>

record page =
  page_text :: "py_error + string option"
  page_tables :: "py_error + string option list list list"

record pdf =
  pdf_pages :: "py_error + page list"
  pdf_page_count :: "py_error + nat"

text \<open>The log: one entry per call of the logger, with the values the message is built from.\<close>

datatype log_entry =
    Info_processing string
  | Info_success string nat
  | Error_extracting string py_error
  | Error_processing string py_error
  | Warning_tabula py_error
  | Warning_camelot py_error
  | Warning_pdfplumber py_error

text \<open>The lines of one page: the loop \<open>for line_num, line in enumerate(lines)\<close>.\<close>

fun add_lines :: "nat \<Rightarrow> nat \<Rightarrow> string list \<Rightarrow> text_item list \<Rightarrow> text_item list" where
  "add_lines page_num line_num [] collected = collected"
| "add_lines page_num line_num (l # ls) collected =
     (let line = py_strip l
      in add_lines page_num (line_num + 1) ls
           (if line \<noteq> []
            then collected @ [\<lparr>item_page = page_num + 1, item_line = line_num + 1,
                             item_text = line, item_is_header = is_section_header line,
                             item_section_type = classify_section line\<rparr>]
            else collected))"

definition add_page_text :: "nat \<Rightarrow> string option \<Rightarrow> text_item list \<Rightarrow> text_item list" where
  "add_page_text page_num text collected =
     (case text of
        None \<Rightarrow> collected
      | Some t \<Rightarrow> if t \<noteq> [] then add_lines page_num 0 (py_split_on CHR 0x0A t) collected
                  else collected)"

text \<open>
  \<open>'\t'.join(row)\<close> raises on a cell that is \<open>None\<close>; \<open>any(cell for cell in row)\<close> holds
  when some cell is a text that is not empty.
\<close>

definition tab_join :: "string option list \<Rightarrow> py_error + string" where
  "tab_join row =
     (if py_any (\<lambda>cell. cell = None) row then Inl TypeError
      else Inr (py_join [CHR 0x09] (map the row)))"

definition truthy_cell :: "string option \<Rightarrow> bool" where
  "truthy_cell cell = (case cell of None \<Rightarrow> False | Some c \<Rightarrow> c \<noteq> [])"

fun table_rows :: "string option list list \<Rightarrow> py_error + string list" where
  "table_rows [] = Inr []"
| "table_rows (row # rows) =
     (if py_any truthy_cell row
      then (case tab_join row of
              Inl e \<Rightarrow> Inl e
            | Inr r \<Rightarrow> (case table_rows rows of Inl e \<Rightarrow> Inl e | Inr rs \<Rightarrow> Inr (r # rs)))
      else table_rows rows)"

definition table_text_of :: "string option list list \<Rightarrow> py_error + string" where
  "table_text_of t =
     (case table_rows t of Inl e \<Rightarrow> Inl e | Inr rows \<Rightarrow> Inr (py_join [CHR 0x0A] rows))"

text \<open>
  The tables of one page in \<open>SimpleInsuranceChunker\<close>: the loop
  \<open>for table_num, table in enumerate(page_tables)\<close>. A raise ends it; the tables added
  before stay.
\<close>

fun add_tables ::
  "nat \<Rightarrow> nat \<Rightarrow> string option list list list \<Rightarrow> simple_table list
     \<Rightarrow> simple_table list \<times> py_error option" where
  "add_tables page_num table_num [] found = (found, None)"
| "add_tables page_num table_num (t # ts) found =
     (if t \<noteq> [] \<and> length t > 1
      then (case table_text_of t of
              Inl e \<Rightarrow> (found, Some e)
            | Inr txt \<Rightarrow>
                add_tables page_num (table_num + 1) ts
                  (found @ [\<lparr>table_page = page_num + 1, table_index = table_num,
                             table_text = txt\<rparr>]))
      else add_tables page_num (table_num + 1) ts found)"

text \<open>
  The page loop of \<open>SimpleInsuranceChunker.extract_text_from_pdf\<close>, inside its \<open>try\<close>:
  the result is what has been collected, and the exception that ended the loop, if any.
\<close>

fun extract_pages ::
  "page list \<Rightarrow> nat \<Rightarrow> text_item list \<Rightarrow> simple_table list
     \<Rightarrow> text_item list \<times> simple_table list \<times> py_error option" where
  "extract_pages [] page_num collected found = (collected, found, None)"
| "extract_pages (p # ps) page_num collected found =
     (case page_text p of
        Inl e \<Rightarrow> (collected, found, Some e)
      | Inr text \<Rightarrow>
         (let collected1 = add_page_text page_num text collected
          in case page_tables p of
               Inl e \<Rightarrow> (collected1, found, Some e)
             | Inr page_tabs \<Rightarrow>
                (case add_tables page_num 0 page_tabs found of
                   (found1, Some e) \<Rightarrow> (collected1, found1, Some e)
                 | (found1, None) \<Rightarrow> extract_pages ps (page_num + 1) collected1 found1)))"

text \<open>
  \<open>SimpleInsuranceChunker.extract_text_from_pdf\<close>. \<open>pdf_open\<close> is \<open>pdfplumber.open\<close>.
  Every exception raised in the \<open>try\<close> block is caught and logged there; the return
  statement evaluates \<open>len(pdf.pages)\<close> when the document was opened, and 0 otherwise.
  The result comes with the log.
\<close>

definition extract_text_from_pdf ::
  "(string \<Rightarrow> py_error + pdf) \<Rightarrow> string \<Rightarrow> log_entry list
     \<Rightarrow> (py_error + simple_table extracted_data) \<times> log_entry list" where
  "extract_text_from_pdf pdf_open pdf_path lg =
     (case pdf_open pdf_path of
        Inl e \<Rightarrow>
          (Inr \<lparr>text_content = [], tables = [], total_pages = 0\<rparr>,
           lg @ [Error_extracting pdf_path e])
      | Inr pdf \<Rightarrow>
         (case (case pdf_pages pdf of
                  Inl e \<Rightarrow> ([], [], Some e)
                | Inr pages \<Rightarrow> extract_pages pages 0 [] []) of
            (collected, found, err) \<Rightarrow>
              (let lg1 = (case err of None \<Rightarrow> lg
                          | Some e \<Rightarrow> lg @ [Error_extracting pdf_path e])
               in case pdf_page_count pdf of
                    Inl e \<Rightarrow> (Inl e, lg1)
                  | Inr n \<Rightarrow>
                      (Inr \<lparr>text_content = collected, tables = found, total_pages = n\<rparr>, lg1))))"

text \<open>
  \<open>InsurancePolicyChunker.extract_tables_from_pdf\<close> tries three libraries, each in its
  own \<open>try\<close>. \<open>tabula_read\<close> and \<open>camelot_read\<close> are the two external readers; of a table
  they return, the code reads whether it is empty (its number of rows), its text and,
  for the second, its accuracy, and a reader that returns is taken to return tables on
  which these readings succeed. Opening the same path again, as
  \<open>extract_text_with_structure\<close> does after this method, gives the same document or
  the same exception.
\<close>

record tabula_table =
  tabula_empty :: bool
  tabula_text :: string

record camelot_table =
  camelot_rows :: nat
  camelot_text :: string
  camelot_accuracy :: real

fun tabula_tables :: "nat \<Rightarrow> tabula_table list \<Rightarrow> policy_table list" where
  "tabula_tables i [] = []"
| "tabula_tables i (t # ts) =
     (if \<not> tabula_empty t
      then \<lparr>ptable_method = ''tabula'', ptable_index = i, ptable_page = None,
            ptable_accuracy = None, ptable_text = tabula_text t\<rparr> # tabula_tables (i + 1) ts
      else tabula_tables (i + 1) ts)"

fun camelot_tables :: "nat \<Rightarrow> camelot_table list \<Rightarrow> policy_table list" where
  "camelot_tables i [] = []"
| "camelot_tables i (t # ts) =
     (if camelot_rows t > 0
      then \<lparr>ptable_method = ''camelot'', ptable_index = i, ptable_page = None,
            ptable_accuracy = Some (camelot_accuracy t), ptable_text = camelot_text t\<rparr>
             # camelot_tables (i + 1) ts
      else camelot_tables (i + 1) ts)"

fun add_plumber_tables ::
  "nat \<Rightarrow> nat \<Rightarrow> string option list list list \<Rightarrow> policy_table list
     \<Rightarrow> policy_table list \<times> py_error option" where
  "add_plumber_tables page_num table_num [] found = (found, None)"
| "add_plumber_tables page_num table_num (t # ts) found =
     (if t \<noteq> [] \<and> length t > 1
      then (case table_text_of t of
              Inl e \<Rightarrow> (found, Some e)
            | Inr txt \<Rightarrow>
                add_plumber_tables page_num (table_num + 1) ts
                  (found @ [\<lparr>ptable_method = ''pdfplumber'', ptable_index = table_num,
                             ptable_page = Some (page_num + 1), ptable_accuracy = None,
                             ptable_text = txt\<rparr>]))
      else add_plumber_tables page_num (table_num + 1) ts found)"

fun plumber_pages ::
  "page list \<Rightarrow> nat \<Rightarrow> policy_table list \<Rightarrow> policy_table list \<times> py_error option" where
  "plumber_pages [] page_num found = (found, None)"
| "plumber_pages (p # ps) page_num found =
     (case page_tables p of
        Inl e \<Rightarrow> (found, Some e)
      | Inr page_tabs \<Rightarrow>
         (case add_plumber_tables page_num 0 page_tabs found of
            (found1, Some e) \<Rightarrow> (found1, Some e)
          | (found1, None) \<Rightarrow> plumber_pages ps (page_num + 1) found1))"

definition extract_tables_from_pdf ::
  "(string \<Rightarrow> py_error + tabula_table list) \<Rightarrow> (string \<Rightarrow> py_error + camelot_table list)
     \<Rightarrow> (string \<Rightarrow> py_error + pdf) \<Rightarrow> string \<Rightarrow> log_entry list
     \<Rightarrow> policy_table list \<times> log_entry list" where
  "extract_tables_from_pdf tabula_read camelot_read pdf_open pdf_path lg =
     (let (found1, lg1) =
            (case tabula_read pdf_path of
               Inl e \<Rightarrow> ([], lg @ [Warning_tabula e])
             | Inr ts \<Rightarrow> (tabula_tables 0 ts, lg));
          (found2, lg2) =
            (case camelot_read pdf_path of
               Inl e \<Rightarrow> (found1, lg1 @ [Warning_camelot e])
             | Inr ts \<Rightarrow> (found1 @ camelot_tables 0 ts, lg1));
          (found3, err) =
            (case pdf_open pdf_path of
               Inl e \<Rightarrow> (found2, Some e)
             | Inr pdf \<Rightarrow>
                (case pdf_pages pdf of
                   Inl e \<Rightarrow> (found2, Some e)
                 | Inr pages \<Rightarrow> plumber_pages pages 0 found2))
      in (found3, case err of None \<Rightarrow> lg2 | Some e \<Rightarrow> lg2 @ [Warning_pdfplumber e]))"

text \<open>The page loop of \<open>extract_text_with_structure\<close>: text only.\<close>

fun extract_page_texts ::
  "page list \<Rightarrow> nat \<Rightarrow> text_item list \<Rightarrow> text_item list \<times> py_error option" where
  "extract_page_texts [] page_num collected = (collected, None)"
| "extract_page_texts (p # ps) page_num collected =
     (case page_text p of
        Inl e \<Rightarrow> (collected, Some e)
      | Inr text \<Rightarrow> extract_page_texts ps (page_num + 1) (add_page_text page_num text collected))"

text \<open>\<open>InsurancePolicyChunker.extract_text_with_structure\<close>\<close>

definition extract_text_with_structure ::
  "(string \<Rightarrow> py_error + tabula_table list) \<Rightarrow> (string \<Rightarrow> py_error + camelot_table list)
     \<Rightarrow> (string \<Rightarrow> py_error + pdf) \<Rightarrow> string \<Rightarrow> log_entry list
     \<Rightarrow> (py_error + policy_table extracted_data) \<times> log_entry list" where
  "extract_text_with_structure tabula_read camelot_read pdf_open pdf_path lg =
     (case extract_tables_from_pdf tabula_read camelot_read pdf_open pdf_path lg of
        (found, lg0) \<Rightarrow>
         (case pdf_open pdf_path of
            Inl e \<Rightarrow>
              (Inr \<lparr>text_content = [], tables = found, total_pages = 0\<rparr>,
               lg0 @ [Error_extracting pdf_path e])
          | Inr pdf \<Rightarrow>
             (case (case pdf_pages pdf of
                      Inl e \<Rightarrow> ([], Some e)
                    | Inr pages \<Rightarrow> extract_page_texts pages 0 []) of
                (collected, err) \<Rightarrow>
                  (let lg1 = (case err of None \<Rightarrow> lg0
                              | Some e \<Rightarrow> lg0 @ [Error_extracting pdf_path e])
                   in case pdf_page_count pdf of
                        Inl e \<Rightarrow> (Inl e, lg1)
                      | Inr n \<Rightarrow>
                          (Inr \<lparr>text_content = collected, tables = found, total_pages = n\<rparr>,
                           lg1)))))"

section \<open>Embedding and storing\<close>

text \<open>
  An enhanced chunk: the chunk with the keys \<open>embedding\<close>, \<open>features\<close> and
  \<open>semantic_score\<close> added. The embedding is of any type \<open>'v\<close>, the features of the type
  \<open>'f\<close> the embedder class extracts.
\<close>

record ('v, 'f) enhanced_chunk = chunk +
  embedding :: 'v
  features :: 'f
  semantic_score :: real

text \<open>
  \<open>create_embeddings\<close> and \<open>create_enhanced_embeddings\<close> are the same loop around the
  feature extraction and the score of their class. \<open>encode\<close> is the external embedding
  model, \<open>self.model.encode\<close>, and may raise.
\<close>

fun embed_chunks ::
  "(string \<Rightarrow> py_error + 'f) \<Rightarrow> (string \<Rightarrow> real) \<Rightarrow> (string \<Rightarrow> py_error + 'v) \<Rightarrow> chunk list
     \<Rightarrow> ('v, 'f) enhanced_chunk list \<Rightarrow> py_error + ('v, 'f) enhanced_chunk list" where
  "embed_chunks extract score encode [] enhanced_chunks = Inr enhanced_chunks"
| "embed_chunks extract score encode (c # cs) enhanced_chunks =
     (case extract (chunk_content c) of
        Inl e \<Rightarrow> Inl e
      | Inr f \<Rightarrow>
         (case encode (chunk_content c) of
            Inl e \<Rightarrow> Inl e
          | Inr v \<Rightarrow>
              embed_chunks extract score encode cs
                (enhanced_chunks @
                   [\<lparr>chunk_content = chunk_content c, chunk_type = chunk_type c,
                     chunk_metadata = chunk_metadata c,
                     embedding = v, features = f,
                     semantic_score = score (chunk_content c)\<rparr>])))"

definition create_embeddings ::
  "(string \<Rightarrow> py_error + 'v) \<Rightarrow> chunk list \<Rightarrow> py_error + ('v, features) enhanced_chunk list" where
  "create_embeddings encode chunks =
     embed_chunks SimpleInsuranceEmbedder_extract_features
       SimpleInsuranceEmbedder_calculate_semantic_score encode chunks []"

definition create_enhanced_embeddings ::
  "(string \<Rightarrow> py_error + 'v) \<Rightarrow> chunk list
     \<Rightarrow> py_error + ('v, full_features) enhanced_chunk list" where
  "create_enhanced_embeddings encode chunks =
     embed_chunks InsuranceEmbedder_extract_features
       InsuranceEmbedder_calculate_semantic_score encode chunks []"

text \<open>\<open>str(i)\<close> for a number that is not negative.\<close>

fun str_nat :: "nat \<Rightarrow> string" where
  "str_nat n = (if n < 10 then [digits ! n] else str_nat (n div 10) @ [digits ! (n mod 10)])"

declare str_nat.simps [simp del]

text \<open>
  What \<open>_store_chunks\<close> passes to \<open>collection.add\<close> for one chunk. In the metadata
  dictionary the keys of the features are merged in last, so their \<open>word_count\<close>
  replaces the one read from the chunk's metadata.
\<close>

record 'f stored_metadata =
  source_file :: string
  chunk_index :: nat
  stored_chunk_type :: string
  stored_section_type :: string
  stored_word_count :: nat
  stored_features :: 'f

record ('v, 'f) store_entry =
  entry_embedding :: 'v
  entry_document :: string
  entry_metadata :: "'f stored_metadata"
  entry_id :: string

definition metadata_section_type :: "chunk_metadata \<Rightarrow> string" where
  "metadata_section_type md =
     (case md of TextMetadata s w c t \<Rightarrow> s | _ \<Rightarrow> ''general'')"

definition store_entry_of ::
  "string \<Rightarrow> nat \<Rightarrow> ('v, 'x features_scheme) enhanced_chunk
     \<Rightarrow> ('v, 'x features_scheme) store_entry" where
  "store_entry_of file i c =
     \<lparr>entry_embedding = embedding c,
      entry_document = chunk_content c,
      entry_metadata =
        \<lparr>source_file = file, chunk_index = i, stored_chunk_type = chunk_type c,
         stored_section_type = metadata_section_type (chunk_metadata c),
         stored_word_count = word_count (features c),
         stored_features = features c\<rparr>,
      entry_id = file @ ''_'' @ str_nat i\<rparr>"

text \<open>
  \<open>_store_chunks\<close>: the loop \<open>for i, chunk in enumerate(chunks)\<close>. The vector store is
  external: \<open>collection_add\<close> takes the collection and an entry to the collection
  afterwards and the exception it raised, if any. A raise ends the loop; what was added
  before stays in the collection.
\<close>

fun store_chunks ::
  "('s \<Rightarrow> ('v, 'x features_scheme) store_entry \<Rightarrow> 's \<times> py_error option)
     \<Rightarrow> string \<Rightarrow> nat \<Rightarrow> ('v, 'x features_scheme) enhanced_chunk list \<Rightarrow> 's
     \<Rightarrow> 's \<times> py_error option" where
  "store_chunks collection_add file i [] coll = (coll, None)"
| "store_chunks collection_add file i (c # cs) coll =
     (case collection_add coll (store_entry_of file i c) of
        (coll1, Some e) \<Rightarrow> (coll1, Some e)
      | (coll1, None) \<Rightarrow> store_chunks collection_add file (i + 1) cs coll1)"

section \<open>Document pipeline\<close>

text \<open>
  A file of the directory listing: \<open>pdf_file.name\<close> and \<open>str(pdf_file)\<close>. An entry of
  \<open>processed_docs\<close>. The state \<open>process_pdfs\<close> works on: the collection, the registry
  \<open>processed_docs\<close> and the log.
\<close>

record pdf_file =
  file_name :: string
  file_path :: string

record doc_metadata =
  doc_file_path :: string
  doc_file_size :: nat
  doc_total_pages :: nat
  doc_total_chunks :: nat
  doc_processed_at :: string

record ('v, 'f) processed_doc =
  doc_chunks :: "('v, 'f) enhanced_chunk list"
  doc_metadata :: doc_metadata

record ('v, 'f, 's) rag_state =
  collection :: 's
  processed_docs :: "string \<rightharpoonup> ('v, 'f) processed_doc"
  logged :: "log_entry list"

text \<open>
  The external collaborators of the pipeline: the PDF readers, the sentence splitter,
  the embedding model, the vector store, the file system (\<open>pdf_file.stat().st_size\<close>)
  and the clock, read once per chunk of a file and once per file registered.
\<close>

record ('v, 'x, 's) externals =
  ext_pdf_open :: "string \<Rightarrow> py_error + pdf"
  ext_tabula_read :: "string \<Rightarrow> py_error + tabula_table list"
  ext_camelot_read :: "string \<Rightarrow> py_error + camelot_table list"
  ext_split_sentences :: "string \<Rightarrow> py_error + string list"
  ext_encode :: "string \<Rightarrow> py_error + 'v"
  ext_collection_add :: "'s \<Rightarrow> ('v, 'x features_scheme) store_entry \<Rightarrow> 's \<times> py_error option"
  ext_stat_size :: "string \<Rightarrow> py_error + nat"
  ext_chunk_clock :: "string \<Rightarrow> nat \<Rightarrow> string"
  ext_processed_clock :: "string \<Rightarrow> string"

text \<open>
  The body of the \<open>try\<close> statement in \<open>process_pdfs\<close>, which is the same in both system
  classes but for the three methods it calls: \<open>extract\<close>, \<open>make_chunks\<close> and \<open>embedder\<close>.
  The result is the exception that left the body, if any, and the state at that point.
\<close>

definition try_process ::
  "(string \<Rightarrow> log_entry list \<Rightarrow> (py_error + 't extracted_data) \<times> log_entry list)
     \<Rightarrow> (string \<Rightarrow> 't extracted_data \<Rightarrow> py_error + chunk list)
     \<Rightarrow> (chunk list \<Rightarrow> py_error + ('v, 'x features_scheme) enhanced_chunk list)
     \<Rightarrow> ('v, 'x, 's) externals
     \<Rightarrow> ('v, 'x features_scheme, 's) rag_state \<Rightarrow> pdf_file
     \<Rightarrow> py_error option \<times> ('v, 'x features_scheme, 's) rag_state" where
  "try_process extract make_chunks embedder env st f =
     (case extract (file_path f) (logged st) of
        (Inl e, lg) \<Rightarrow> (Some e, st\<lparr>logged := lg\<rparr>)
      | (Inr extracted, lg) \<Rightarrow>
         (case make_chunks (file_name f) extracted of
            Inl e \<Rightarrow> (Some e, st\<lparr>logged := lg\<rparr>)
          | Inr chunks \<Rightarrow>
             (case embedder chunks of
                Inl e \<Rightarrow> (Some e, st\<lparr>logged := lg\<rparr>)
              | Inr enhanced \<Rightarrow>
                 (case store_chunks (ext_collection_add env) (file_name f) 0 enhanced
                         (collection st) of
                    (coll, Some e) \<Rightarrow> (Some e, st\<lparr>collection := coll, logged := lg\<rparr>)
                  | (coll, None) \<Rightarrow>
                     (case ext_stat_size env (file_path f) of
                        Inl e \<Rightarrow> (Some e, st\<lparr>collection := coll, logged := lg\<rparr>)
                      | Inr file_size \<Rightarrow>
                          (None,
                           \<lparr>collection = coll,
                            processed_docs = (processed_docs st)(file_name f \<mapsto>
                              \<lparr>doc_chunks = enhanced,
                               doc_metadata =
                                 \<lparr>doc_file_path = file_path f,
                                  doc_file_size = file_size,
                                  doc_total_pages = total_pages extracted,
                                  doc_total_chunks = length enhanced,
                                  doc_processed_at = ext_processed_clock env (file_name f)\<rparr>\<rparr>),
                            logged = lg @ [Info_success (file_name f) (length enhanced)]\<rparr>))))))"

text \<open>One round of the loop \<open>for pdf_file in pdf_files\<close>: the \<open>try\<close> and its \<open>except\<close>.\<close>

definition process_pdf ::
  "(string \<Rightarrow> log_entry list \<Rightarrow> (py_error + 't extracted_data) \<times> log_entry list)
     \<Rightarrow> (string \<Rightarrow> 't extracted_data \<Rightarrow> py_error + chunk list)
     \<Rightarrow> (chunk list \<Rightarrow> py_error + ('v, 'x features_scheme) enhanced_chunk list)
     \<Rightarrow> ('v, 'x, 's) externals
     \<Rightarrow> ('v, 'x features_scheme, 's) rag_state \<Rightarrow> pdf_file
     \<Rightarrow> ('v, 'x features_scheme, 's) rag_state" where
  "process_pdf extract make_chunks embedder env st f =
     (case try_process extract make_chunks embedder env
             (st\<lparr>logged := logged st @ [Info_processing (file_name f)]\<rparr>) f of
        (None, st1) \<Rightarrow> st1
      | (Some e, st1) \<Rightarrow> st1\<lparr>logged := logged st1 @ [Error_processing (file_name f) e]\<rparr>)"

fun process_files ::
  "(string \<Rightarrow> log_entry list \<Rightarrow> (py_error + 't extracted_data) \<times> log_entry list)
     \<Rightarrow> (string \<Rightarrow> 't extracted_data \<Rightarrow> py_error + chunk list)
     \<Rightarrow> (chunk list \<Rightarrow> py_error + ('v, 'x features_scheme) enhanced_chunk list)
     \<Rightarrow> ('v, 'x, 's) externals
     \<Rightarrow> ('v, 'x features_scheme, 's) rag_state \<Rightarrow> pdf_file list
     \<Rightarrow> ('v, 'x features_scheme, 's) rag_state" where
  "process_files extract make_chunks embedder env st [] = st"
| "process_files extract make_chunks embedder env st (f # fs) =
     process_files extract make_chunks embedder env
       (process_pdf extract make_chunks embedder env st f) fs"

text \<open>
  \<open>SimpleInsuranceRAGSystem.process_pdfs\<close> and \<open>InsuranceRAGSystem.process_pdfs\<close>.
  \<open>pdf_files\<close> is the directory listing and \<open>csize\<close> the chunk size of the system's
  chunker.
\<close>

definition SimpleInsuranceRAGSystem_process_pdfs ::
  "('v, unit, 's) externals \<Rightarrow> int \<Rightarrow> ('v, features, 's) rag_state \<Rightarrow> pdf_file list
     \<Rightarrow> ('v, features, 's) rag_state" where
  "SimpleInsuranceRAGSystem_process_pdfs env csize st pdf_files =
     process_files
       (extract_text_from_pdf (ext_pdf_open env))
       (\<lambda>name. create_chunks csize (ext_split_sentences env) (ext_chunk_clock env name))
       (create_embeddings (ext_encode env))
       env st pdf_files"

definition InsuranceRAGSystem_process_pdfs ::
  "('v, unit full_features_ext, 's) externals \<Rightarrow> int \<Rightarrow> ('v, full_features, 's) rag_state
     \<Rightarrow> pdf_file list \<Rightarrow> ('v, full_features, 's) rag_state" where
  "InsuranceRAGSystem_process_pdfs env csize st pdf_files =
     process_files
       (extract_text_with_structure (ext_tabula_read env) (ext_camelot_read env)
          (ext_pdf_open env))
       (\<lambda>name. create_semantic_chunks csize (ext_split_sentences env) (ext_chunk_clock env name))
       (create_enhanced_embeddings (ext_encode env))
       env st pdf_files"

text \<open>
  The outcome a log entry reports: the name of the file that was processed or that
  failed. The files the log says were started.
\<close>

fun outcome_of :: "log_entry \<Rightarrow> string option" where
  "outcome_of (Info_success name n) = Some name"
| "outcome_of (Error_processing name e) = Some name"
| "outcome_of x = None"

fun started_of :: "log_entry \<Rightarrow> string option" where
  "started_of (Info_processing name) = Some name"
| "started_of x = None"

definition outcomes :: "log_entry list \<Rightarrow> string list" where
  "outcomes lg = List.map_filter outcome_of lg"

definition started :: "log_entry list \<Rightarrow> string list" where
  "started lg = List.map_filter started_of lg"

text \<open>
  Inputs for the examples. A directory with five files: \<open>broken.pdf\<close> is not a PDF,
  so that opening it raises; \<open>damaged.pdf\<close> opens, but its page tree cannot be read, so
  that every reading of \<open>pdf.pages\<close> raises; \<open>policy.pdf\<close> has one page with one line;
  \<open>partial.pdf\<close> has this page and a second one whose text cannot be extracted;
  \<open>scan.pdf\<close> has this page, but its tables cannot be extracted; \<open>tables.pdf\<close> has
  this page with a table whose second row has an empty cell, \<open>None\<close>. The table readers
  of the second class fail on all of them.
\<close>

definition broken_file :: pdf_file where
  "broken_file = \<lparr>file_name = ''broken.pdf'', file_path = ''Training_pdfs/broken.pdf''\<rparr>"

definition damaged_file :: pdf_file where
  "damaged_file = \<lparr>file_name = ''damaged.pdf'', file_path = ''Training_pdfs/damaged.pdf''\<rparr>"

definition policy_file :: pdf_file where
  "policy_file = \<lparr>file_name = ''policy.pdf'', file_path = ''Training_pdfs/policy.pdf''\<rparr>"

definition partial_file :: pdf_file where
  "partial_file = \<lparr>file_name = ''partial.pdf'', file_path = ''Training_pdfs/partial.pdf''\<rparr>"

definition scan_file :: pdf_file where
  "scan_file = \<lparr>file_name = ''scan.pdf'', file_path = ''Training_pdfs/scan.pdf''\<rparr>"

definition tables_file :: pdf_file where
  "tables_file = \<lparr>file_name = ''tables.pdf'', file_path = ''Training_pdfs/tables.pdf''\<rparr>"

definition coverage_page :: page where
  "coverage_page = \<lparr>page_text = Inr (Some ''Coverage applies.''), page_tables = Inr []\<rparr>"

definition unreadable_page :: page where
  "unreadable_page =
     \<lparr>page_text = Inl (ExternalError ''page unreadable''), page_tables = Inr []\<rparr>"

definition scan_page :: page where
  "scan_page =
     \<lparr>page_text = Inr (Some ''Coverage applies.''),
      page_tables = Inl (ExternalError ''tables unreadable'')\<rparr>"

definition premium_table :: "string option list list" where
  "premium_table = [[Some ''Plan'', Some ''Premium''], [Some ''A'', None]]"

definition tables_page :: page where
  "tables_page =
     \<lparr>page_text = Inr (Some ''Coverage applies.''), page_tables = Inr [premium_table]\<rparr>"

definition damaged_pdf :: pdf where
  "damaged_pdf =
     \<lparr>pdf_pages = Inl (ExternalError ''PSEOF''), pdf_page_count = Inl (ExternalError ''PSEOF'')\<rparr>"

definition policy_pdf :: pdf where
  "policy_pdf = \<lparr>pdf_pages = Inr [coverage_page], pdf_page_count = Inr 1\<rparr>"

definition partial_pdf :: pdf where
  "partial_pdf = \<lparr>pdf_pages = Inr [coverage_page, unreadable_page], pdf_page_count = Inr 2\<rparr>"

definition scan_pdf :: pdf where
  "scan_pdf = \<lparr>pdf_pages = Inr [scan_page], pdf_page_count = Inr 1\<rparr>"

definition tables_pdf :: pdf where
  "tables_pdf = \<lparr>pdf_pages = Inr [tables_page], pdf_page_count = Inr 1\<rparr>"

definition demo_open :: "string \<Rightarrow> py_error + pdf" where
  "demo_open path =
     (if path = ''Training_pdfs/policy.pdf'' then Inr policy_pdf
      else if path = ''Training_pdfs/damaged.pdf'' then Inr damaged_pdf
      else if path = ''Training_pdfs/partial.pdf'' then Inr partial_pdf
      else if path = ''Training_pdfs/scan.pdf'' then Inr scan_pdf
      else if path = ''Training_pdfs/tables.pdf'' then Inr tables_pdf
      else Inl (ExternalError ''PDFSyntaxError''))"

text \<open>
  The other collaborators: a sentence splitter that returns the text as one sentence,
  a store that keeps its entries in a list, and a clock that stands still. In
  \<open>demo_externals\<close> the embedding model is out of service, so that every call raises; in
  \<open>working_externals\<close> it returns; in the three others the sentence splitter, the store
  or the file system fails instead.
\<close>

definition demo_externals ::
  "(nat, 'x, (nat, 'x features_scheme) store_entry list) externals" where
  "demo_externals =
     \<lparr>ext_pdf_open = demo_open,
      ext_tabula_read = (\<lambda>path. Inl (ExternalError ''tabula'')),
      ext_camelot_read = (\<lambda>path. Inl (ExternalError ''camelot'')),
      ext_split_sentences = (\<lambda>t. Inr [t]),
      ext_encode = (\<lambda>t. Inl (ExternalError ''model unavailable'')),
      ext_collection_add = (\<lambda>coll entry. (coll @ [entry], None)),
      ext_stat_size = (\<lambda>path. Inr 2048),
      ext_chunk_clock = (\<lambda>name k. ''2024-01-15T10:00:00''),
      ext_processed_clock = (\<lambda>name. ''2024-01-15T10:00:01'')\<rparr>"

definition working_externals ::
  "(nat, 'x, (nat, 'x features_scheme) store_entry list) externals" where
  "working_externals = demo_externals\<lparr>ext_encode := (\<lambda>t. Inr (length t))\<rparr>"

definition no_splitter_externals ::
  "(nat, 'x, (nat, 'x features_scheme) store_entry list) externals" where
  "no_splitter_externals =
     working_externals\<lparr>ext_split_sentences := (\<lambda>t. Inl (ExternalError ''spacy''))\<rparr>"

definition no_store_externals ::
  "(nat, 'x, (nat, 'x features_scheme) store_entry list) externals" where
  "no_store_externals =
     working_externals
       \<lparr>ext_collection_add := (\<lambda>coll entry. (coll, Some (ExternalError ''store'')))\<rparr>"

definition no_stat_externals ::
  "(nat, 'x, (nat, 'x features_scheme) store_entry list) externals" where
  "no_stat_externals =
     working_externals\<lparr>ext_stat_size := (\<lambda>path. Inl (ExternalError ''stat''))\<rparr>"

definition empty_state ::
  "(nat, 'x features_scheme, (nat, 'x features_scheme) store_entry list) rag_state" where
  "empty_state = \<lparr>collection = [], processed_docs = Map.empty, logged = []\<rparr>"

text \<open>The line and the chunk that the page \<open>Coverage applies.\<close> gives.\<close>

definition coverage_item :: text_item where
  "coverage_item =
     \<lparr>item_page = 1, item_line = 1, item_text = ''Coverage applies.'',
      item_is_header = True, item_section_type = ''coverage''\<rparr>"

definition coverage_chunk :: chunk where
  "coverage_chunk =
     \<lparr>chunk_content = ''Coverage applies.'', chunk_type = ''text'',
      chunk_metadata = TextMetadata ''coverage'' 2 17 ''2024-01-15T10:00:00''\<rparr>"

text \<open>
  An extraction method that only adds to the log, and adds neither a start nor an
  outcome entry.
\<close>

definition quiet_extract ::
  "(string \<Rightarrow> log_entry list \<Rightarrow> (py_error + 't extracted_data) \<times> log_entry list) \<Rightarrow> bool" where
  "quiet_extract extract =
     (\<forall>path lg. \<exists>more. snd (extract path lg) = lg @ more
                       \<and> outcomes more = [] \<and> started more = [])"

section \<open>Properties of the section classifier\<close>

lemma py_in_sublist: "py_in sub s \<longleftrightarrow> sublist sub s"
  by (induction s) (simp_all add: sublist_Cons_right)

lemma py_any_iff: "py_any p xs \<longleftrightarrow> (\<exists>x \<in> set xs. p x)"
  by (induction xs) simp_all

lemma first_match_earliest:
  "i < length rs \<Longrightarrow> rule_hits (rs ! i) text \<Longrightarrow> \<forall>j<i. \<not> rule_hits (rs ! j) text
     \<Longrightarrow> first_match rs text = snd (rs ! i)"
proof (induction rs arbitrary: i)
  case Nil
  then show ?case by simp
next
  case (Cons r rs)
  show ?case
  proof (cases i)
    case 0
    with Cons.prems show ?thesis by simp
  next
    case (Suc k)
    with Cons.prems have "\<not> rule_hits r text" by auto
    moreover have "first_match rs text = snd (rs ! k)"
      using Cons.prems Suc by (intro Cons.IH) auto
    ultimately show ?thesis using Suc by simp
  qed
qed

lemma first_match_none:
  "\<forall>i<length rs. \<not> rule_hits (rs ! i) text \<Longrightarrow> first_match rs text = ''general''"
proof (induction rs)
  case Nil
  then show ?case by simp
next
  case (Cons r rs)
  from Cons.prems have "\<not> rule_hits r text" by auto
  moreover from Cons.prems have "\<forall>i<length rs. \<not> rule_hits (rs ! i) text" by auto
  ultimately show ?case using Cons.IH by simp
qed

lemma classify_section_first_match:
  "classify_section text = first_match section_rules text"
  unfolding classify_section_def section_rules_def Let_def first_match.simps rule_hits_def
    py_any_iff py_in_sublist fst_conv snd_conv
  by (rule refl)

text \<open>
  C2: classification is the first-match cascade over the rules in the order coverage,
  exclusion, definition, condition, premium, claim, schedule, on the lower-cased line:
  the result is the category of the earliest rule that hits, and \<open>general\<close> when
  none hits. A line with keywords of two categories gets the earlier one.
\<close>

theorem classify_section_cascade:
  "map snd section_rules =
      [''coverage'', ''exclusion'', ''definition'', ''condition'', ''premium'', ''claim'', ''schedule'']
   \<and> classify_section text = first_match section_rules text
   \<and> (\<forall>i<length section_rules.
         rule_hits (section_rules ! i) text \<and> (\<forall>j<i. \<not> rule_hits (section_rules ! j) text)
         \<longrightarrow> classify_section text = snd (section_rules ! i))
   \<and> ((\<forall>i<length section_rules. \<not> rule_hits (section_rules ! i) text)
         \<longrightarrow> classify_section text = ''general'')"
  using first_match_earliest [of _ section_rules "text"] first_match_none [of section_rules "text"]
  by (simp add: classify_section_first_match) (simp add: section_rules_def)

lemma hits0: "rule_hits (section_rules ! 0) ''File a Claim under this Coverage''"
  unfolding rule_hits_def section_rules_def
  by (simp add: py_in_sublist [symmetric] lower_def lower_char_def ascii_upper_def ascii_lower_def)

lemma hits5: "rule_hits (section_rules ! 5) ''File a Claim under this Coverage''"
  unfolding rule_hits_def section_rules_def
  by (simp add: py_in_sublist [symmetric] lower_def lower_char_def ascii_upper_def ascii_lower_def)

theorem classify_section_cascade_witness:
  "rule_hits (section_rules ! 0) ''File a Claim under this Coverage''
   \<and> rule_hits (section_rules ! 5) ''File a Claim under this Coverage''
   \<and> classify_section ''File a Claim under this Coverage'' = ''coverage''"
proof -
  have len: "0 < length section_rules" by (simp add: section_rules_def)
  have c: "classify_section ''File a Claim under this Coverage'' = snd (section_rules ! 0)"
    using classify_section_cascade [of "''File a Claim under this Coverage''"] hits0 len by blast
  have "snd (section_rules ! 0) = ''coverage''" by (simp add: section_rules_def)
  with c hits0 hits5 show ?thesis by simp
qed

text \<open>
  C3 (as the code behaves): the line \<open>This is excluded from coverage.\<close> contains
  the coverage keyword \<open>coverage\<close>, and the coverage rule is tried first, so the
  line is classified \<open>coverage\<close>.
\<close>

theorem classify_excluded_from_coverage:
  "classify_section ''This is excluded from coverage.'' = ''coverage''"
  by (simp add: classify_section_def lower_def lower_char_def ascii_upper_def ascii_lower_def)

text \<open>C3 as stated fails: the result is not \<open>exclusion\<close>.\<close>

theorem classify_excluded_from_coverage_not_exclusion:
  "classify_section ''This is excluded from coverage.'' \<noteq> ''exclusion''"
  by (simp add: classify_section_def lower_def lower_char_def ascii_upper_def ascii_lower_def)

section \<open>Properties of the feature extractor\<close>

lemma split_sep_nonempty: "split_sep sep cur s \<noteq> []"
  by (induction s arbitrary: cur) simp_all

lemma py_split_on_nonempty: "py_split_on sep s \<noteq> []"
  by (simp add: py_split_on_def split_sep_nonempty)

lemma py_split_on_length: "1 \<le> length (py_split_on sep s)"
  using py_split_on_nonempty [of sep s] by (cases "py_split_on sep s") simp_all

lemma simple_features_total:
  "SimpleInsuranceEmbedder_extract_features text = Inr
     \<lparr>insurance_terms = map (\<lambda>term. (term, py_count term (lower text)))
                          SimpleInsuranceEmbedder_insurance_terms,
      amounts = findall re_amount text,
      percentages = findall re_percentage text,
      dates = findall re_date text,
      word_count = length (py_split text),
      sentence_count = length (py_split_on CHR ''.'' text),
      avg_sentence_length =
        real (length (py_split text)) / real (length (py_split_on CHR ''.'' text)),
      has_table_data = py_any is_digit text,
      has_legal_terms = py_any (\<lambda>term. py_in term (lower text))
                          [''shall'', ''must'', ''required'', ''obligation'']\<rparr>"
  using py_split_on_nonempty [of "CHR ''.''" "text"]
  by (simp add: SimpleInsuranceEmbedder_extract_features_def Let_def py_truediv_def)

lemma full_features_total:
  "InsuranceEmbedder_extract_features text = Inr
     \<lparr>insurance_terms = map (\<lambda>term. (term, py_count term (lower text)))
                          InsuranceEmbedder_insurance_terms,
      amounts = findall re_amount text,
      percentages = findall re_percentage text,
      dates = findall re_date text,
      word_count = length (py_split text),
      sentence_count = length (py_split_on CHR ''.'' text),
      avg_sentence_length =
        real (length (py_split text)) / real (length (py_split_on CHR ''.'' text)),
      has_table_data = py_any is_digit text,
      has_legal_terms = py_any (\<lambda>term. py_in term (lower text))
                          [''shall'', ''must'', ''required'', ''obligation''],
      policy_references = findall re_policy_ref text\<rparr>"
  using py_split_on_nonempty [of "CHR ''.''" "text"]
  by (simp add: InsuranceEmbedder_extract_features_def Let_def py_truediv_def)

text \<open>
  C9: for every text, feature extraction returns (the division raises nothing), the
  sentence count is the number of pieces of the split on \<open>.\<close> and is at least 1, and the
  average sentence length is the word count over \<open>max(sentence_count, 1)\<close>. Both
  embedder classes.
\<close>

theorem sentence_count_positive:
  "(\<exists>f. SimpleInsuranceEmbedder_extract_features text = Inr f
        \<and> sentence_count f = length (py_split_on CHR ''.'' text)
        \<and> word_count f = length (py_split text)
        \<and> 1 \<le> sentence_count f
        \<and> avg_sentence_length f = real (word_count f) / real (sentence_count f)
        \<and> avg_sentence_length f = real (word_count f) / real (max (sentence_count f) 1))
   \<and> (\<exists>f. InsuranceEmbedder_extract_features text = Inr f
        \<and> sentence_count f = length (py_split_on CHR ''.'' text)
        \<and> word_count f = length (py_split text)
        \<and> 1 \<le> sentence_count f
        \<and> avg_sentence_length f = real (word_count f) / real (sentence_count f)
        \<and> avg_sentence_length f = real (word_count f) / real (max (sentence_count f) 1))"
proof -
  have n: "Suc 0 \<le> length (py_split_on CHR ''.'' text)"
    using py_split_on_length [of "CHR ''.''" "text"] by simp
  then have m: "max (length (py_split_on CHR ''.'' text)) (Suc 0)
                  = length (py_split_on CHR ''.'' text)"
    by simp
  show ?thesis
    by (simp add: simple_features_total full_features_total n m)
qed

lemma fixture_amounts: "findall re_amount fixture = [''$1,200.50'']"
  unfolding fixture_def by code_simp

lemma fixture_percentages: "findall re_percentage fixture = [''10%'']"
  unfolding fixture_def by code_simp

lemma fixture_dates: "findall re_date fixture = [''01/15/2024'']"
  unfolding fixture_def by code_simp

lemma fixture_premium: "py_count ''premium'' (lower fixture) = 1"
  unfolding fixture_def by code_simp

lemma simple_terms_premium:
  "map_of (map (\<lambda>term. (term, f term)) SimpleInsuranceEmbedder_insurance_terms) ''premium''
     = Some (f ''premium'')"
  by (simp add: SimpleInsuranceEmbedder_insurance_terms_def)

lemma full_terms_premium:
  "map_of (map (\<lambda>term. (term, f term)) InsuranceEmbedder_insurance_terms) ''premium''
     = Some (f ''premium'')"
  by (simp add: InsuranceEmbedder_insurance_terms_def)

text \<open>
  C5: on the fixture \<open>The premium is $1,200.50 due by 01/15/2024 (10% surcharge).\<close>
  feature extraction returns amounts \<open>[$1,200.50]\<close>, percentages \<open>[10%]\<close>, dates
  \<open>[01/15/2024]\<close> and the count 1 for the term \<open>premium\<close>. Both embedder classes.
\<close>

theorem extract_features_fixture:
  "(\<exists>f. SimpleInsuranceEmbedder_extract_features fixture = Inr f
        \<and> amounts f = [''$1,200.50'']
        \<and> percentages f = [''10%'']
        \<and> dates f = [''01/15/2024'']
        \<and> map_of (insurance_terms f) ''premium'' = Some 1)
   \<and> (\<exists>f. InsuranceEmbedder_extract_features fixture = Inr f
        \<and> amounts f = [''$1,200.50'']
        \<and> percentages f = [''10%'']
        \<and> dates f = [''01/15/2024'']
        \<and> map_of (insurance_terms f) ''premium'' = Some 1)"
  by (simp add: simple_features_total full_features_total fixture_amounts fixture_percentages
      fixture_dates fixture_premium simple_terms_premium full_terms_premium)

section \<open>Properties of the semantic score\<close>

lemma rmatch_digit_run_nondigit:
  "\<not> is_digit c \<Longrightarrow> rmatch re_digit_run (c # cs) = []"
  by (simp add: re_digit_run_def is_digit_def)

lemma rmatch_digit_run_digit:
  "is_digit c \<Longrightarrow>
     rmatch re_digit_run (c # cs)
       = rev [1..<Suc (Suc (length (takeWhile is_digit cs)))]"
proof -
  assume "is_digit c"
  then have "takeWhile (\<lambda>c. c \<in> set digits) (c # cs) = c # takeWhile is_digit cs"
    unfolding is_digit_def [abs_def] by simp
  then show ?thesis by (simp add: re_digit_run_def)
qed

lemma findall_digit_run_Nil: "findall re_digit_run [] = []"
  by (simp add: findall.simps re_digit_run_def)

lemma findall_digit_run_nondigit:
  "\<not> is_digit c \<Longrightarrow> findall re_digit_run (c # cs) = findall re_digit_run cs"
  by (subst findall.simps) (simp add: rmatch_digit_run_nondigit)

lemma take_drop_run:
  "take (length (takeWhile p xs)) xs = takeWhile p xs"
  "drop (length (takeWhile p xs)) xs = dropWhile p xs"
  by (induction xs) simp_all

lemma findall_digit_run_digit:
  assumes "is_digit c"
  shows "findall re_digit_run (c # cs)
           = (c # takeWhile is_digit cs) # findall re_digit_run (dropWhile is_digit cs)"
proof -
  let ?n = "length (takeWhile is_digit cs)"
  have "rmatch re_digit_run (c # cs) = Suc ?n # rev [1..<Suc ?n]"
    using rmatch_digit_run_digit [OF assms, of cs] by simp
  then have "findall re_digit_run (c # cs)
               = take (Suc ?n) (c # cs) # findall re_digit_run (drop (max (Suc ?n) 1) (c # cs))"
    by (subst findall.simps) simp
  then show ?thesis by (simp add: take_drop_run)
qed

lemma findall_digit_runs: "findall re_digit_run s = digit_runs s"
proof (induction s rule: digit_runs.induct)
  case 1
  show ?case by (simp add: findall_digit_run_Nil)
next
  case (2 c cs)
  show ?case
  proof (cases "is_digit c")
    case True
    with 2 show ?thesis by (simp add: findall_digit_run_digit)
  next
    case False
    with 2 show ?thesis by (simp add: findall_digit_run_nondigit)
  qed
qed

lemma sum_ones: "sum_list (map (\<lambda>x. Suc 0) xs) = length xs"
  by (induction xs) simp_all

lemma sum_ones_filter: "sum_list (map (\<lambda>x. 1::nat) (filter p xs)) = length (filter p xs)"
  by (simp add: sum_ones)

lemma length_filter_card:
  assumes "distinct xs"
  shows "length (filter p xs) = card {x \<in> set xs. p x}"
proof -
  from assms have "distinct (filter p xs)" by simp
  then have "card (set (filter p xs)) = length (filter p xs)"
    by (rule distinct_card)
  then show ?thesis by simp
qed

lemma distinct_simple_terms: "distinct SimpleInsuranceEmbedder_insurance_terms"
  by (simp add: SimpleInsuranceEmbedder_insurance_terms_def)

lemma distinct_full_terms: "distinct InsuranceEmbedder_insurance_terms"
  by (simp add: InsuranceEmbedder_insurance_terms_def)

lemma distinct_legal_words: "distinct legal_words"
  by (simp add: legal_words_def)

lemma calculate_semantic_score_eq:
  assumes "distinct terms"
  shows "calculate_semantic_score terms text
           = min ((real (card (present terms text)) + real (card (present legal_words text))
                    + 0.1 * real (length (digit_runs text)))
                  / real (max (length (py_split text)) 1)) 1"
  using assms
  by (simp add: calculate_semantic_score_def Let_def sum_ones length_filter_card
      distinct_legal_words findall_digit_runs present_def py_in_sublist)

lemma calculate_semantic_score_bounds:
  "0 \<le> calculate_semantic_score terms text \<and> calculate_semantic_score terms text \<le> 1"
  by (simp add: calculate_semantic_score_def Let_def)

text \<open>
  C6 (as the code behaves): the score is (term_score + legal_boost + numerical_boost)
  over \<open>max(word_count, 1)\<close>, capped at 1, and lies between 0 and 1; term_score is the
  number of vocabulary terms present in the lower-cased text, legal_boost the number
  of the five words shall, must, required, obligation, liability present in it (each
  counted once), and numerical_boost 0.1 times the number of digit runs. Both embedder
  classes.
\<close>

theorem semantic_score_formula:
  "SimpleInsuranceEmbedder_calculate_semantic_score text
     = min ((real (card (present SimpleInsuranceEmbedder_insurance_terms text))
              + real (card (present legal_words text))
              + 0.1 * real (length (digit_runs text)))
            / real (max (length (py_split text)) 1)) 1
   \<and> InsuranceEmbedder_calculate_semantic_score text
     = min ((real (card (present InsuranceEmbedder_insurance_terms text))
              + real (card (present legal_words text))
              + 0.1 * real (length (digit_runs text)))
            / real (max (length (py_split text)) 1)) 1
   \<and> 0 \<le> SimpleInsuranceEmbedder_calculate_semantic_score text
   \<and> SimpleInsuranceEmbedder_calculate_semantic_score text \<le> 1
   \<and> 0 \<le> InsuranceEmbedder_calculate_semantic_score text
   \<and> InsuranceEmbedder_calculate_semantic_score text \<le> 1"
  unfolding SimpleInsuranceEmbedder_calculate_semantic_score_def
    InsuranceEmbedder_calculate_semantic_score_def
  using calculate_semantic_score_eq [OF distinct_simple_terms, of "text"]
    calculate_semantic_score_eq [OF distinct_full_terms, of "text"]
    calculate_semantic_score_bounds [of SimpleInsuranceEmbedder_insurance_terms "text"]
    calculate_semantic_score_bounds [of InsuranceEmbedder_insurance_terms "text"]
  by simp

lemma shall_terms_simple:
  "filter (\<lambda>term. py_in term (lower ''shall shall'')) SimpleInsuranceEmbedder_insurance_terms = []"
  by code_simp

lemma shall_terms_full:
  "filter (\<lambda>term. py_in term (lower ''shall shall'')) InsuranceEmbedder_insurance_terms = []"
  by code_simp

lemma shall_legal:
  "filter (\<lambda>word. py_in word (lower ''shall shall'')) legal_words = [''shall'']"
  by code_simp

lemma shall_occurrences:
  "map (\<lambda>word. py_count word (lower ''shall shall'')) legal_words = [2, 0, 0, 0, 0]"
  by code_simp

lemma shall_digits: "findall re_digit_run ''shall shall'' = []"
  by code_simp

lemma shall_words: "length (py_split ''shall shall'') = 2"
  by code_simp

lemma shall_score: "calculate_semantic_score terms ''shall shall''
    = min ((real (length (filter (\<lambda>term. py_in term (lower ''shall shall'')) terms)) + 1) / 2) 1"
  by (simp add: calculate_semantic_score_def Let_def sum_ones shall_legal shall_digits
      shall_words)

lemma shall_specified: "distinct terms \<Longrightarrow> semantic_score_as_specified terms ''shall shall''
    = min ((real (length (filter (\<lambda>term. py_in term (lower ''shall shall'')) terms)) + 2) / 2) 1"
  by (simp add: semantic_score_as_specified_def Let_def shall_occurrences shall_words
      findall_digit_runs [symmetric] shall_digits)

text \<open>
  C6 as stated fails: with legal_boost the number of occurrences, the text
  \<open>shall shall\<close> would score (0 + 2 + 0) / 2 = 1; the code scores it (0 + 1 + 0) / 2.
\<close>

theorem semantic_score_occurrences_counterexample:
  "SimpleInsuranceEmbedder_calculate_semantic_score ''shall shall'' = 1 / 2
   \<and> semantic_score_as_specified SimpleInsuranceEmbedder_insurance_terms ''shall shall'' = 1
   \<and> InsuranceEmbedder_calculate_semantic_score ''shall shall'' = 1 / 2
   \<and> semantic_score_as_specified InsuranceEmbedder_insurance_terms ''shall shall'' = 1"
  by (simp add: SimpleInsuranceEmbedder_calculate_semantic_score_def
      InsuranceEmbedder_calculate_semantic_score_def shall_score
      shall_specified [OF distinct_simple_terms] shall_specified [OF distinct_full_terms]
      shall_terms_simple shall_terms_full)

section \<open>Properties of chunker construction\<close>

text \<open>
  C7 (as the code behaves): the constructors check nothing. Constructing a
  \<open>SimpleInsuranceChunker\<close> succeeds for every chunk size and stores it unchanged;
  constructing an \<open>InsurancePolicyChunker\<close> raises exactly when one of the two
  text-splitter constructors of the external library raises.
\<close>

theorem chunker_init_unchecked:
  "SimpleInsuranceChunker_init csize coverlap
     = Inr \<lparr>chunk_size = csize, chunk_overlap = coverlap,
            section_keywords = section_keywords_list\<rparr>
   \<and> isl (InsurancePolicyChunker_init mk_recursive mk_token csize coverlap)
       = (isl (mk_recursive csize coverlap [[CHR 0x0A, CHR 0x0A], [CHR 0x0A], ''. '', '' '', ''''])
          \<or> isl (mk_token csize coverlap))"
  by (simp add: SimpleInsuranceChunker_init_def InsurancePolicyChunker_init_def
      split: sum.splits)

text \<open>
  C7 as stated fails: chunk sizes 0 and -1 are accepted at construction, with the
  default overlap 50.
\<close>

theorem chunker_init_accepts_nonpositive:
  "SimpleInsuranceChunker_init 0 50
     = Inr \<lparr>chunk_size = 0, chunk_overlap = 50, section_keywords = section_keywords_list\<rparr>
   \<and> SimpleInsuranceChunker_init (- 1) 50
     = Inr \<lparr>chunk_size = - 1, chunk_overlap = 50, section_keywords = section_keywords_list\<rparr>"
  by (simp add: SimpleInsuranceChunker_init_def)

section \<open>Properties of retrieval\<close>

lemma format_results_Inr:
  "format_results results idx formatted = Inr out \<Longrightarrow>
     \<exists>rs. out = formatted @ rs \<and> length rs = length idx
          \<and> (\<forall>k<length idx. format_result results (idx ! k) = Inr (rs ! k))"
proof (induction idx arbitrary: formatted)
  case Nil
  then show ?case by simp
next
  case (Cons i rest)
  from Cons.prems obtain r where r: "format_result results i = Inr r"
    and rec: "format_results results rest (formatted @ [r]) = Inr out"
    by (auto split: sum.splits)
  from Cons.IH [OF rec] obtain rs where rs: "out = (formatted @ [r]) @ rs"
    "length rs = length rest"
    "\<forall>k<length rest. format_result results (rest ! k) = Inr (rs ! k)"
    by blast
  have "\<forall>k<length (i # rest). format_result results ((i # rest) ! k) = Inr ((r # rs) ! k)"
  proof (intro allI impI)
    fix k assume "k < length (i # rest)"
    then show "format_result results ((i # rest) ! k) = Inr ((r # rs) ! k)"
      using r rs(3) by (cases k) simp_all
  qed
  with rs(1,2) show ?case
    by (intro exI [of _ "r # rs"]) simp
qed

lemma format_results_total:
  "\<forall>i \<in> set idx. \<exists>r. format_result results i = Inr r \<Longrightarrow>
     \<exists>out. format_results results idx formatted = Inr out"
proof (induction idx arbitrary: formatted)
  case Nil
  then show ?case by simp
next
  case (Cons i rest)
  from Cons.prems obtain r where r: "format_result results i = Inr r" by auto
  from Cons.prems have "\<forall>j \<in> set rest. \<exists>r. format_result results j = Inr r" by simp
  from Cons.IH [OF this, of "formatted @ [r]"] r show ?case by simp
qed

lemma format_result_Inr:
  assumes "format_result results i = Inr r"
    and "py_index (documents results) 0 = Inr docs"
    and "py_index (metadatas results) 0 = Inr metas"
    and "py_index (distances results) 0 = Inr dists"
  shows "i < length docs \<and> i < length metas \<and> i < length dists
         \<and> content r = docs ! i \<and> metadata r = metas ! i
         \<and> similarity_score r = 1 - dists ! i \<and> rank r = int i + 1"
  using assms
  by (auto simp: format_result_def py_index_def split: sum.splits if_splits)

lemma format_result_heads:
  assumes "format_result results i = Inr r"
  shows "\<exists>docs metas dists. py_index (documents results) 0 = Inr docs
           \<and> py_index (metadatas results) 0 = Inr metas
           \<and> py_index (distances results) 0 = Inr dists"
  using assms by (auto simp: format_result_def split: sum.splits)

lemma format_result_total:
  assumes "py_index (documents results) 0 = Inr docs"
    and "py_index (metadatas results) 0 = Inr metas"
    and "py_index (distances results) 0 = Inr dists"
    and "i < length docs" and "i < length metas" and "i < length dists"
  shows "\<exists>r. format_result results i = Inr r"
  using assms by (simp add: format_result_def py_index_def)

lemma query_Inr:
  assumes "query encode collection_query question top_k filter_metadata = Inr rs"
  shows "\<exists>qe results docs. encode question = Inr qe
           \<and> collection_query qe top_k (where_clause_of filter_metadata) = Inr results
           \<and> py_index (documents results) 0 = Inr docs
           \<and> format_results results [0..<length docs] [] = Inr rs"
  using assms by (auto simp: query_def Let_def split: sum.splits)

text \<open>
  C4: when \<open>query\<close> returns, it returns one result per document the store returned, in
  the store's order; the result at position i has similarity 1 minus the store's
  distance at position i, and rank i + 1. It does return whenever the store returns
  a distance and a metadata entry for every document.
\<close>

theorem query_similarity_and_rank:
  "(query encode collection_query question top_k filter_metadata = Inr rs \<longrightarrow>
      (\<exists>qe results docs metas dists.
          encode question = Inr qe
        \<and> collection_query qe top_k (where_clause_of filter_metadata) = Inr results
        \<and> py_index (documents results) 0 = Inr docs
        \<and> (rs \<noteq> [] \<longrightarrow> py_index (metadatas results) 0 = Inr metas
                        \<and> py_index (distances results) 0 = Inr dists)
        \<and> length rs = length docs
        \<and> (\<forall>i<length rs. i < length metas \<and> i < length dists
               \<and> content (rs ! i) = docs ! i
               \<and> metadata (rs ! i) = metas ! i
               \<and> similarity_score (rs ! i) = 1 - dists ! i
               \<and> rank (rs ! i) = int i + 1)))
   \<and> (encode question = Inr qe
        \<and> collection_query qe top_k (where_clause_of filter_metadata) = Inr results
        \<and> py_index (documents results) 0 = Inr docs
        \<and> py_index (metadatas results) 0 = Inr metas
        \<and> py_index (distances results) 0 = Inr dists
        \<and> length docs \<le> length metas \<and> length docs \<le> length dists
      \<longrightarrow> (\<exists>rs. query encode collection_query question top_k filter_metadata = Inr rs))"
proof (intro conjI impI)
  assume q: "query encode collection_query question top_k filter_metadata = Inr rs"
  from query_Inr [OF q] obtain qe results docs where
    e: "encode question = Inr qe"
    and c: "collection_query qe top_k (where_clause_of filter_metadata) = Inr results"
    and d: "py_index (documents results) 0 = Inr docs"
    and f: "format_results results [0..<length docs] [] = Inr rs"
    by blast
  from format_results_Inr [OF f] have len: "length rs = length docs"
    and each: "\<forall>k<length docs. format_result results k = Inr (rs ! k)"
    by auto
  show "\<exists>qe results docs metas dists.
          encode question = Inr qe
        \<and> collection_query qe top_k (where_clause_of filter_metadata) = Inr results
        \<and> py_index (documents results) 0 = Inr docs
        \<and> (rs \<noteq> [] \<longrightarrow> py_index (metadatas results) 0 = Inr metas
                        \<and> py_index (distances results) 0 = Inr dists)
        \<and> length rs = length docs
        \<and> (\<forall>i<length rs. i < length metas \<and> i < length dists
               \<and> content (rs ! i) = docs ! i
               \<and> metadata (rs ! i) = metas ! i
               \<and> similarity_score (rs ! i) = 1 - dists ! i
               \<and> rank (rs ! i) = int i + 1)"
  proof (cases "rs = []")
    case True
    with e c d len show ?thesis by auto
  next
    case False
    with len have "0 < length docs" by auto
    with each have "format_result results 0 = Inr (rs ! 0)" by blast
    from format_result_heads [OF this] obtain docs' metas dists where
      h: "py_index (documents results) 0 = Inr docs'"
         "py_index (metadatas results) 0 = Inr metas"
         "py_index (distances results) 0 = Inr dists"
      by blast
    have "\<forall>i<length rs. i < length metas \<and> i < length dists
               \<and> content (rs ! i) = docs ! i
               \<and> metadata (rs ! i) = metas ! i
               \<and> similarity_score (rs ! i) = 1 - dists ! i
               \<and> rank (rs ! i) = int i + 1"
    proof (intro allI impI)
      fix i assume "i < length rs"
      with len each have "format_result results i = Inr (rs ! i)" by simp
      from format_result_Inr [OF this d h(2) h(3)]
      show "i < length metas \<and> i < length dists
               \<and> content (rs ! i) = docs ! i
               \<and> metadata (rs ! i) = metas ! i
               \<and> similarity_score (rs ! i) = 1 - dists ! i
               \<and> rank (rs ! i) = int i + 1" by simp
    qed
    with e c d h len show ?thesis by blast
  qed
next
  assume a: "encode question = Inr qe
        \<and> collection_query qe top_k (where_clause_of filter_metadata) = Inr results
        \<and> py_index (documents results) 0 = Inr docs
        \<and> py_index (metadatas results) 0 = Inr metas
        \<and> py_index (distances results) 0 = Inr dists
        \<and> length docs \<le> length metas \<and> length docs \<le> length dists"
  then have "\<forall>i \<in> set [0..<length docs]. \<exists>r. format_result results i = Inr r"
    using format_result_total [of results docs metas dists] by auto
  from format_results_total [OF this, of "[]"] a
  show "\<exists>rs. query encode collection_query question top_k filter_metadata = Inr rs"
    by (simp add: query_def Let_def)
qed

text \<open>
  The theorem at a store that returns the distances 0.2 and 0.5: the similarities are
  0.8 and 0.5 and the ranks 1 and 2.
\<close>

theorem query_similarity_and_rank_witness:
  "\<exists>rs. query (\<lambda>q. Inr ()) demo_store ''What is covered?'' 5 None = Inr rs
        \<and> length rs = 2
        \<and> similarity_score (rs ! 0) = 0.8 \<and> rank (rs ! 0) = 1
        \<and> similarity_score (rs ! 1) = 0.5 \<and> rank (rs ! 1) = 2"
proof -
  let ?res = "\<lparr>documents = [[''first'', ''second'']], metadatas = [[''a.pdf'', ''b.pdf'']],
                distances = [[0.2, 0.5 :: real]]\<rparr>"
  let ?q = "query (\<lambda>q. Inr ()) demo_store ''What is covered?'' 5 None"
  have store: "demo_store () 5 (where_clause_of None) = Inr ?res"
    by (simp add: demo_store_def)
  have idx: "py_index (documents ?res) 0 = Inr [''first'', ''second'']"
    "py_index (metadatas ?res) 0 = Inr [''a.pdf'', ''b.pdf'']"
    "py_index (distances ?res) 0 = Inr [0.2, 0.5]"
    by (simp_all add: py_index_def)
  note main = query_similarity_and_rank
    [of "\<lambda>q. Inr ()" demo_store "''What is covered?''" 5 None _ "()" ?res
        "[''first'', ''second'']" "[''a.pdf'', ''b.pdf'']" "[0.2, 0.5]"]
  from main store idx obtain rs where rs: "?q = Inr rs" by auto
  from main [of rs] rs store idx
  have "length rs = 2 \<and> similarity_score (rs ! 0) = 1 - 0.2 \<and> rank (rs ! 0) = 1
        \<and> similarity_score (rs ! 1) = 1 - 0.5 \<and> rank (rs ! 1) = 2"
    by (auto simp: py_index_def)
  with rs show ?thesis by simp
qed

section \<open>Properties of the chunk builder\<close>

subsection \<open>The chunks are built from the recorded text lists\<close>

lemma chunks_of_parts_Nil: "chunks_of_parts clock [] = []"
  by (simp add: chunks_of_parts_def)

lemma length_chunks_of_parts: "length (chunks_of_parts clock parts) = length parts"
  by (simp add: chunks_of_parts_def)

lemma chunks_of_parts_nth:
  "k < length parts \<Longrightarrow>
     chunks_of_parts clock parts ! k
       = create_chunk_metadata (fst (parts ! k)) (snd (parts ! k)) (clock k)"
  by (simp add: chunks_of_parts_def)

lemma chunks_of_parts_snoc:
  "chunks_of_parts clock (parts @ [p])
     = chunks_of_parts clock parts
         @ [create_chunk_metadata (fst p) (snd p) (clock (length parts))]"
  by (simp add: chunks_of_parts_def nth_append cong: map_cong)

lemma split_loop_parts:
  "split_loop csize clock sec sentences temp (chunks_of_parts clock parts)
     = (case split_parts csize sec sentences temp parts of
          (temp', parts') \<Rightarrow> (temp', chunks_of_parts clock parts'))"
proof (induction sentences arbitrary: temp parts)
  case Nil
  show ?case by simp
next
  case (Cons s rest)
  show ?case
    using Cons.IH [of "[s]" "parts @ [(temp, sec)]"] Cons.IH [of "temp @ [s]" parts]
    by (simp add: Let_def chunks_of_parts_snoc length_chunks_of_parts)
qed

lemma parts_loop_Cons:
  "parts_loop csize split_sentences (item # items) cur sec parts
     = (let new = (item_is_header item \<and> item_section_type item \<noteq> sec);
            parts1 = (if new then (if cur \<noteq> [] then parts @ [(cur, sec)] else parts)
                      else parts);
            cur1 = (if new then [item_text item] else cur @ [item_text item]);
            sec1 = (if new then item_section_type item else sec)
        in if int (length (py_split (py_join '' '' cur1))) > csize
           then (case split_sentences (py_join '' '' cur1) of
                   Inl e \<Rightarrow> Inl e
                 | Inr sentences \<Rightarrow>
                    (case split_parts csize sec1 sentences [] parts1 of
                       (temp_chunk, parts2) \<Rightarrow>
                         parts_loop csize split_sentences items temp_chunk sec1 parts2))
           else parts_loop csize split_sentences items cur1 sec1 parts1)"
proof (cases "item_is_header item \<and> item_section_type item \<noteq> sec")
  case True
  then have new: "(item_is_header item \<and> item_section_type item \<noteq> sec) = True" by simp
  show ?thesis by (simp add: new Let_def)
next
  case False
  then have new: "(item_is_header item \<and> item_section_type item \<noteq> sec) = False" by simp
  show ?thesis by (simp add: new Let_def)
qed

lemma chunk_loop_Cons:
  "chunk_loop csize split_sentences clock (item # items) cur sec chunks
     = (let new = (item_is_header item \<and> item_section_type item \<noteq> sec);
            chunks1 = (if new
                       then (if cur \<noteq> []
                             then chunks @ [create_chunk_metadata cur sec (clock (length chunks))]
                             else chunks)
                       else chunks);
            cur1 = (if new then [item_text item] else cur @ [item_text item]);
            sec1 = (if new then item_section_type item else sec)
        in if int (length (py_split (py_join '' '' cur1))) > csize
           then (case split_sentences (py_join '' '' cur1) of
                   Inl e \<Rightarrow> Inl e
                 | Inr sentences \<Rightarrow>
                    (case split_loop csize clock sec1 sentences [] chunks1 of
                       (temp_chunk, chunks2) \<Rightarrow>
                         chunk_loop csize split_sentences clock items temp_chunk sec1 chunks2))
           else chunk_loop csize split_sentences clock items cur1 sec1 chunks1)"
proof (cases "item_is_header item \<and> item_section_type item \<noteq> sec")
  case True
  then have new: "(item_is_header item \<and> item_section_type item \<noteq> sec) = True" by simp
  show ?thesis by (simp add: new Let_def)
next
  case False
  then have new: "(item_is_header item \<and> item_section_type item \<noteq> sec) = False" by simp
  show ?thesis by (simp add: new Let_def)
qed

lemma chunk_loop_parts:
  "chunk_loop csize split_sentences clock items cur sec (chunks_of_parts clock parts)
     = (case parts_loop csize split_sentences items cur sec parts of
          Inl e \<Rightarrow> Inl e
        | Inr (cur', sec', parts') \<Rightarrow> Inr (cur', sec', chunks_of_parts clock parts'))"
proof (induction items arbitrary: cur sec parts)
  case Nil
  show ?case by simp
next
  case (Cons item items)
  let ?new = "item_is_header item \<and> item_section_type item \<noteq> sec"
  let ?parts1 = "if ?new then (if cur \<noteq> [] then parts @ [(cur, sec)] else parts) else parts"
  let ?cur1 = "if ?new then [item_text item] else cur @ [item_text item]"
  let ?sec1 = "if ?new then item_section_type item else sec"
  have chunks1: "(if ?new
          then (if cur \<noteq> []
                then chunks_of_parts clock parts
                       @ [create_chunk_metadata cur sec (clock (length (chunks_of_parts clock parts)))]
                else chunks_of_parts clock parts)
          else chunks_of_parts clock parts) = chunks_of_parts clock ?parts1"
    by (simp add: chunks_of_parts_snoc length_chunks_of_parts)
  have step_c: "chunk_loop csize split_sentences clock (item # items) cur sec
                  (chunks_of_parts clock parts)
      = (if int (length (py_split (py_join '' '' ?cur1))) > csize
         then (case split_sentences (py_join '' '' ?cur1) of
                 Inl e \<Rightarrow> Inl e
               | Inr sentences \<Rightarrow>
                  (case split_loop csize clock ?sec1 sentences [] (chunks_of_parts clock ?parts1) of
                     (temp_chunk, chunks2) \<Rightarrow>
                       chunk_loop csize split_sentences clock items temp_chunk ?sec1 chunks2))
         else chunk_loop csize split_sentences clock items ?cur1 ?sec1
                (chunks_of_parts clock ?parts1))"
    unfolding chunk_loop_Cons Let_def chunks1 ..
  have step_p: "parts_loop csize split_sentences (item # items) cur sec parts
      = (if int (length (py_split (py_join '' '' ?cur1))) > csize
         then (case split_sentences (py_join '' '' ?cur1) of
                 Inl e \<Rightarrow> Inl e
               | Inr sentences \<Rightarrow>
                  (case split_parts csize ?sec1 sentences [] ?parts1 of
                     (temp_chunk, parts2) \<Rightarrow>
                       parts_loop csize split_sentences items temp_chunk ?sec1 parts2))
         else parts_loop csize split_sentences items ?cur1 ?sec1 ?parts1)"
    unfolding parts_loop_Cons Let_def ..
  show ?case
  proof (cases "int (length (py_split (py_join '' '' ?cur1))) > csize")
    case True
    show ?thesis
    proof (cases "split_sentences (py_join '' '' ?cur1)")
      case (Inl e)
      with True show ?thesis unfolding step_c step_p by simp
    next
      case (Inr sentences)
      obtain temp parts2 where
        inner: "split_parts csize ?sec1 sentences [] ?parts1 = (temp, parts2)"
        by (cases "split_parts csize ?sec1 sentences [] ?parts1")
      then have "split_loop csize clock ?sec1 sentences [] (chunks_of_parts clock ?parts1)
                   = (temp, chunks_of_parts clock parts2)"
        by (simp add: split_loop_parts)
      with True Inr inner show ?thesis
        unfolding step_c step_p by (simp add: Cons.IH)
    qed
  next
    case False
    then show ?thesis unfolding step_c step_p by (simp add: Cons.IH)
  qed
qed

lemma chunk_text_content_parts:
  "chunk_text_content csize split_sentences clock items
     = (case text_parts csize split_sentences items of
          Inl e \<Rightarrow> Inl e
        | Inr parts \<Rightarrow> Inr (chunks_of_parts clock parts))"
  using chunk_loop_parts [of csize split_sentences clock items "[]" "''general''" "[]"]
  by (simp add: chunk_text_content_def text_parts_def chunks_of_parts_Nil
      chunks_of_parts_snoc length_chunks_of_parts split: sum.splits prod.splits)

subsection \<open>The size bound\<close>

lemma within_bound_Nil: "0 \<le> csize \<Longrightarrow> within_bound csize split_sentences []"
  by (simp add: within_bound_def py_split_def)

lemma within_bound_small:
  "int (length (py_split (py_join '' '' text_list))) \<le> csize
     \<Longrightarrow> within_bound csize split_sentences text_list"
  by (simp add: within_bound_def)

lemma within_bound_single:
  "is_sentence split_sentences s \<Longrightarrow> within_bound csize split_sentences [s]"
  by (cases "int (length (py_split s)) \<le> csize") (simp_all add: within_bound_def)

lemma split_parts_bound:
  assumes "split_parts csize sec sentences temp parts = (temp', parts')"
    and "\<forall>s \<in> set sentences. is_sentence split_sentences s"
    and "within_bound csize split_sentences temp"
    and "\<forall>p \<in> set parts. within_bound csize split_sentences (fst p)"
  shows "within_bound csize split_sentences temp'
         \<and> (\<forall>p \<in> set parts'. within_bound csize split_sentences (fst p))"
  using assms
proof (induction sentences arbitrary: temp parts)
  case Nil
  then show ?case by simp
next
  case (Cons s rest)
  from Cons.prems(2) have s: "is_sentence split_sentences s"
    and rest: "\<forall>s \<in> set rest. is_sentence split_sentences s" by simp_all
  show ?case
  proof (cases "int (length (py_split (py_join '' '' (temp @ [s])))) > csize")
    case True
    with Cons.prems(1)
    have run: "split_parts csize sec rest [s] (parts @ [(temp, sec)]) = (temp', parts')"
      by (simp add: Let_def)
    have "\<forall>p \<in> set (parts @ [(temp, sec)]). within_bound csize split_sentences (fst p)"
      using Cons.prems(3,4) by simp
    from Cons.IH [OF run rest within_bound_single [OF s] this] show ?thesis .
  next
    case False
    with Cons.prems(1)
    have run: "split_parts csize sec rest (temp @ [s]) parts = (temp', parts')"
      by (simp add: Let_def)
    from False have "within_bound csize split_sentences (temp @ [s])"
      by (intro within_bound_small) simp
    from Cons.IH [OF run rest this Cons.prems(4)] show ?thesis .
  qed
qed

lemma parts_loop_bound:
  assumes "parts_loop csize split_sentences items cur sec parts = Inr (cur', sec', parts')"
    and "0 \<le> csize"
    and "within_bound csize split_sentences cur"
    and "\<forall>p \<in> set parts. within_bound csize split_sentences (fst p)"
  shows "within_bound csize split_sentences cur'
         \<and> (\<forall>p \<in> set parts'. within_bound csize split_sentences (fst p))"
  using assms
proof (induction items arbitrary: cur sec parts)
  case Nil
  then show ?case by simp
next
  case (Cons item items)
  let ?new = "item_is_header item \<and> item_section_type item \<noteq> sec"
  let ?parts1 = "if ?new then (if cur \<noteq> [] then parts @ [(cur, sec)] else parts) else parts"
  let ?cur1 = "if ?new then [item_text item] else cur @ [item_text item]"
  let ?sec1 = "if ?new then item_section_type item else sec"
  have parts1: "\<forall>p \<in> set ?parts1. within_bound csize split_sentences (fst p)"
    using Cons.prems(3,4) by simp
  have step: "parts_loop csize split_sentences (item # items) cur sec parts
      = (if int (length (py_split (py_join '' '' ?cur1))) > csize
         then (case split_sentences (py_join '' '' ?cur1) of
                 Inl e \<Rightarrow> Inl e
               | Inr sentences \<Rightarrow>
                  (case split_parts csize ?sec1 sentences [] ?parts1 of
                     (temp_chunk, parts2) \<Rightarrow>
                       parts_loop csize split_sentences items temp_chunk ?sec1 parts2))
         else parts_loop csize split_sentences items ?cur1 ?sec1 ?parts1)"
    unfolding parts_loop_Cons Let_def ..
  show ?case
  proof (cases "int (length (py_split (py_join '' '' ?cur1))) > csize")
    case True
    with Cons.prems(1) step obtain sentences temp parts2 where
      sp: "split_sentences (py_join '' '' ?cur1) = Inr sentences"
      and inner: "split_parts csize ?sec1 sentences [] ?parts1 = (temp, parts2)"
      and run: "parts_loop csize split_sentences items temp ?sec1 parts2 = Inr (cur', sec', parts')"
      by (auto split: sum.splits prod.splits)
    from sp have "\<forall>s \<in> set sentences. is_sentence split_sentences s"
      unfolding is_sentence_def by blast
    from split_parts_bound [OF inner this within_bound_Nil [OF Cons.prems(2)] parts1]
    have "within_bound csize split_sentences temp"
      and "\<forall>p \<in> set parts2. within_bound csize split_sentences (fst p)" by simp_all
    from Cons.IH [OF run Cons.prems(2) this] show ?thesis .
  next
    case False
    with Cons.prems(1) step
    have run: "parts_loop csize split_sentences items ?cur1 ?sec1 ?parts1 = Inr (cur', sec', parts')"
      by simp
    from False have "within_bound csize split_sentences ?cur1"
      by (intro within_bound_small) simp
    from Cons.IH [OF run Cons.prems(2) this parts1] show ?thesis .
  qed
qed

lemma text_parts_bound:
  assumes "text_parts csize split_sentences items = Inr parts" and "0 \<le> csize"
  shows "\<forall>p \<in> set parts. within_bound csize split_sentences (fst p)"
proof -
  from assms(1) obtain cur sec ps where
    run: "parts_loop csize split_sentences items [] ''general'' [] = Inr (cur, sec, ps)"
    and parts: "parts = (if cur \<noteq> [] then ps @ [(cur, sec)] else ps)"
    by (auto simp: text_parts_def split: sum.splits prod.splits)
  from parts_loop_bound [OF run assms(2) within_bound_Nil [OF assms(2)]]
  have "within_bound csize split_sentences cur"
    and "\<forall>p \<in> set ps. within_bound csize split_sentences (fst p)" by simp_all
  with parts show ?thesis by simp
qed

subsection \<open>The builder returns when the sentence splitter does\<close>

lemma parts_loop_total:
  assumes "\<forall>t. \<exists>ss. split_sentences t = Inr ss"
  shows "\<exists>r. parts_loop csize split_sentences items cur sec parts = Inr r"
proof (induction items arbitrary: cur sec parts)
  case Nil
  show ?case by simp
next
  case (Cons item items)
  let ?new = "item_is_header item \<and> item_section_type item \<noteq> sec"
  let ?parts1 = "if ?new then (if cur \<noteq> [] then parts @ [(cur, sec)] else parts) else parts"
  let ?cur1 = "if ?new then [item_text item] else cur @ [item_text item]"
  let ?sec1 = "if ?new then item_section_type item else sec"
  have step: "parts_loop csize split_sentences (item # items) cur sec parts
      = (if int (length (py_split (py_join '' '' ?cur1))) > csize
         then (case split_sentences (py_join '' '' ?cur1) of
                 Inl e \<Rightarrow> Inl e
               | Inr sentences \<Rightarrow>
                  (case split_parts csize ?sec1 sentences [] ?parts1 of
                     (temp_chunk, parts2) \<Rightarrow>
                       parts_loop csize split_sentences items temp_chunk ?sec1 parts2))
         else parts_loop csize split_sentences items ?cur1 ?sec1 ?parts1)"
    unfolding parts_loop_Cons Let_def ..
  from assms obtain ss where ss: "split_sentences (py_join '' '' ?cur1) = Inr ss" by blast
  obtain temp parts2 where inner: "split_parts csize ?sec1 ss [] ?parts1 = (temp, parts2)"
    by (cases "split_parts csize ?sec1 ss [] ?parts1")
  show ?case
  proof (cases "int (length (py_split (py_join '' '' ?cur1))) > csize")
    case True
    with ss inner Cons.IH [of temp ?sec1 parts2] show ?thesis unfolding step by simp
  next
    case False
    with Cons.IH [of ?cur1 ?sec1 ?parts1] show ?thesis unfolding step by simp
  qed
qed

lemma text_parts_total:
  assumes "\<forall>t. \<exists>ss. split_sentences t = Inr ss"
  shows "\<exists>parts. text_parts csize split_sentences items = Inr parts"
  using parts_loop_total [OF assms, of csize items "[]" "''general''" "[]"]
  by (auto simp: text_parts_def split: prod.splits)

subsection \<open>The claims on the chunk builder\<close>

lemma create_chunk_metadata_fields:
  "chunk_content (create_chunk_metadata text_list sec now) = py_join '' '' text_list"
  "chunk_type (create_chunk_metadata text_list sec now) = ''text''"
  "md_word_count (chunk_metadata (create_chunk_metadata text_list sec now))
     = length (py_split (py_join '' '' text_list))"
  by (simp_all add: create_chunk_metadata_def Let_def)

lemma create_chunk_metadata_Nil: "create_chunk_metadata [] sec now = empty_chunk sec now"
  by (simp add: create_chunk_metadata_def empty_chunk_def Let_def py_split_def)

lemma text_chunks_described:
  assumes "0 \<le> csize"
    and "chunk_text_content csize split_sentences clock items = Inr text_chunks"
  shows "\<exists>parts. text_parts csize split_sentences items = Inr parts
           \<and> length text_chunks = length parts
           \<and> (\<forall>k<length parts.
                  text_chunks ! k
                    = create_chunk_metadata (fst (parts ! k)) (snd (parts ! k)) (clock k)
                \<and> chunk_type (text_chunks ! k) = ''text''
                \<and> within_bound csize split_sentences (fst (parts ! k))
                \<and> (int (md_word_count (chunk_metadata (text_chunks ! k))) \<le> csize
                   \<or> (\<exists>s. fst (parts ! k) = [s] \<and> chunk_content (text_chunks ! k) = s
                          \<and> is_sentence split_sentences s
                          \<and> csize < int (length (py_split s)))))"
proof -
  from assms(2) obtain parts where
    parts: "text_parts csize split_sentences items = Inr parts"
    and chunks: "text_chunks = chunks_of_parts clock parts"
    by (auto simp: chunk_text_content_parts split: sum.splits)
  have "\<forall>k<length parts.
          text_chunks ! k = create_chunk_metadata (fst (parts ! k)) (snd (parts ! k)) (clock k)
        \<and> chunk_type (text_chunks ! k) = ''text''
        \<and> within_bound csize split_sentences (fst (parts ! k))
        \<and> (int (md_word_count (chunk_metadata (text_chunks ! k))) \<le> csize
           \<or> (\<exists>s. fst (parts ! k) = [s] \<and> chunk_content (text_chunks ! k) = s
                  \<and> is_sentence split_sentences s
                  \<and> csize < int (length (py_split s))))"
  proof (intro allI impI)
    fix k assume k: "k < length parts"
    then have c: "text_chunks ! k
                    = create_chunk_metadata (fst (parts ! k)) (snd (parts ! k)) (clock k)"
      by (simp add: chunks chunks_of_parts_nth)
    from k have "parts ! k \<in> set parts" by simp
    with text_parts_bound [OF parts assms(1)]
    have b: "within_bound csize split_sentences (fst (parts ! k))" by blast
    then have "int (md_word_count (chunk_metadata (text_chunks ! k))) \<le> csize
           \<or> (\<exists>s. fst (parts ! k) = [s] \<and> chunk_content (text_chunks ! k) = s
                  \<and> is_sentence split_sentences s
                  \<and> csize < int (length (py_split s)))"
      unfolding within_bound_def c create_chunk_metadata_fields by auto
    with c b show "text_chunks ! k
            = create_chunk_metadata (fst (parts ! k)) (snd (parts ! k)) (clock k)
        \<and> chunk_type (text_chunks ! k) = ''text''
        \<and> within_bound csize split_sentences (fst (parts ! k))
        \<and> (int (md_word_count (chunk_metadata (text_chunks ! k))) \<le> csize
           \<or> (\<exists>s. fst (parts ! k) = [s] \<and> chunk_content (text_chunks ! k) = s
                  \<and> is_sentence split_sentences s
                  \<and> csize < int (length (py_split s))))"
      by (simp add: create_chunk_metadata_fields)
  qed
  moreover have "length text_chunks = length parts"
    by (simp add: chunks length_chunks_of_parts)
  ultimately show ?thesis using parts by blast
qed

lemma create_chunks_Inr:
  "create_chunks csize split_sentences clock extracted = Inr chunks \<Longrightarrow>
     \<exists>text_chunks. chunk_text_content csize split_sentences clock (text_content extracted)
                      = Inr text_chunks
                  \<and> chunks = text_chunks @ map table_chunk (tables extracted)"
  by (auto simp: create_chunks_def split: sum.splits)

lemma create_semantic_chunks_Inr:
  "create_semantic_chunks csize split_sentences clock extracted = Inr chunks \<Longrightarrow>
     \<exists>text_chunks. chunk_text_content csize split_sentences clock (text_content extracted)
                      = Inr text_chunks
                  \<and> chunks = text_chunks @ map policy_table_chunk (tables extracted)"
  by (auto simp: create_semantic_chunks_def split: sum.splits)

lemma chunks_described:
  assumes "0 \<le> csize"
    and "chunk_text_content csize split_sentences clock items = Inr text_chunks"
    and "chunks = text_chunks @ table_chunks"
    and "\<forall>c \<in> set table_chunks. chunk_type c = ''table''"
  shows "\<exists>parts. text_parts csize split_sentences items = Inr parts
           \<and> length chunks = length parts + length table_chunks
           \<and> (\<forall>k<length parts.
                  chunks ! k = create_chunk_metadata (fst (parts ! k)) (snd (parts ! k)) (clock k)
                \<and> chunk_type (chunks ! k) = ''text''
                \<and> within_bound csize split_sentences (fst (parts ! k))
                \<and> (int (md_word_count (chunk_metadata (chunks ! k))) \<le> csize
                   \<or> (\<exists>s. fst (parts ! k) = [s] \<and> chunk_content (chunks ! k) = s
                          \<and> is_sentence split_sentences s
                          \<and> csize < int (length (py_split s)))))
           \<and> (\<forall>k. length parts \<le> k \<and> k < length chunks
                  \<longrightarrow> chunk_type (chunks ! k) = ''table'')"
proof -
  from text_chunks_described [OF assms(1,2)] obtain parts where
    parts: "text_parts csize split_sentences items = Inr parts"
    and len: "length text_chunks = length parts"
    and each: "\<forall>k<length parts.
                  text_chunks ! k
                    = create_chunk_metadata (fst (parts ! k)) (snd (parts ! k)) (clock k)
                \<and> chunk_type (text_chunks ! k) = ''text''
                \<and> within_bound csize split_sentences (fst (parts ! k))
                \<and> (int (md_word_count (chunk_metadata (text_chunks ! k))) \<le> csize
                   \<or> (\<exists>s. fst (parts ! k) = [s] \<and> chunk_content (text_chunks ! k) = s
                          \<and> is_sentence split_sentences s
                          \<and> csize < int (length (py_split s))))"
    by blast
  have same: "\<And>k. k < length parts \<Longrightarrow> chunks ! k = text_chunks ! k"
    by (simp add: assms(3) len nth_append)
  have table: "\<forall>k. length parts \<le> k \<and> k < length chunks \<longrightarrow> chunk_type (chunks ! k) = ''table''"
  proof (intro allI impI)
    fix k assume k: "length parts \<le> k \<and> k < length chunks"
    then have "chunks ! k = table_chunks ! (k - length parts)"
      and "k - length parts < length table_chunks"
      by (auto simp: assms(3) len nth_append)
    with assms(4) show "chunk_type (chunks ! k) = ''table''" by simp
  qed
  have lenc: "length chunks = length parts + length table_chunks"
    by (simp add: assms(3) len)
  have "\<forall>k<length parts.
          chunks ! k = create_chunk_metadata (fst (parts ! k)) (snd (parts ! k)) (clock k)
        \<and> chunk_type (chunks ! k) = ''text''
        \<and> within_bound csize split_sentences (fst (parts ! k))
        \<and> (int (md_word_count (chunk_metadata (chunks ! k))) \<le> csize
           \<or> (\<exists>s. fst (parts ! k) = [s] \<and> chunk_content (chunks ! k) = s
                  \<and> is_sentence split_sentences s
                  \<and> csize < int (length (py_split s))))"
  proof (intro allI impI)
    fix k assume k: "k < length parts"
    from each k
    have "text_chunks ! k = create_chunk_metadata (fst (parts ! k)) (snd (parts ! k)) (clock k)
        \<and> chunk_type (text_chunks ! k) = ''text''
        \<and> within_bound csize split_sentences (fst (parts ! k))
        \<and> (int (md_word_count (chunk_metadata (text_chunks ! k))) \<le> csize
           \<or> (\<exists>s. fst (parts ! k) = [s] \<and> chunk_content (text_chunks ! k) = s
                  \<and> is_sentence split_sentences s
                  \<and> csize < int (length (py_split s))))"
      by blast
    then show "chunks ! k = create_chunk_metadata (fst (parts ! k)) (snd (parts ! k)) (clock k)
        \<and> chunk_type (chunks ! k) = ''text''
        \<and> within_bound csize split_sentences (fst (parts ! k))
        \<and> (int (md_word_count (chunk_metadata (chunks ! k))) \<le> csize
           \<or> (\<exists>s. fst (parts ! k) = [s] \<and> chunk_content (chunks ! k) = s
                  \<and> is_sentence split_sentences s
                  \<and> csize < int (length (py_split s))))"
      unfolding same [OF k] .
  qed
  with parts lenc table show ?thesis by blast
qed

text \<open>
  C1 (as the code behaves): for every chunk size that is not negative, when the builder
  returns, its chunks are the text chunks followed by the table chunks; text chunk k is
  built from the k-th recorded text list, and its word count is at most the chunk size,
  unless that list is exactly one sentence of the splitter with more words than the
  chunk size, which is then the whole content of the chunk. The builder returns whenever
  the sentence splitter does. Both chunker classes.
\<close>

theorem chunk_size_bound:
  assumes "0 \<le> csize"
  shows
    "(create_chunks csize split_sentences clock extracted = Inr chunks \<longrightarrow>
        (\<exists>parts. text_parts csize split_sentences (text_content extracted) = Inr parts
           \<and> length chunks = length parts + length (tables extracted)
           \<and> (\<forall>k<length parts.
                  chunks ! k = create_chunk_metadata (fst (parts ! k)) (snd (parts ! k)) (clock k)
                \<and> chunk_type (chunks ! k) = ''text''
                \<and> within_bound csize split_sentences (fst (parts ! k))
                \<and> (int (md_word_count (chunk_metadata (chunks ! k))) \<le> csize
                   \<or> (\<exists>s. fst (parts ! k) = [s] \<and> chunk_content (chunks ! k) = s
                          \<and> is_sentence split_sentences s
                          \<and> csize < int (length (py_split s)))))
           \<and> (\<forall>k. length parts \<le> k \<and> k < length chunks
                  \<longrightarrow> chunk_type (chunks ! k) = ''table'')))
     \<and> (create_semantic_chunks csize split_sentences clock pextracted = Inr pchunks \<longrightarrow>
        (\<exists>parts. text_parts csize split_sentences (text_content pextracted) = Inr parts
           \<and> length pchunks = length parts + length (tables pextracted)
           \<and> (\<forall>k<length parts.
                  pchunks ! k = create_chunk_metadata (fst (parts ! k)) (snd (parts ! k)) (clock k)
                \<and> chunk_type (pchunks ! k) = ''text''
                \<and> within_bound csize split_sentences (fst (parts ! k))
                \<and> (int (md_word_count (chunk_metadata (pchunks ! k))) \<le> csize
                   \<or> (\<exists>s. fst (parts ! k) = [s] \<and> chunk_content (pchunks ! k) = s
                          \<and> is_sentence split_sentences s
                          \<and> csize < int (length (py_split s)))))
           \<and> (\<forall>k. length parts \<le> k \<and> k < length pchunks
                  \<longrightarrow> chunk_type (pchunks ! k) = ''table'')))
     \<and> ((\<forall>t. \<exists>ss. split_sentences t = Inr ss) \<longrightarrow>
          (\<exists>cs. create_chunks csize split_sentences clock extracted = Inr cs)
        \<and> (\<exists>cs. create_semantic_chunks csize split_sentences clock pextracted = Inr cs))"
proof (intro conjI impI)
  assume "create_chunks csize split_sentences clock extracted = Inr chunks"
  from create_chunks_Inr [OF this] obtain text_chunks where
    t: "chunk_text_content csize split_sentences clock (text_content extracted) = Inr text_chunks"
    and c: "chunks = text_chunks @ map table_chunk (tables extracted)"
    by blast
  have "\<forall>c \<in> set (map table_chunk (tables extracted)). chunk_type c = ''table''"
    by (simp add: table_chunk_def)
  from chunks_described [OF assms t c this]
  show "\<exists>parts. text_parts csize split_sentences (text_content extracted) = Inr parts
           \<and> length chunks = length parts + length (tables extracted)
           \<and> (\<forall>k<length parts.
                  chunks ! k = create_chunk_metadata (fst (parts ! k)) (snd (parts ! k)) (clock k)
                \<and> chunk_type (chunks ! k) = ''text''
                \<and> within_bound csize split_sentences (fst (parts ! k))
                \<and> (int (md_word_count (chunk_metadata (chunks ! k))) \<le> csize
                   \<or> (\<exists>s. fst (parts ! k) = [s] \<and> chunk_content (chunks ! k) = s
                          \<and> is_sentence split_sentences s
                          \<and> csize < int (length (py_split s)))))
           \<and> (\<forall>k. length parts \<le> k \<and> k < length chunks
                  \<longrightarrow> chunk_type (chunks ! k) = ''table'')"
    by simp
next
  assume "create_semantic_chunks csize split_sentences clock pextracted = Inr pchunks"
  from create_semantic_chunks_Inr [OF this] obtain text_chunks where
    t: "chunk_text_content csize split_sentences clock (text_content pextracted) = Inr text_chunks"
    and c: "pchunks = text_chunks @ map policy_table_chunk (tables pextracted)"
    by blast
  have "\<forall>c \<in> set (map policy_table_chunk (tables pextracted)). chunk_type c = ''table''"
    by (simp add: policy_table_chunk_def)
  from chunks_described [OF assms t c this]
  show "\<exists>parts. text_parts csize split_sentences (text_content pextracted) = Inr parts
           \<and> length pchunks = length parts + length (tables pextracted)
           \<and> (\<forall>k<length parts.
                  pchunks ! k = create_chunk_metadata (fst (parts ! k)) (snd (parts ! k)) (clock k)
                \<and> chunk_type (pchunks ! k) = ''text''
                \<and> within_bound csize split_sentences (fst (parts ! k))
                \<and> (int (md_word_count (chunk_metadata (pchunks ! k))) \<le> csize
                   \<or> (\<exists>s. fst (parts ! k) = [s] \<and> chunk_content (pchunks ! k) = s
                          \<and> is_sentence split_sentences s
                          \<and> csize < int (length (py_split s)))))
           \<and> (\<forall>k. length parts \<le> k \<and> k < length pchunks
                  \<longrightarrow> chunk_type (pchunks ! k) = ''table'')"
    by simp
next
  assume total: "\<forall>t. \<exists>ss. split_sentences t = Inr ss"
  from text_parts_total [OF total, of csize "text_content extracted"]
  show "\<exists>cs. create_chunks csize split_sentences clock extracted = Inr cs"
    by (auto simp: create_chunks_def chunk_text_content_parts)
next
  assume total: "\<forall>t. \<exists>ss. split_sentences t = Inr ss"
  from text_parts_total [OF total, of csize "text_content pextracted"]
  show "\<exists>cs. create_semantic_chunks csize split_sentences clock pextracted = Inr cs"
    by (auto simp: create_semantic_chunks_def chunk_text_content_parts)
qed

lemma text_parts_abc:
  "text_parts 2 one_sentence [line_abc] = Inr [([], ''general''), ([''a b c''], ''general'')]"
  by (simp add: text_parts_def one_sentence_def line_abc_def Let_def py_split_def is_space_def
      whitespace_def)

lemma create_chunks_abc:
  "create_chunks 2 one_sentence fixed_clock abc_data
     = Inr [empty_chunk ''general'' (fixed_clock 0),
            \<lparr>chunk_content = ''a b c'', chunk_type = ''text'',
             chunk_metadata = TextMetadata ''general'' 3 5 (fixed_clock 1)\<rparr>]"
  by (simp add: create_chunks_def abc_data_def chunk_text_content_parts text_parts_abc
      chunks_of_parts_def create_chunk_metadata_def empty_chunk_def Let_def py_split_def
      is_space_def whitespace_def)

text \<open>
  The theorem at chunk size 2 and the single line \<open>a b c\<close>, one sentence of three words:
  the builder returns an empty chunk and the chunk \<open>a b c\<close>, whose three words exceed the
  chunk size and which is that one sentence.
\<close>

theorem chunk_size_bound_witness:
  "(0::int) \<le> 2
   \<and> create_chunks 2 one_sentence fixed_clock abc_data
       = Inr [empty_chunk ''general'' (fixed_clock 0),
              \<lparr>chunk_content = ''a b c'', chunk_type = ''text'',
               chunk_metadata = TextMetadata ''general'' 3 5 (fixed_clock 1)\<rparr>]
   \<and> within_bound 2 one_sentence []
   \<and> within_bound 2 one_sentence [''a b c'']
   \<and> is_sentence one_sentence ''a b c''"
proof -
  let ?chunks = "[empty_chunk ''general'' (fixed_clock 0),
              \<lparr>chunk_content = ''a b c'', chunk_type = ''text'',
               chunk_metadata = TextMetadata ''general'' 3 5 (fixed_clock 1)\<rparr>]"
  have pos: "(0::int) \<le> 2" by simp
  from chunk_size_bound [OF pos, of one_sentence fixed_clock abc_data ?chunks, THEN conjunct1]
    create_chunks_abc
  obtain parts where
    parts: "text_parts 2 one_sentence (text_content abc_data) = Inr parts"
    and each: "\<forall>k<length parts.
                  within_bound 2 one_sentence (fst (parts ! k))
                \<and> (int (md_word_count (chunk_metadata (?chunks ! k))) \<le> 2
                   \<or> (\<exists>s. fst (parts ! k) = [s] \<and> chunk_content (?chunks ! k) = s
                          \<and> is_sentence one_sentence s
                          \<and> 2 < int (length (py_split s))))"
    by auto
  from parts have p: "parts = [([], ''general''), ([''a b c''], ''general'')]"
    by (simp add: abc_data_def text_parts_abc)
  from p have k: "0 < length parts" "1 < length parts" by simp_all
  from each k(1) have "within_bound 2 one_sentence (fst (parts ! 0))" by blast
  moreover from each k(2) have "within_bound 2 one_sentence (fst (parts ! 1))"
    and "int (md_word_count (chunk_metadata (?chunks ! 1))) \<le> 2
         \<or> (\<exists>s. fst (parts ! 1) = [s] \<and> chunk_content (?chunks ! 1) = s
                \<and> is_sentence one_sentence s \<and> 2 < int (length (py_split s)))"
    by blast+
  ultimately show ?thesis using p create_chunks_abc by auto
qed

lemma text_parts_a:
  "text_parts (- 1) one_sentence [line_a] = Inr [([], ''general''), ([''a''], ''general'')]"
  by (simp add: text_parts_def one_sentence_def line_a_def Let_def py_split_def is_space_def
      whitespace_def)

text \<open>
  C1 as stated fails for a negative chunk size, which the constructors accept: at chunk
  size -1 and the single line \<open>a\<close>, the first chunk is built from no sentence at all and
  has word count 0, which exceeds -1.
\<close>

theorem chunk_size_bound_negative_counterexample:
  "create_chunks (- 1) one_sentence fixed_clock a_data
     = Inr [\<lparr>chunk_content = [], chunk_type = ''text'',
             chunk_metadata = TextMetadata ''general'' 0 0 (fixed_clock 0)\<rparr>,
            \<lparr>chunk_content = ''a'', chunk_type = ''text'',
             chunk_metadata = TextMetadata ''general'' 1 1 (fixed_clock 1)\<rparr>]
   \<and> text_parts (- 1) one_sentence (text_content a_data)
       = Inr [([], ''general''), ([''a''], ''general'')]
   \<and> \<not> within_bound (- 1) one_sentence []
   \<and> \<not> int (md_word_count (TextMetadata ''general'' 0 0 (fixed_clock 0))) \<le> - 1"
  by (simp add: create_chunks_def a_data_def chunk_text_content_parts text_parts_a
      chunks_of_parts_def create_chunk_metadata_def Let_def py_split_def
      is_space_def whitespace_def within_bound_def)

subsection \<open>The empty chunk\<close>

lemma split_parts_prefix:
  "split_parts csize sec sentences temp parts = (temp', parts') \<Longrightarrow> \<exists>more. parts' = parts @ more"
proof (induction sentences arbitrary: temp parts)
  case Nil
  then show ?case by simp
next
  case (Cons s rest)
  show ?case
  proof (cases "int (length (py_split (py_join '' '' (temp @ [s])))) > csize")
    case True
    with Cons.prems
    have "split_parts csize sec rest [s] (parts @ [(temp, sec)]) = (temp', parts')"
      by (simp add: Let_def)
    from Cons.IH [OF this] show ?thesis by auto
  next
    case False
    with Cons.prems have "split_parts csize sec rest (temp @ [s]) parts = (temp', parts')"
      by (simp add: Let_def)
    from Cons.IH [OF this] show ?thesis .
  qed
qed

lemma parts_loop_prefix:
  "parts_loop csize split_sentences items cur sec parts = Inr (cur', sec', parts')
     \<Longrightarrow> \<exists>more. parts' = parts @ more"
proof (induction items arbitrary: cur sec parts)
  case Nil
  then show ?case by simp
next
  case (Cons item items)
  let ?new = "item_is_header item \<and> item_section_type item \<noteq> sec"
  let ?parts1 = "if ?new then (if cur \<noteq> [] then parts @ [(cur, sec)] else parts) else parts"
  let ?cur1 = "if ?new then [item_text item] else cur @ [item_text item]"
  let ?sec1 = "if ?new then item_section_type item else sec"
  have p1: "\<exists>more. ?parts1 = parts @ more" by simp
  show ?case
  proof (cases "int (length (py_split (py_join '' '' ?cur1))) > csize")
    case True
    with Cons.prems obtain sentences temp parts2 where
      inner: "split_parts csize ?sec1 sentences [] ?parts1 = (temp, parts2)"
      and run: "parts_loop csize split_sentences items temp ?sec1 parts2 = Inr (cur', sec', parts')"
      unfolding parts_loop_Cons Let_def by (auto split: sum.splits prod.splits)
    from split_parts_prefix [OF inner] obtain m2 where m2: "parts2 = ?parts1 @ m2" by blast
    from Cons.IH [OF run] obtain m3 where m3: "parts' = parts2 @ m3" by blast
    from p1 obtain m1 where m1: "?parts1 = parts @ m1" by blast
    have "parts' = parts @ (m1 @ m2 @ m3)" unfolding m3 m2 m1 by simp
    then show ?thesis by blast
  next
    case False
    with Cons.prems
    have "parts_loop csize split_sentences items ?cur1 ?sec1 ?parts1 = Inr (cur', sec', parts')"
      unfolding parts_loop_Cons Let_def by simp
    from Cons.IH [OF this] obtain m3 where m3: "parts' = ?parts1 @ m3" by blast
    from p1 obtain m1 where m1: "?parts1 = parts @ m1" by blast
    have "parts' = parts @ (m1 @ m3)" unfolding m3 m1 by simp
    then show ?thesis by blast
  qed
qed

lemma parts_loop_first:
  "parts_loop csize split_sentences (item # items) [] ''general'' []
     = (let sec1 = (if item_is_header item \<and> item_section_type item \<noteq> ''general''
                    then item_section_type item else ''general'')
        in if int (length (py_split (item_text item))) > csize
           then (case split_sentences (item_text item) of
                   Inl e \<Rightarrow> Inl e
                 | Inr sentences \<Rightarrow>
                    (case split_parts csize sec1 sentences [] [] of
                       (temp_chunk, parts2) \<Rightarrow>
                         parts_loop csize split_sentences items temp_chunk sec1 parts2))
           else parts_loop csize split_sentences items [item_text item] sec1 [])"
proof (cases "item_is_header item \<and> item_section_type item \<noteq> ''general''")
  case True
  then have new: "(item_is_header item \<and> item_section_type item \<noteq> ''general'') = True"
    by simp
  show ?thesis by (simp add: new Let_def)
next
  case False
  then have new: "(item_is_header item \<and> item_section_type item \<noteq> ''general'') = False"
    by simp
  show ?thesis by (simp add: new Let_def)
qed

lemma text_parts_first_overlong:
  assumes over: "csize < int (length (py_split (item_text item)))"
    and first: "split_sentences (item_text item) = Inr (s # ss)"
    and long: "csize < int (length (py_split s))"
    and ret: "text_parts csize split_sentences (item # items) = Inr parts"
  shows "\<exists>more. parts =
           ([], if item_is_header item \<and> item_section_type item \<noteq> ''general''
                then item_section_type item else ''general'') # more"
proof -
  let ?sec1 = "if item_is_header item \<and> item_section_type item \<noteq> ''general''
               then item_section_type item else ''general''"
  from ret obtain cur sec ps where
    run: "parts_loop csize split_sentences (item # items) [] ''general'' [] = Inr (cur, sec, ps)"
    and parts: "parts = (if cur \<noteq> [] then ps @ [(cur, sec)] else ps)"
    by (auto simp: text_parts_def split: sum.splits prod.splits)
  obtain temp parts2 where
    inner: "split_parts csize ?sec1 ss [s] [([], ?sec1)] = (temp, parts2)"
    by (cases "split_parts csize ?sec1 ss [s] [([], ?sec1)]")
  with long have inner': "split_parts csize ?sec1 (s # ss) [] [] = (temp, parts2)"
    by (simp add: Let_def)
  from run have "parts_loop csize split_sentences items temp ?sec1 parts2 = Inr (cur, sec, ps)"
    unfolding parts_loop_first Let_def using over first inner' by simp
  from parts_loop_prefix [OF this] obtain m3 where m3: "ps = parts2 @ m3" by blast
  from split_parts_prefix [OF inner] obtain m2 where m2: "parts2 = [([], ?sec1)] @ m2" by blast
  have "ps = ([], ?sec1) # (m2 @ m3)" unfolding m3 m2 by simp
  with parts show ?thesis by auto
qed

text \<open>
  C10: when the first line alone has more words than the chunk size, and the first
  sentence the splitter returns for it has more words than the chunk size too, the first
  chunk the builder returns is empty: content the empty string, word count 0, character
  count 0. The builder does return when the splitter never raises. Both chunker classes.
\<close>

theorem overlong_first_sentence_gives_empty_chunk:
  assumes "csize < int (length (py_split (item_text item)))"
    and "split_sentences (item_text item) = Inr (s # ss)"
    and "csize < int (length (py_split s))"
    and "text_content extracted = item # items"
    and "text_content pextracted = item # items"
  shows
    "(create_chunks csize split_sentences clock extracted = Inr chunks \<longrightarrow>
        chunks \<noteq> []
        \<and> hd chunks =
            \<lparr>chunk_content = [], chunk_type = ''text'',
             chunk_metadata = TextMetadata
               (if item_is_header item \<and> item_section_type item \<noteq> ''general''
                then item_section_type item else ''general'') 0 0 (clock 0)\<rparr>)
     \<and> (create_semantic_chunks csize split_sentences clock pextracted = Inr pchunks \<longrightarrow>
        pchunks \<noteq> []
        \<and> hd pchunks =
            \<lparr>chunk_content = [], chunk_type = ''text'',
             chunk_metadata = TextMetadata
               (if item_is_header item \<and> item_section_type item \<noteq> ''general''
                then item_section_type item else ''general'') 0 0 (clock 0)\<rparr>)
     \<and> ((\<forall>t. \<exists>ss. split_sentences t = Inr ss) \<longrightarrow>
          (\<exists>cs. create_chunks csize split_sentences clock extracted = Inr cs)
        \<and> (\<exists>cs. create_semantic_chunks csize split_sentences clock pextracted = Inr cs))"
proof -
  let ?sec1 = "if item_is_header item \<and> item_section_type item \<noteq> ''general''
               then item_section_type item else ''general''"
  have head: "\<And>parts. text_parts csize split_sentences (item # items) = Inr parts \<Longrightarrow>
                chunks_of_parts clock parts \<noteq> []
                \<and> hd (chunks_of_parts clock parts) = empty_chunk ?sec1 (clock 0)"
  proof -
    fix parts assume "text_parts csize split_sentences (item # items) = Inr parts"
    from text_parts_first_overlong [OF assms(1,2,3) this]
    obtain more where p: "parts = ([], ?sec1) # more" by blast
    have "0 < length (chunks_of_parts clock parts)"
      by (simp add: p length_chunks_of_parts)
    then have ne: "chunks_of_parts clock parts \<noteq> []" by auto
    then have "hd (chunks_of_parts clock parts) = chunks_of_parts clock parts ! 0"
      by (simp add: hd_conv_nth)
    moreover note ne
    moreover have "chunks_of_parts clock parts ! 0 = empty_chunk ?sec1 (clock 0)"
      using chunks_of_parts_nth [of 0 parts clock]
      by (simp add: p create_chunk_metadata_Nil)
    ultimately show "chunks_of_parts clock parts \<noteq> []
                \<and> hd (chunks_of_parts clock parts) = empty_chunk ?sec1 (clock 0)"
      by simp
  qed
  have one: "create_chunks csize split_sentences clock extracted = Inr chunks \<longrightarrow>
        chunks \<noteq> [] \<and> hd chunks = empty_chunk ?sec1 (clock 0)"
    using head
    by (auto simp: create_chunks_def chunk_text_content_parts assms(4) split: sum.splits)
  have two: "create_semantic_chunks csize split_sentences clock pextracted = Inr pchunks \<longrightarrow>
        pchunks \<noteq> [] \<and> hd pchunks = empty_chunk ?sec1 (clock 0)"
    using head
    by (auto simp: create_semantic_chunks_def chunk_text_content_parts assms(5)
        split: sum.splits)
  have three: "(\<forall>t. \<exists>ss. split_sentences t = Inr ss) \<longrightarrow>
          (\<exists>cs. create_chunks csize split_sentences clock extracted = Inr cs)
        \<and> (\<exists>cs. create_semantic_chunks csize split_sentences clock pextracted = Inr cs)"
  proof
    assume total: "\<forall>t. \<exists>ss. split_sentences t = Inr ss"
    from text_parts_total [OF total, of csize "item # items"]
    show "(\<exists>cs. create_chunks csize split_sentences clock extracted = Inr cs)
        \<and> (\<exists>cs. create_semantic_chunks csize split_sentences clock pextracted = Inr cs)"
      by (auto simp: create_chunks_def create_semantic_chunks_def chunk_text_content_parts
          assms(4,5))
  qed
  from one two three show ?thesis unfolding empty_chunk_def by blast
qed

text \<open>
  The theorem at chunk size 2 and the single line \<open>a b c\<close>, taken as one sentence: the
  first of the two chunks returned is the empty chunk.
\<close>

theorem overlong_first_sentence_gives_empty_chunk_witness:
  "(2::int) < int (length (py_split (item_text line_abc)))
   \<and> one_sentence (item_text line_abc) = Inr [''a b c'']
   \<and> (2::int) < int (length (py_split ''a b c''))
   \<and> text_content abc_data = [line_abc]
   \<and> (\<exists>chunks. create_chunks 2 one_sentence fixed_clock abc_data = Inr chunks
        \<and> chunks \<noteq> []
        \<and> hd chunks = \<lparr>chunk_content = [], chunk_type = ''text'',
                        chunk_metadata = TextMetadata ''general'' 0 0 (fixed_clock 0)\<rparr>)"
proof -
  have h1: "(2::int) < int (length (py_split (item_text line_abc)))"
    by (simp add: line_abc_def py_split_def is_space_def whitespace_def)
  have h2: "one_sentence (item_text line_abc) = Inr (''a b c'' # [])"
    by (simp add: line_abc_def one_sentence_def)
  have h3: "(2::int) < int (length (py_split ''a b c''))"
    by (simp add: py_split_def is_space_def whitespace_def)
  have h4: "text_content abc_data = line_abc # []"
    by (simp add: abc_data_def)
  have h5: "text_content \<lparr>text_content = [line_abc], tables = [], total_pages = 1\<rparr>
              = line_abc # []"
    by simp
  have total: "\<forall>t. \<exists>ss. one_sentence t = Inr ss" by (simp add: one_sentence_def)
  note main = overlong_first_sentence_gives_empty_chunk
    [where csize = 2 and item = line_abc and split_sentences = one_sentence
       and s = "''a b c''" and ss = "[]" and items = "[]" and extracted = abc_data
       and pextracted = "\<lparr>text_content = [line_abc], tables = [], total_pages = 1\<rparr>"
       and clock = fixed_clock, OF h1 h2 h3 h4 h5]
  from main total obtain chunks where
    c: "create_chunks 2 one_sentence fixed_clock abc_data = Inr chunks" by blast
  with main [of chunks] have "chunks \<noteq> []"
    and "hd chunks = \<lparr>chunk_content = [], chunk_type = ''text'',
                        chunk_metadata = TextMetadata
                          (if item_is_header line_abc \<and> item_section_type line_abc \<noteq> ''general''
                           then item_section_type line_abc else ''general'') 0 0 (fixed_clock 0)\<rparr>"
    by blast+
  then have "chunks \<noteq> [] \<and> hd chunks = \<lparr>chunk_content = [], chunk_type = ''text'',
                        chunk_metadata = TextMetadata ''general'' 0 0 (fixed_clock 0)\<rparr>"
    by (simp add: line_abc_def)
  with c h1 h2 h3 h4 show ?thesis by blast
qed

section \<open>Properties of the document pipeline\<close>

subsection \<open>The log\<close>

lemma outcomes_append: "outcomes (xs @ ys) = outcomes xs @ outcomes ys"
  by (simp add: outcomes_def map_filter_def)

lemma started_append: "started (xs @ ys) = started xs @ started ys"
  by (simp add: started_def map_filter_def)

lemma outcomes_simps:
  "outcomes [] = []"
  "outcomes (Info_processing n # xs) = outcomes xs"
  "outcomes (Info_success n k # xs) = n # outcomes xs"
  "outcomes (Error_processing n e # xs) = n # outcomes xs"
  "outcomes (Error_extracting p e # xs) = outcomes xs"
  "outcomes (Warning_tabula e # xs) = outcomes xs"
  "outcomes (Warning_camelot e # xs) = outcomes xs"
  "outcomes (Warning_pdfplumber e # xs) = outcomes xs"
  by (simp_all add: outcomes_def map_filter_def)

lemma started_simps:
  "started [] = []"
  "started (Info_processing n # xs) = n # started xs"
  "started (Info_success n k # xs) = started xs"
  "started (Error_processing n e # xs) = started xs"
  "started (Error_extracting p e # xs) = started xs"
  "started (Warning_tabula e # xs) = started xs"
  "started (Warning_camelot e # xs) = started xs"
  "started (Warning_pdfplumber e # xs) = started xs"
  by (simp_all add: started_def map_filter_def)

lemma quiet_extract_text_from_pdf: "quiet_extract (extract_text_from_pdf pdf_open)"
  unfolding quiet_extract_def
proof (intro allI)
  fix path lg
  show "\<exists>more. snd (extract_text_from_pdf pdf_open path lg) = lg @ more
              \<and> outcomes more = [] \<and> started more = []"
  proof (cases "pdf_open path")
    case (Inl e)
    then show ?thesis
      by (intro exI [of _ "[Error_extracting path e]"])
         (simp add: extract_text_from_pdf_def outcomes_simps started_simps)
  next
    case (Inr pdf)
    obtain collected found err where
      r: "(case pdf_pages pdf of Inl e \<Rightarrow> ([], [], Some e)
           | Inr pages \<Rightarrow> extract_pages pages 0 [] []) = (collected, found, err)"
      by (cases "case pdf_pages pdf of Inl e \<Rightarrow> ([], [], Some e)
                 | Inr pages \<Rightarrow> extract_pages pages 0 [] []") auto
    show ?thesis
    proof (cases err)
      case None
      with Inr r show ?thesis
        by (intro exI [of _ "[]"])
           (simp add: extract_text_from_pdf_def Let_def outcomes_simps started_simps
              split: sum.splits)
    next
      case (Some e)
      with Inr r show ?thesis
        by (intro exI [of _ "[Error_extracting path e]"])
           (simp add: extract_text_from_pdf_def Let_def outcomes_simps started_simps
              split: sum.splits)
    qed
  qed
qed

lemma extract_tables_from_pdf_log:
  "\<exists>more. snd (extract_tables_from_pdf tabula_read camelot_read pdf_open path lg) = lg @ more
         \<and> outcomes more = [] \<and> started more = []"
proof -
  let ?w1 = "case tabula_read path of Inl e \<Rightarrow> [Warning_tabula e] | Inr ts \<Rightarrow> []"
  let ?w2 = "case camelot_read path of Inl e \<Rightarrow> [Warning_camelot e] | Inr ts \<Rightarrow> []"
  have "snd (extract_tables_from_pdf tabula_read camelot_read pdf_open path lg)
          = lg @ ?w1 @ ?w2
              @ (case (case pdf_open path of
                         Inl e \<Rightarrow> Some e
                       | Inr pdf \<Rightarrow>
                          (case pdf_pages pdf of
                             Inl e \<Rightarrow> Some e
                           | Inr pages \<Rightarrow>
                               snd (plumber_pages pages 0
                                 (fst (case camelot_read path of
                                    Inl e \<Rightarrow> (fst (case tabula_read path of
                                               Inl e \<Rightarrow> ([], lg @ [Warning_tabula e])
                                             | Inr ts \<Rightarrow> (tabula_tables 0 ts, lg)),
                                          lg)
                                  | Inr ts \<Rightarrow>
                                      (fst (case tabula_read path of
                                               Inl e \<Rightarrow> ([], lg @ [Warning_tabula e])
                                             | Inr ts \<Rightarrow> (tabula_tables 0 ts, lg))
                                         @ camelot_tables 0 ts, lg)))))) of
                  None \<Rightarrow> [] | Some e \<Rightarrow> [Warning_pdfplumber e])"
    by (simp add: extract_tables_from_pdf_def Let_def split: sum.splits prod.splits option.splits)
  moreover have "outcomes ?w1 = []" "started ?w1 = []" "outcomes ?w2 = []" "started ?w2 = []"
    by (simp_all add: outcomes_simps started_simps split: sum.splits)
  ultimately show ?thesis
    by (auto simp: outcomes_append started_append outcomes_simps started_simps
        split: option.splits)
qed

lemma quiet_extract_text_with_structure:
  "quiet_extract (extract_text_with_structure tabula_read camelot_read pdf_open)"
  unfolding quiet_extract_def
proof (intro allI)
  fix path lg
  obtain found lg0 where
    t: "extract_tables_from_pdf tabula_read camelot_read pdf_open path lg = (found, lg0)"
    by (cases "extract_tables_from_pdf tabula_read camelot_read pdf_open path lg")
  from extract_tables_from_pdf_log [of tabula_read camelot_read pdf_open path lg] t
  obtain more0 where m0: "lg0 = lg @ more0" "outcomes more0 = []" "started more0 = []"
    by auto
  show "\<exists>more. snd (extract_text_with_structure tabula_read camelot_read pdf_open path lg)
                 = lg @ more
              \<and> outcomes more = [] \<and> started more = []"
  proof (cases "pdf_open path")
    case (Inl e)
    with t m0 show ?thesis
      by (intro exI [of _ "more0 @ [Error_extracting path e]"])
         (simp add: extract_text_with_structure_def outcomes_append started_append
            outcomes_simps started_simps)
  next
    case (Inr pdf)
    obtain collected err where
      r: "(case pdf_pages pdf of Inl e \<Rightarrow> ([], Some e)
           | Inr pages \<Rightarrow> extract_page_texts pages 0 []) = (collected, err)"
      by (cases "case pdf_pages pdf of Inl e \<Rightarrow> ([], Some e)
                 | Inr pages \<Rightarrow> extract_page_texts pages 0 []") auto
    show ?thesis
    proof (cases err)
      case None
      with Inr r t m0 show ?thesis
        by (intro exI [of _ more0])
           (simp add: extract_text_with_structure_def Let_def split: sum.splits)
    next
      case (Some e)
      with Inr r t m0 show ?thesis
        by (intro exI [of _ "more0 @ [Error_extracting path e]"])
           (simp add: extract_text_with_structure_def Let_def outcomes_append started_append
              outcomes_simps started_simps split: sum.splits)
    qed
  qed
qed

subsection \<open>One document\<close>

lemma process_pdf_result:
  assumes "extractor (file_path f) (logged st @ [Info_processing (file_name f)]) = (r, lg)"
  shows "(\<exists>e. logged (process_pdf extractor make_chunks embedder env st f)
                 = lg @ [Error_processing (file_name f) e]
             \<and> processed_docs (process_pdf extractor make_chunks embedder env st f)
                 = processed_docs st)
       \<or> (\<exists>d. processed_docs (process_pdf extractor make_chunks embedder env st f) (file_name f)
                 = Some d
             \<and> logged (process_pdf extractor make_chunks embedder env st f)
                 = lg @ [Info_success (file_name f) (doc_total_chunks (doc_metadata d))]
             \<and> (\<forall>n. n \<noteq> file_name f \<longrightarrow>
                   processed_docs (process_pdf extractor make_chunks embedder env st f) n
                     = processed_docs st n))"
  using assms
  by (auto simp: process_pdf_def try_process_def
      split: sum.splits prod.splits option.splits)

lemma process_pdf_log:
  assumes "quiet_extract extractor"
  shows "outcomes (logged (process_pdf extractor make_chunks embedder env st f))
           = outcomes (logged st) @ [file_name f]
         \<and> started (logged (process_pdf extractor make_chunks embedder env st f))
           = started (logged st) @ [file_name f]"
proof -
  obtain r lg where
    ex: "extractor (file_path f) (logged st @ [Info_processing (file_name f)]) = (r, lg)"
    by (cases "extractor (file_path f) (logged st @ [Info_processing (file_name f)])")
  from assms obtain more where
    "snd (extractor (file_path f) (logged st @ [Info_processing (file_name f)]))
       = (logged st @ [Info_processing (file_name f)]) @ more"
    and q: "outcomes more = []" "started more = []"
    unfolding quiet_extract_def by blast
  with ex have more: "lg = (logged st @ [Info_processing (file_name f)]) @ more" by simp
  from process_pdf_result [of "extractor" f st r lg make_chunks embedder env, OF ex] more q
  show ?thesis
    by (auto simp: outcomes_append started_append outcomes_simps started_simps)
qed

lemma process_pdf_others:
  assumes "n \<noteq> file_name f"
  shows "processed_docs (process_pdf extractor make_chunks embedder env st f) n
           = processed_docs st n"
proof -
  obtain r lg where
    ex: "extractor (file_path f) (logged st @ [Info_processing (file_name f)]) = (r, lg)"
    by (cases "extractor (file_path f) (logged st @ [Info_processing (file_name f)])")
  from process_pdf_result [of "extractor" f st r lg make_chunks embedder env, OF ex] assms
  show ?thesis by auto
qed

lemma process_pdf_last:
  "(\<exists>e. last (logged (process_pdf extractor make_chunks embedder env st f))
           = Error_processing (file_name f) e
       \<and> processed_docs (process_pdf extractor make_chunks embedder env st f)
           = processed_docs st)
   \<or> (\<exists>d. processed_docs (process_pdf extractor make_chunks embedder env st f) (file_name f)
           = Some d
       \<and> last (logged (process_pdf extractor make_chunks embedder env st f))
           = Info_success (file_name f) (doc_total_chunks (doc_metadata d)))"
proof -
  obtain r lg where
    ex: "extractor (file_path f) (logged st @ [Info_processing (file_name f)]) = (r, lg)"
    by (cases "extractor (file_path f) (logged st @ [Info_processing (file_name f)])")
  from process_pdf_result [of "extractor" f st r lg make_chunks embedder env, OF ex]
  show ?thesis by auto
qed

subsection \<open>The batch\<close>

lemma process_files_log:
  assumes "quiet_extract extractor"
  shows "outcomes (logged (process_files extractor make_chunks embedder env st fs))
           = outcomes (logged st) @ map file_name fs
         \<and> started (logged (process_files extractor make_chunks embedder env st fs))
           = started (logged st) @ map file_name fs"
proof (induction fs arbitrary: st)
  case Nil
  show ?case by simp
next
  case (Cons f fs)
  from Cons.IH [of "process_pdf extractor make_chunks embedder env st f"]
    process_pdf_log [OF assms, of make_chunks embedder env st f]
  show ?case by simp
qed

lemma process_files_others:
  assumes "n \<notin> file_name ` set fs"
  shows "processed_docs (process_files extractor make_chunks embedder env st fs) n
           = processed_docs st n"
  using assms
proof (induction fs arbitrary: st)
  case Nil
  show ?case by simp
next
  case (Cons f fs)
  from Cons.prems have "n \<noteq> file_name f" and "n \<notin> file_name ` set fs" by auto
  with Cons.IH [of "process_pdf extractor make_chunks embedder env st f"]
    process_pdf_others [of n f "extractor" make_chunks embedder env st]
  show ?case by simp
qed

subsection \<open>Which failures leave the extraction methods\<close>

lemma extract_text_from_pdf_raises:
  "isl (fst (extract_text_from_pdf pdf_open path lg))
     = (\<exists>pdf. pdf_open path = Inr pdf \<and> isl (pdf_page_count pdf))"
proof (cases "pdf_open path")
  case (Inl e)
  then show ?thesis by (simp add: extract_text_from_pdf_def)
next
  case (Inr pdf)
  then show ?thesis
    by (cases "pdf_page_count pdf")
       (simp_all add: extract_text_from_pdf_def Let_def split: prod.splits)
qed

lemma extract_text_with_structure_raises:
  "isl (fst (extract_text_with_structure tabula_read camelot_read pdf_open path lg))
     = (\<exists>pdf. pdf_open path = Inr pdf \<and> isl (pdf_page_count pdf))"
proof (cases "pdf_open path")
  case (Inl e)
  then show ?thesis by (simp add: extract_text_with_structure_def split: prod.splits)
next
  case (Inr pdf)
  then show ?thesis
    by (cases "pdf_page_count pdf")
       (simp_all add: extract_text_with_structure_def Let_def split: prod.splits)
qed

lemma extract_text_from_pdf_open_fails:
  "pdf_open path = Inl e \<Longrightarrow>
     extract_text_from_pdf pdf_open path lg
       = (Inr \<lparr>text_content = [], tables = [], total_pages = 0\<rparr>,
          lg @ [Error_extracting path e])"
  by (simp add: extract_text_from_pdf_def)

subsection \<open>A failure of the embedder is a failure of the embedding model\<close>

lemma embed_chunks_Inl:
  assumes "embed_chunks ex score encode cs acc = Inl e"
    and "\<forall>t. \<exists>f. ex t = Inr f"
  shows "\<exists>c \<in> set cs. encode (chunk_content c) = Inl e"
  using assms(1)
proof (induction cs arbitrary: acc)
  case Nil
  then show ?case by simp
next
  case (Cons c cs)
  from assms(2) obtain f where f: "ex (chunk_content c) = Inr f" by blast
  show ?case
  proof (cases "encode (chunk_content c)")
    case (Inl e')
    with Cons.prems f show ?thesis by simp
  next
    case (Inr v)
    with Cons.prems f Cons.IH show ?thesis by auto
  qed
qed

lemma embed_chunks_returned:
  assumes "embed_chunks ex score encode cs acc = Inr en"
  shows "\<forall>c \<in> set cs. \<not> isl (encode (chunk_content c))"
  using assms
proof (induction cs arbitrary: acc)
  case Nil
  then show ?case by simp
next
  case (Cons c cs)
  from Cons.prems obtain f v where f: "ex (chunk_content c) = Inr f"
    and v: "encode (chunk_content c) = Inr v"
    by (auto split: sum.splits)
  with Cons.prems Cons.IH show ?case by auto
qed

lemma embed_chunks_fails:
  assumes "\<exists>c \<in> set cs. isl (encode (chunk_content c))"
    and "\<forall>t. \<exists>f. ex t = Inr f"
  shows "\<exists>e. embed_chunks ex score encode cs acc = Inl e
             \<and> (\<exists>c \<in> set cs. encode (chunk_content c) = Inl e)"
proof (cases "embed_chunks ex score encode cs acc")
  case (Inl e)
  with embed_chunks_Inl [OF Inl assms(2)] show ?thesis by simp
next
  case (Inr en)
  from embed_chunks_returned [OF Inr] assms(1) show ?thesis by blast
qed

lemma simple_features_return: "\<forall>t. \<exists>f. SimpleInsuranceEmbedder_extract_features t = Inr f"
  using simple_features_total by blast

lemma full_features_return: "\<forall>t. \<exists>f. InsuranceEmbedder_extract_features t = Inr f"
  using full_features_total by blast

subsection \<open>A failure that leaves the try block\<close>

lemma process_pdf_nothing_extracted:
  assumes "extractor (file_path f) (logged st @ [Info_processing (file_name f)])
             = (Inr extracted, lg)"
    and "make_chunks (file_name f) extracted = Inr []"
    and "embedder [] = Inr []"
    and "ext_stat_size env (file_path f) = Inr file_size"
  shows "logged (process_pdf extractor make_chunks embedder env st f)
           = lg @ [Info_success (file_name f) 0]
         \<and> processed_docs (process_pdf extractor make_chunks embedder env st f) (file_name f)
           = Some \<lparr>doc_chunks = [],
                   doc_metadata =
                     \<lparr>doc_file_path = file_path f, doc_file_size = file_size,
                      doc_total_pages = total_pages extracted, doc_total_chunks = 0,
                      doc_processed_at = ext_processed_clock env (file_name f)\<rparr>\<rparr>
         \<and> collection (process_pdf extractor make_chunks embedder env st f) = collection st"
  using assms by (simp add: process_pdf_def try_process_def)

lemma create_chunks_nothing:
  "create_chunks csize split_sentences clock \<lparr>text_content = [], tables = [], total_pages = n\<rparr>
     = Inr []"
  by (simp add: create_chunks_def chunk_text_content_def)

lemma create_semantic_chunks_nothing:
  "create_semantic_chunks csize split_sentences clock
     \<lparr>text_content = [], tables = [], total_pages = n\<rparr> = Inr []"
  by (simp add: create_semantic_chunks_def chunk_text_content_def)

lemma extract_text_from_pdf_count_fails:
  "pdf_open path = Inr pdf \<Longrightarrow> pdf_page_count pdf = Inl e \<Longrightarrow>
     \<exists>lg1. extract_text_from_pdf pdf_open path lg = (Inl e, lg1)"
  by (simp add: extract_text_from_pdf_def Let_def split: prod.splits)

lemma extract_text_with_structure_count_fails:
  "pdf_open path = Inr pdf \<Longrightarrow> pdf_page_count pdf = Inl e \<Longrightarrow>
     \<exists>lg1. extract_text_with_structure tabula_read camelot_read pdf_open path lg = (Inl e, lg1)"
  by (simp add: extract_text_with_structure_def Let_def split: prod.splits)

lemma extract_text_with_structure_nothing_opens:
  "pdf_open path = Inl e \<Longrightarrow> tabula_read path = Inl tabula_error \<Longrightarrow> camelot_read path = Inl camelot_error \<Longrightarrow>
     extract_text_with_structure tabula_read camelot_read pdf_open path lg
       = (Inr \<lparr>text_content = [], tables = [], total_pages = 0\<rparr>,
          lg @ [Warning_tabula tabula_error, Warning_camelot camelot_error, Warning_pdfplumber e,
                Error_extracting path e])"
  by (simp add: extract_text_with_structure_def extract_tables_from_pdf_def)

lemma process_files_append:
  "process_files extractor make_chunks embedder env st (xs @ ys)
     = process_files extractor make_chunks embedder env
         (process_files extractor make_chunks embedder env st xs) ys"
  by (induction xs arbitrary: st) simp_all

subsection \<open>The page loops, page by page\<close>

lemma table_rows_fails:
  "\<exists>row \<in> set t. py_any truthy_cell row \<and> None \<in> set row \<Longrightarrow> table_rows t = Inl TypeError"
proof (induction t)
  case Nil
  then show ?case by simp
next
  case (Cons r rs)
  show ?case
  proof (cases "py_any truthy_cell r \<and> None \<in> set r")
    case True
    then show ?thesis by (simp add: tab_join_def py_any_iff)
  next
    case False
    with Cons.prems have "\<exists>row \<in> set rs. py_any truthy_cell row \<and> None \<in> set row" by auto
    from Cons.IH [OF this] show ?thesis
      by (auto simp: tab_join_def split: sum.splits if_splits)
  qed
qed

lemma table_text_of_fails:
  "\<exists>row \<in> set t. py_any truthy_cell row \<and> None \<in> set row \<Longrightarrow>
     table_text_of t = Inl TypeError"
  by (simp add: table_text_of_def table_rows_fails)

lemma add_tables_append:
  "add_tables pn k (ts @ us) found
     = (case add_tables pn k ts found of
          (f, None) \<Rightarrow> add_tables pn (k + length ts) us f
        | (f, Some e) \<Rightarrow> (f, Some e))"
  by (induction ts arbitrary: k found) (simp_all split: sum.splits)

lemma add_plumber_tables_append:
  "add_plumber_tables pn k (ts @ us) found
     = (case add_plumber_tables pn k ts found of
          (f, None) \<Rightarrow> add_plumber_tables pn (k + length ts) us f
        | (f, Some e) \<Rightarrow> (f, Some e))"
  by (induction ts arbitrary: k found) (simp_all split: sum.splits)

lemma extract_pages_append:
  "extract_pages (ps @ qs) k collected found
     = (case extract_pages ps k collected found of
          (c, f, None) \<Rightarrow> extract_pages qs (k + length ps) c f
        | (c, f, Some e) \<Rightarrow> (c, f, Some e))"
  by (induction ps arbitrary: k collected found)
     (simp_all add: Let_def split: sum.splits prod.splits option.splits)

lemma plumber_pages_append:
  "plumber_pages (ps @ qs) k found
     = (case plumber_pages ps k found of
          (f, None) \<Rightarrow> plumber_pages qs (k + length ps) f
        | (f, Some e) \<Rightarrow> (f, Some e))"
  by (induction ps arbitrary: k found)
     (simp_all split: sum.splits prod.splits option.splits)

lemma extract_page_texts_append:
  "extract_page_texts (ps @ qs) k collected
     = (case extract_page_texts ps k collected of
          (c, None) \<Rightarrow> extract_page_texts qs (k + length ps) c
        | (c, Some e) \<Rightarrow> (c, Some e))"
  by (induction ps arbitrary: k collected) (simp_all split: sum.splits)

lemma add_tables_row_join_fails:
  assumes "add_tables pn 0 tabs_earlier found = (found_more, None)"
    and "length t > 1"
    and "\<exists>row \<in> set t. py_any truthy_cell row \<and> None \<in> set row"
  shows "add_tables pn 0 (tabs_earlier @ t # tabs_later) found = (found_more, Some TypeError)"
proof -
  from assms(2) have "t \<noteq> []" by auto
  with assms show ?thesis by (simp add: add_tables_append table_text_of_fails)
qed

lemma add_plumber_tables_row_join_fails:
  assumes "add_plumber_tables pn 0 tabs_earlier found = (found_more, None)"
    and "length t > 1"
    and "\<exists>row \<in> set t. py_any truthy_cell row \<and> None \<in> set row"
  shows "add_plumber_tables pn 0 (tabs_earlier @ t # tabs_later) found
           = (found_more, Some TypeError)"
proof -
  from assms(2) have "t \<noteq> []" by auto
  with assms show ?thesis by (simp add: add_plumber_tables_append table_text_of_fails)
qed

text \<open>\<open>SimpleInsuranceChunker.extract_text_from_pdf\<close> when a page fails.\<close>

lemma extract_text_from_pdf_page_fails:
  assumes "pdf_open path = Inr pdf"
    and "pdf_pages pdf = Inr (earlier @ p # later)"
    and "pdf_page_count pdf = Inr n"
    and "extract_pages earlier 0 [] [] = (collected, found, None)"
  shows "page_text p = Inl e \<longrightarrow>
           extract_text_from_pdf pdf_open path lg
             = (Inr \<lparr>text_content = collected, tables = found, total_pages = n\<rparr>,
                lg @ [Error_extracting path e])"
    and "page_text p = Inr page_txt \<and> page_tables p = Inl e \<longrightarrow>
           extract_text_from_pdf pdf_open path lg
             = (Inr \<lparr>text_content = add_page_text (length earlier) page_txt collected,
                     tables = found, total_pages = n\<rparr>,
                lg @ [Error_extracting path e])"
    and "page_text p = Inr page_txt \<and> page_tables p = Inr (tabs_earlier @ t # tabs_later)
         \<and> add_tables (length earlier) 0 tabs_earlier found = (found_more, None)
         \<and> length t > 1 \<and> row \<in> set t \<and> py_any truthy_cell row \<and> None \<in> set row \<longrightarrow>
           extract_text_from_pdf pdf_open path lg
             = (Inr \<lparr>text_content = add_page_text (length earlier) page_txt collected,
                     tables = found_more, total_pages = n\<rparr>,
                lg @ [Error_extracting path TypeError])"
proof -
  have pages: "extract_pages (earlier @ p # later) 0 [] []
                 = extract_pages (p # later) (length earlier) collected found"
    using assms(4) by (simp add: extract_pages_append)
  show "page_text p = Inl e \<longrightarrow>
           extract_text_from_pdf pdf_open path lg
             = (Inr \<lparr>text_content = collected, tables = found, total_pages = n\<rparr>,
                lg @ [Error_extracting path e])"
    using assms(1-3) by (simp add: extract_text_from_pdf_def pages)
  show "page_text p = Inr page_txt \<and> page_tables p = Inl e \<longrightarrow>
           extract_text_from_pdf pdf_open path lg
             = (Inr \<lparr>text_content = add_page_text (length earlier) page_txt collected,
                     tables = found, total_pages = n\<rparr>,
                lg @ [Error_extracting path e])"
    using assms(1-3) by (simp add: extract_text_from_pdf_def pages Let_def)
  show "page_text p = Inr page_txt \<and> page_tables p = Inr (tabs_earlier @ t # tabs_later)
         \<and> add_tables (length earlier) 0 tabs_earlier found = (found_more, None)
         \<and> length t > 1 \<and> row \<in> set t \<and> py_any truthy_cell row \<and> None \<in> set row \<longrightarrow>
           extract_text_from_pdf pdf_open path lg
             = (Inr \<lparr>text_content = add_page_text (length earlier) page_txt collected,
                     tables = found_more, total_pages = n\<rparr>,
                lg @ [Error_extracting path TypeError])"
  proof
    assume a: "page_text p = Inr page_txt \<and> page_tables p = Inr (tabs_earlier @ t # tabs_later)
         \<and> add_tables (length earlier) 0 tabs_earlier found = (found_more, None)
         \<and> length t > 1 \<and> row \<in> set t \<and> py_any truthy_cell row \<and> None \<in> set row"
    then have "add_tables (length earlier) 0 (tabs_earlier @ t # tabs_later) found
                 = (found_more, Some TypeError)"
      by (intro add_tables_row_join_fails) auto
    with a assms(1-3) show "extract_text_from_pdf pdf_open path lg
             = (Inr \<lparr>text_content = add_page_text (length earlier) page_txt collected,
                     tables = found_more, total_pages = n\<rparr>,
                lg @ [Error_extracting path TypeError])"
      by (simp add: extract_text_from_pdf_def pages Let_def)
  qed
qed

text \<open>\<open>InsurancePolicyChunker.extract_tables_from_pdf\<close> and
  \<open>extract_text_with_structure\<close> when a page fails.\<close>

lemma extract_tables_from_pdf_readers:
  "extract_tables_from_pdf tabula_read camelot_read pdf_open path lg
     = (case (case pdf_open path of
                Inl e \<Rightarrow>
                  ((case tabula_read path of Inl e \<Rightarrow> [] | Inr ts \<Rightarrow> tabula_tables 0 ts)
                     @ (case camelot_read path of Inl e \<Rightarrow> [] | Inr ts \<Rightarrow> camelot_tables 0 ts),
                   Some e)
              | Inr pdf \<Rightarrow>
                 (case pdf_pages pdf of
                    Inl e \<Rightarrow>
                      ((case tabula_read path of Inl e \<Rightarrow> [] | Inr ts \<Rightarrow> tabula_tables 0 ts)
                         @ (case camelot_read path of Inl e \<Rightarrow> []
                            | Inr ts \<Rightarrow> camelot_tables 0 ts),
                       Some e)
                  | Inr pages \<Rightarrow>
                      plumber_pages pages 0
                        ((case tabula_read path of Inl e \<Rightarrow> [] | Inr ts \<Rightarrow> tabula_tables 0 ts)
                           @ (case camelot_read path of Inl e \<Rightarrow> []
                              | Inr ts \<Rightarrow> camelot_tables 0 ts)))) of
          (found, err) \<Rightarrow>
            (found,
             lg @ (case tabula_read path of Inl e \<Rightarrow> [Warning_tabula e] | Inr ts \<Rightarrow> [])
                @ (case camelot_read path of Inl e \<Rightarrow> [Warning_camelot e] | Inr ts \<Rightarrow> [])
                @ (case err of None \<Rightarrow> [] | Some e \<Rightarrow> [Warning_pdfplumber e])))"
  by (simp add: extract_tables_from_pdf_def Let_def
      split: sum.splits prod.splits option.splits)

lemma extract_tables_from_pdf_page_fails:
  assumes "found_readers
             = (case tabula_read path of Inl e \<Rightarrow> [] | Inr ts \<Rightarrow> tabula_tables 0 ts)
                 @ (case camelot_read path of Inl e \<Rightarrow> [] | Inr ts \<Rightarrow> camelot_tables 0 ts)"
    and "lg_readers
           = lg @ (case tabula_read path of Inl e \<Rightarrow> [Warning_tabula e] | Inr ts \<Rightarrow> [])
                @ (case camelot_read path of Inl e \<Rightarrow> [Warning_camelot e] | Inr ts \<Rightarrow> [])"
  shows "pdf_open path = Inl e \<longrightarrow>
           extract_tables_from_pdf tabula_read camelot_read pdf_open path lg
             = (found_readers, lg_readers @ [Warning_pdfplumber e])"
    and "pdf_open path = Inr pdf \<and> pdf_pages pdf = Inr (earlier @ p # later)
         \<and> plumber_pages earlier 0 found_readers = (found, None)
         \<and> page_tables p = Inl e \<longrightarrow>
           extract_tables_from_pdf tabula_read camelot_read pdf_open path lg
             = (found, lg_readers @ [Warning_pdfplumber e])"
    and "pdf_open path = Inr pdf \<and> pdf_pages pdf = Inr (earlier @ p # later)
         \<and> plumber_pages earlier 0 found_readers = (found, None)
         \<and> page_tables p = Inr (tabs_earlier @ t # tabs_later)
         \<and> add_plumber_tables (length earlier) 0 tabs_earlier found = (found_more, None)
         \<and> length t > 1 \<and> row \<in> set t \<and> py_any truthy_cell row \<and> None \<in> set row \<longrightarrow>
           extract_tables_from_pdf tabula_read camelot_read pdf_open path lg
             = (found_more, lg_readers @ [Warning_pdfplumber TypeError])"
proof -
  show "pdf_open path = Inl e \<longrightarrow>
           extract_tables_from_pdf tabula_read camelot_read pdf_open path lg
             = (found_readers, lg_readers @ [Warning_pdfplumber e])"
    unfolding extract_tables_from_pdf_readers assms by simp
  show "pdf_open path = Inr pdf \<and> pdf_pages pdf = Inr (earlier @ p # later)
         \<and> plumber_pages earlier 0 found_readers = (found, None)
         \<and> page_tables p = Inl e \<longrightarrow>
           extract_tables_from_pdf tabula_read camelot_read pdf_open path lg
             = (found, lg_readers @ [Warning_pdfplumber e])"
    unfolding extract_tables_from_pdf_readers assms
    by (simp add: plumber_pages_append)
  show "pdf_open path = Inr pdf \<and> pdf_pages pdf = Inr (earlier @ p # later)
         \<and> plumber_pages earlier 0 found_readers = (found, None)
         \<and> page_tables p = Inr (tabs_earlier @ t # tabs_later)
         \<and> add_plumber_tables (length earlier) 0 tabs_earlier found = (found_more, None)
         \<and> length t > 1 \<and> row \<in> set t \<and> py_any truthy_cell row \<and> None \<in> set row \<longrightarrow>
           extract_tables_from_pdf tabula_read camelot_read pdf_open path lg
             = (found_more, lg_readers @ [Warning_pdfplumber TypeError])"
  proof
    assume a: "pdf_open path = Inr pdf \<and> pdf_pages pdf = Inr (earlier @ p # later)
         \<and> plumber_pages earlier 0 found_readers = (found, None)
         \<and> page_tables p = Inr (tabs_earlier @ t # tabs_later)
         \<and> add_plumber_tables (length earlier) 0 tabs_earlier found = (found_more, None)
         \<and> length t > 1 \<and> row \<in> set t \<and> py_any truthy_cell row \<and> None \<in> set row"
    then have "add_plumber_tables (length earlier) 0 (tabs_earlier @ t # tabs_later) found
                 = (found_more, Some TypeError)"
      by (intro add_plumber_tables_row_join_fails) auto
    with a show "extract_tables_from_pdf tabula_read camelot_read pdf_open path lg
             = (found_more, lg_readers @ [Warning_pdfplumber TypeError])"
      unfolding extract_tables_from_pdf_readers assms
      by (simp add: plumber_pages_append)
  qed
qed

lemma extract_text_with_structure_page_fails:
  assumes "extract_tables_from_pdf tabula_read camelot_read pdf_open path lg
             = (found, lg_tables)"
  shows "pdf_open path = Inl e \<longrightarrow>
           extract_text_with_structure tabula_read camelot_read pdf_open path lg
             = (Inr \<lparr>text_content = [], tables = found, total_pages = 0\<rparr>,
                lg_tables @ [Error_extracting path e])"
    and "pdf_open path = Inr pdf \<and> pdf_pages pdf = Inr (earlier @ p # later)
         \<and> pdf_page_count pdf = Inr n
         \<and> extract_page_texts earlier 0 [] = (collected, None) \<and> page_text p = Inl e \<longrightarrow>
           extract_text_with_structure tabula_read camelot_read pdf_open path lg
             = (Inr \<lparr>text_content = collected, tables = found, total_pages = n\<rparr>,
                lg_tables @ [Error_extracting path e])"
    and "pdf_open path = Inr pdf \<and> pdf_pages pdf = Inr pages \<and> pdf_page_count pdf = Inr n
         \<and> extract_page_texts pages 0 [] = (collected, None) \<longrightarrow>
           extract_text_with_structure tabula_read camelot_read pdf_open path lg
             = (Inr \<lparr>text_content = collected, tables = found, total_pages = n\<rparr>,
                lg_tables)"
  using assms
  by (simp_all add: extract_text_with_structure_def extract_page_texts_append)

subsection \<open>Where the chunk builder and the embedder fail\<close>

lemma parts_loop_fails:
  "parts_loop csize split_sentences items cur sec parts = Inl e \<Longrightarrow>
     \<exists>t. split_sentences t = Inl e"
proof (induction items arbitrary: cur sec parts)
  case Nil
  then show ?case by simp
next
  case (Cons item items)
  let ?new = "item_is_header item \<and> item_section_type item \<noteq> sec"
  let ?parts1 = "if ?new then (if cur \<noteq> [] then parts @ [(cur, sec)] else parts) else parts"
  let ?cur1 = "if ?new then [item_text item] else cur @ [item_text item]"
  let ?sec1 = "if ?new then item_section_type item else sec"
  have step: "parts_loop csize split_sentences (item # items) cur sec parts
      = (if int (length (py_split (py_join '' '' ?cur1))) > csize
         then (case split_sentences (py_join '' '' ?cur1) of
                 Inl e \<Rightarrow> Inl e
               | Inr sentences \<Rightarrow>
                  (case split_parts csize ?sec1 sentences [] ?parts1 of
                     (temp_chunk, parts2) \<Rightarrow>
                       parts_loop csize split_sentences items temp_chunk ?sec1 parts2))
         else parts_loop csize split_sentences items ?cur1 ?sec1 ?parts1)"
    unfolding parts_loop_Cons Let_def ..
  show ?case
  proof (cases "int (length (py_split (py_join '' '' ?cur1))) > csize")
    case False
    with Cons.prems have "parts_loop csize split_sentences items ?cur1 ?sec1 ?parts1 = Inl e"
      unfolding step by simp
    from Cons.IH [OF this] show ?thesis .
  next
    case True
    show ?thesis
    proof (cases "split_sentences (py_join '' '' ?cur1)")
      case (Inl e')
      with True Cons.prems have "e' = e" unfolding step by simp
      with Inl show ?thesis by blast
    next
      case (Inr ss)
      obtain temp parts2 where inner: "split_parts csize ?sec1 ss [] ?parts1 = (temp, parts2)"
        by (cases "split_parts csize ?sec1 ss [] ?parts1")
      with True Inr Cons.prems
      have "parts_loop csize split_sentences items temp ?sec1 parts2 = Inl e"
        unfolding step by simp
      from Cons.IH [OF this] show ?thesis .
    qed
  qed
qed

lemma chunk_text_content_fails:
  "chunk_text_content csize split_sentences clock items = Inl e \<Longrightarrow>
     \<exists>t. split_sentences t = Inl e"
  unfolding chunk_text_content_parts text_parts_def
  using parts_loop_fails [of csize split_sentences items "[]" "''general''" "[]" e]
  by (auto split: sum.splits prod.splits)

lemma create_chunks_fails:
  "create_chunks csize split_sentences clock extracted = Inl e \<Longrightarrow>
     \<exists>t. split_sentences t = Inl e"
  using chunk_text_content_fails [of csize split_sentences clock "text_content extracted" e]
  by (auto simp: create_chunks_def split: sum.splits)

lemma create_semantic_chunks_fails:
  "create_semantic_chunks csize split_sentences clock extracted = Inl e \<Longrightarrow>
     \<exists>t. split_sentences t = Inl e"
  using chunk_text_content_fails [of csize split_sentences clock "text_content extracted" e]
  by (auto simp: create_semantic_chunks_def split: sum.splits)

lemma embed_chunks_returns:
  assumes "\<forall>c \<in> set cs. \<exists>v. encode (chunk_content c) = Inr v"
    and "\<forall>t. \<exists>f. ex t = Inr f"
  shows "\<exists>en. embed_chunks ex score encode cs acc = Inr en
              \<and> length en = length acc + length cs"
  using assms(1)
proof (induction cs arbitrary: acc)
  case Nil
  then show ?case by simp
next
  case (Cons c cs)
  from assms(2) obtain f where f: "ex (chunk_content c) = Inr f" by blast
  from Cons.prems obtain v where v: "encode (chunk_content c) = Inr v" by auto
  from Cons.prems have "\<forall>c \<in> set cs. \<exists>v. encode (chunk_content c) = Inr v" by simp
  from Cons.IH [OF this,
      of "acc @ [\<lparr>chunk_content = chunk_content c, chunk_type = chunk_type c,
                   chunk_metadata = chunk_metadata c, embedding = v, features = f,
                   semantic_score = score (chunk_content c)\<rparr>]"]
  obtain en where "embed_chunks ex score encode cs
      (acc @ [\<lparr>chunk_content = chunk_content c, chunk_type = chunk_type c,
                chunk_metadata = chunk_metadata c, embedding = v, features = f,
                semantic_score = score (chunk_content c)\<rparr>]) = Inr en"
    and "length en = length acc + 1 + length cs"
    by auto
  with f v show ?case by simp
qed

subsection \<open>One round, stage by stage\<close>

lemma process_pdf_stages:
  assumes "extractor (file_path f) (logged st @ [Info_processing (file_name f)])
             = (Inr extracted, lg)"
  shows "make_chunks (file_name f) extracted = Inl e \<longrightarrow>
           process_pdf extractor make_chunks embedder env st f
             = st\<lparr>logged := lg @ [Error_processing (file_name f) e]\<rparr>"
    and "make_chunks (file_name f) extracted = Inr chunks \<and> embedder chunks = Inl e \<longrightarrow>
           process_pdf extractor make_chunks embedder env st f
             = st\<lparr>logged := lg @ [Error_processing (file_name f) e]\<rparr>"
    and "make_chunks (file_name f) extracted = Inr chunks \<and> embedder chunks = Inr enhanced
         \<and> store_chunks (ext_collection_add env) (file_name f) 0 enhanced (collection st)
             = (coll, Some e) \<longrightarrow>
           process_pdf extractor make_chunks embedder env st f
             = st\<lparr>collection := coll, logged := lg @ [Error_processing (file_name f) e]\<rparr>"
    and "make_chunks (file_name f) extracted = Inr chunks \<and> embedder chunks = Inr enhanced
         \<and> store_chunks (ext_collection_add env) (file_name f) 0 enhanced (collection st)
             = (coll, None)
         \<and> ext_stat_size env (file_path f) = Inl e \<longrightarrow>
           process_pdf extractor make_chunks embedder env st f
             = st\<lparr>collection := coll, logged := lg @ [Error_processing (file_name f) e]\<rparr>"
    and "make_chunks (file_name f) extracted = Inr chunks \<and> embedder chunks = Inr enhanced
         \<and> store_chunks (ext_collection_add env) (file_name f) 0 enhanced (collection st)
             = (coll, None)
         \<and> ext_stat_size env (file_path f) = Inr file_size \<longrightarrow>
           process_pdf extractor make_chunks embedder env st f
             = \<lparr>collection = coll,
                processed_docs = (processed_docs st)(file_name f \<mapsto>
                  \<lparr>doc_chunks = enhanced,
                   doc_metadata =
                     \<lparr>doc_file_path = file_path f, doc_file_size = file_size,
                      doc_total_pages = total_pages extracted,
                      doc_total_chunks = length enhanced,
                      doc_processed_at = ext_processed_clock env (file_name f)\<rparr>\<rparr>),
                logged = lg @ [Info_success (file_name f) (length enhanced)]\<rparr>"
  using assms by (simp_all add: process_pdf_def try_process_def)

lemma process_pdf_extract_raises:
  assumes "extractor (file_path f) (logged st @ [Info_processing (file_name f)]) = (Inl e, lg)"
  shows "process_pdf extractor make_chunks embedder env st f
           = st\<lparr>logged := lg @ [Error_processing (file_name f) e]\<rparr>"
  using assms by (simp add: process_pdf_def try_process_def)

subsection \<open>\<open>SimpleInsuranceRAGSystem.process_pdfs\<close>\<close>

lemma simple_round:
  "SimpleInsuranceRAGSystem_process_pdfs env csize st [f]
     = process_pdf (extract_text_from_pdf (ext_pdf_open env))
         (\<lambda>name. create_chunks csize (ext_split_sentences env) (ext_chunk_clock env name))
         (create_embeddings (ext_encode env)) env st f"
  by (simp add: SimpleInsuranceRAGSystem_process_pdfs_def)

lemma simple_continues:
  "SimpleInsuranceRAGSystem_process_pdfs env csize st (batch @ remaining)
     = SimpleInsuranceRAGSystem_process_pdfs env csize
         (SimpleInsuranceRAGSystem_process_pdfs env csize st batch) remaining"
  by (simp add: SimpleInsuranceRAGSystem_process_pdfs_def process_files_append)

lemma simple_started:
  "started (logged (SimpleInsuranceRAGSystem_process_pdfs env csize st files))
     = started (logged st) @ map file_name files"
  by (simp add: SimpleInsuranceRAGSystem_process_pdfs_def
              process_files_log [OF quiet_extract_text_from_pdf])

lemma simple_outcomes:
  "outcomes (logged (SimpleInsuranceRAGSystem_process_pdfs env csize st files))
     = outcomes (logged st) @ map file_name files"
  by (simp add: SimpleInsuranceRAGSystem_process_pdfs_def
              process_files_log [OF quiet_extract_text_from_pdf])

lemma simple_others:
  "\<forall>name. name \<notin> file_name ` set files \<longrightarrow>
      processed_docs (SimpleInsuranceRAGSystem_process_pdfs env csize st files) name
        = processed_docs st name"
  by (simp add: SimpleInsuranceRAGSystem_process_pdfs_def process_files_others)

lemma simple_outcome:
  "(\<exists>e. last (logged (SimpleInsuranceRAGSystem_process_pdfs env csize st [f]))
            = Error_processing (file_name f) e
        \<and> processed_docs (SimpleInsuranceRAGSystem_process_pdfs env csize st [f])
            = processed_docs st)
    \<or> (\<exists>d. processed_docs (SimpleInsuranceRAGSystem_process_pdfs env csize st [f])
              (file_name f) = Some d
        \<and> last (logged (SimpleInsuranceRAGSystem_process_pdfs env csize st [f]))
            = Info_success (file_name f) (doc_total_chunks (doc_metadata d)))"
  unfolding simple_round by (rule process_pdf_last)

lemma simple_raises:
  "isl (fst (extract_text_from_pdf (ext_pdf_open env) (file_path f)
               (logged st @ [Info_processing (file_name f)])))
     = (\<exists>pdf. ext_pdf_open env (file_path f) = Inr pdf \<and> isl (pdf_page_count pdf))"
  by (rule extract_text_from_pdf_raises)

lemma simple_propagated:
  "ext_pdf_open env (file_path f) = Inr pdf \<and> pdf_page_count pdf = Inl e \<longrightarrow>
      last (logged (SimpleInsuranceRAGSystem_process_pdfs env csize st [f]))
        = Error_processing (file_name f) e
      \<and> processed_docs (SimpleInsuranceRAGSystem_process_pdfs env csize st [f])
        = processed_docs st
      \<and> collection (SimpleInsuranceRAGSystem_process_pdfs env csize st [f])
        = collection st"
proof
  assume a: "ext_pdf_open env (file_path f) = Inr pdf \<and> pdf_page_count pdf = Inl e"
  then obtain lg_after where
    "extract_text_from_pdf (ext_pdf_open env) (file_path f)
       (logged st @ [Info_processing (file_name f)]) = (Inl e, lg_after)"
    using extract_text_from_pdf_count_fails [where pdf_open = "ext_pdf_open env" and pdf = pdf
        and e = e]
    by blast
  from process_pdf_extract_raises
      [where extractor = "extract_text_from_pdf (ext_pdf_open env)"
        and make_chunks = "\<lambda>name. create_chunks csize (ext_split_sentences env)
                              (ext_chunk_clock env name)"
        and embedder = "create_embeddings (ext_encode env)" and env = env, OF this]
  show "last (logged (SimpleInsuranceRAGSystem_process_pdfs env csize st [f]))
        = Error_processing (file_name f) e
      \<and> processed_docs (SimpleInsuranceRAGSystem_process_pdfs env csize st [f])
        = processed_docs st
      \<and> collection (SimpleInsuranceRAGSystem_process_pdfs env csize st [f])
        = collection st"
    unfolding simple_round by simp
qed

lemma simple_chunking:
  "extract_text_from_pdf (ext_pdf_open env) (file_path f)
             (logged st @ [Info_processing (file_name f)]) = (Inr extracted, lg)
    \<and> create_chunks csize (ext_split_sentences env) (ext_chunk_clock env (file_name f))
     extracted = Inl e
    \<longrightarrow> (\<exists>sentence_text. ext_split_sentences env sentence_text = Inl e)
       \<and> SimpleInsuranceRAGSystem_process_pdfs env csize st [f]
           = st\<lparr>logged := lg @ [Error_processing (file_name f) e]\<rparr>"
proof
  assume a: "extract_text_from_pdf (ext_pdf_open env) (file_path f)
                (logged st @ [Info_processing (file_name f)]) = (Inr extracted, lg)
       \<and> create_chunks csize (ext_split_sentences env) (ext_chunk_clock env (file_name f))
        extracted = Inl e"
  then have ex: "extract_text_from_pdf (ext_pdf_open env) (file_path f)
          (logged st @ [Info_processing (file_name f)]) = (Inr extracted, lg)"
    and ch: "(\<lambda>name. create_chunks csize (ext_split_sentences env)
                              (ext_chunk_clock env name))
               (file_name f) extracted = Inl e"
    by simp_all
  from a have "\<exists>sentence_text. ext_split_sentences env sentence_text = Inl e"
    using create_chunks_fails by blast
  with process_pdf_stages(1)
      [where extractor = "extract_text_from_pdf (ext_pdf_open env)"
        and make_chunks = "\<lambda>name. create_chunks csize (ext_split_sentences env)
                              (ext_chunk_clock env name)"
        and embedder = "create_embeddings (ext_encode env)" and env = env, OF ex] ch
  show "(\<exists>sentence_text. ext_split_sentences env sentence_text = Inl e)
          \<and> SimpleInsuranceRAGSystem_process_pdfs env csize st [f]
              = st\<lparr>logged := lg @ [Error_processing (file_name f) e]\<rparr>"
    unfolding simple_round by simp
qed

lemma simple_embedding:
  "extract_text_from_pdf (ext_pdf_open env) (file_path f)
             (logged st @ [Info_processing (file_name f)]) = (Inr extracted, lg)
    \<and> create_chunks csize (ext_split_sentences env) (ext_chunk_clock env (file_name f))
             extracted = Inr chunks
    \<and> (\<exists>c \<in> set chunks. isl (ext_encode env (chunk_content c)))
    \<longrightarrow> (\<exists>e. (\<exists>c \<in> set chunks. ext_encode env (chunk_content c) = Inl e)
           \<and> SimpleInsuranceRAGSystem_process_pdfs env csize st [f]
               = st\<lparr>logged := lg @ [Error_processing (file_name f) e]\<rparr>)"
proof
  assume a: "extract_text_from_pdf (ext_pdf_open env) (file_path f)
                (logged st @ [Info_processing (file_name f)]) = (Inr extracted, lg)
       \<and> create_chunks csize (ext_split_sentences env) (ext_chunk_clock env (file_name f))
                extracted = Inr chunks
       \<and> (\<exists>c \<in> set chunks. isl (ext_encode env (chunk_content c)))"
  then have ex: "extract_text_from_pdf (ext_pdf_open env) (file_path f)
          (logged st @ [Info_processing (file_name f)]) = (Inr extracted, lg)"
    and ch: "(\<lambda>name. create_chunks csize (ext_split_sentences env)
                              (ext_chunk_clock env name))
               (file_name f) extracted = Inr chunks"
    and en: "\<exists>c \<in> set chunks. isl (ext_encode env (chunk_content c))"
    by simp_all
  from embed_chunks_fails [OF en simple_features_return] obtain e where
    e: "create_embeddings (ext_encode env) chunks = Inl e"
    and c: "\<exists>c \<in> set chunks. ext_encode env (chunk_content c) = Inl e"
    unfolding create_embeddings_def by blast
  from process_pdf_stages(2)
      [where extractor = "extract_text_from_pdf (ext_pdf_open env)"
        and make_chunks = "\<lambda>name. create_chunks csize (ext_split_sentences env)
                              (ext_chunk_clock env name)"
        and embedder = "create_embeddings (ext_encode env)" and env = env, OF ex] ch e c
  show "(\<exists>e. (\<exists>c \<in> set chunks. ext_encode env (chunk_content c) = Inl e)
              \<and> SimpleInsuranceRAGSystem_process_pdfs env csize st [f]
                  = st\<lparr>logged := lg @ [Error_processing (file_name f) e]\<rparr>)"
    unfolding simple_round by blast
qed

lemma simple_storing:
  "extract_text_from_pdf (ext_pdf_open env) (file_path f)
             (logged st @ [Info_processing (file_name f)]) = (Inr extracted, lg)
    \<and> create_chunks csize (ext_split_sentences env) (ext_chunk_clock env (file_name f))
             extracted = Inr chunks
    \<and> create_embeddings (ext_encode env) chunks = Inr enhanced
    \<and> store_chunks (ext_collection_add env) (file_name f) 0 enhanced
             (collection st) = (coll, Some e)
    \<longrightarrow> SimpleInsuranceRAGSystem_process_pdfs env csize st [f]
          = st\<lparr>collection := coll,
                logged := lg @ [Error_processing (file_name f) e]\<rparr>"
proof
  assume a: "extract_text_from_pdf (ext_pdf_open env) (file_path f)
                (logged st @ [Info_processing (file_name f)]) = (Inr extracted, lg)
       \<and> create_chunks csize (ext_split_sentences env) (ext_chunk_clock env (file_name f))
                extracted = Inr chunks
       \<and> create_embeddings (ext_encode env) chunks = Inr enhanced
       \<and> store_chunks (ext_collection_add env) (file_name f) 0 enhanced
                (collection st) = (coll, Some e)"
  then have ex: "extract_text_from_pdf (ext_pdf_open env) (file_path f)
          (logged st @ [Info_processing (file_name f)]) = (Inr extracted, lg)"
    and ch: "(\<lambda>name. create_chunks csize (ext_split_sentences env)
                              (ext_chunk_clock env name))
               (file_name f) extracted = Inr chunks"
    by simp_all
  from process_pdf_stages(3)
      [where extractor = "extract_text_from_pdf (ext_pdf_open env)"
        and make_chunks = "\<lambda>name. create_chunks csize (ext_split_sentences env)
                              (ext_chunk_clock env name)"
        and embedder = "create_embeddings (ext_encode env)" and env = env, OF ex] ch a
  show "SimpleInsuranceRAGSystem_process_pdfs env csize st [f]
             = st\<lparr>collection := coll,
                   logged := lg @ [Error_processing (file_name f) e]\<rparr>"
    unfolding simple_round by blast
qed

lemma simple_file_size:
  "extract_text_from_pdf (ext_pdf_open env) (file_path f)
             (logged st @ [Info_processing (file_name f)]) = (Inr extracted, lg)
    \<and> create_chunks csize (ext_split_sentences env) (ext_chunk_clock env (file_name f))
             extracted = Inr chunks
    \<and> create_embeddings (ext_encode env) chunks = Inr enhanced
    \<and> store_chunks (ext_collection_add env) (file_name f) 0 enhanced
             (collection st) = (coll, None)
    \<and> ext_stat_size env (file_path f) = Inl e
    \<longrightarrow> SimpleInsuranceRAGSystem_process_pdfs env csize st [f]
          = st\<lparr>collection := coll,
                logged := lg @ [Error_processing (file_name f) e]\<rparr>"
proof
  assume a: "extract_text_from_pdf (ext_pdf_open env) (file_path f)
                (logged st @ [Info_processing (file_name f)]) = (Inr extracted, lg)
       \<and> create_chunks csize (ext_split_sentences env) (ext_chunk_clock env (file_name f))
                extracted = Inr chunks
       \<and> create_embeddings (ext_encode env) chunks = Inr enhanced
       \<and> store_chunks (ext_collection_add env) (file_name f) 0 enhanced
                (collection st) = (coll, None)
       \<and> ext_stat_size env (file_path f) = Inl e"
  then have ex: "extract_text_from_pdf (ext_pdf_open env) (file_path f)
          (logged st @ [Info_processing (file_name f)]) = (Inr extracted, lg)"
    and ch: "(\<lambda>name. create_chunks csize (ext_split_sentences env)
                              (ext_chunk_clock env name))
               (file_name f) extracted = Inr chunks"
    by simp_all
  from process_pdf_stages(4)
      [where extractor = "extract_text_from_pdf (ext_pdf_open env)"
        and make_chunks = "\<lambda>name. create_chunks csize (ext_split_sentences env)
                              (ext_chunk_clock env name)"
        and embedder = "create_embeddings (ext_encode env)" and env = env, OF ex] ch a
  show "SimpleInsuranceRAGSystem_process_pdfs env csize st [f]
             = st\<lparr>collection := coll,
                   logged := lg @ [Error_processing (file_name f) e]\<rparr>"
    unfolding simple_round by blast
qed

lemma simple_registered:
  "extract_text_from_pdf (ext_pdf_open env) (file_path f)
             (logged st @ [Info_processing (file_name f)]) = (Inr extracted, lg)
    \<and> create_chunks csize (ext_split_sentences env) (ext_chunk_clock env (file_name f))
             extracted = Inr chunks
    \<and> create_embeddings (ext_encode env) chunks = Inr enhanced
    \<and> store_chunks (ext_collection_add env) (file_name f) 0 enhanced
             (collection st) = (coll, None)
    \<and> ext_stat_size env (file_path f) = Inr file_size
    \<longrightarrow> SimpleInsuranceRAGSystem_process_pdfs env csize st [f]
          = \<lparr>collection = coll,
             processed_docs = (processed_docs st)(file_name f \<mapsto>
               \<lparr>doc_chunks = enhanced,
                doc_metadata =
                  \<lparr>doc_file_path = file_path f, doc_file_size = file_size,
                   doc_total_pages = total_pages extracted,
                   doc_total_chunks = length enhanced,
                   doc_processed_at = ext_processed_clock env (file_name f)\<rparr>\<rparr>),
             logged = lg @ [Info_success (file_name f) (length enhanced)]\<rparr>"
proof
  assume a: "extract_text_from_pdf (ext_pdf_open env) (file_path f)
                (logged st @ [Info_processing (file_name f)]) = (Inr extracted, lg)
       \<and> create_chunks csize (ext_split_sentences env) (ext_chunk_clock env (file_name f))
                extracted = Inr chunks
       \<and> create_embeddings (ext_encode env) chunks = Inr enhanced
       \<and> store_chunks (ext_collection_add env) (file_name f) 0 enhanced
                (collection st) = (coll, None)
       \<and> ext_stat_size env (file_path f) = Inr file_size"
  then have ex: "extract_text_from_pdf (ext_pdf_open env) (file_path f)
          (logged st @ [Info_processing (file_name f)]) = (Inr extracted, lg)"
    and ch: "(\<lambda>name. create_chunks csize (ext_split_sentences env)
                              (ext_chunk_clock env name))
               (file_name f) extracted = Inr chunks"
    by simp_all
  from process_pdf_stages(5)
      [where extractor = "extract_text_from_pdf (ext_pdf_open env)"
        and make_chunks = "\<lambda>name. create_chunks csize (ext_split_sentences env)
                              (ext_chunk_clock env name)"
        and embedder = "create_embeddings (ext_encode env)" and env = env, OF ex] ch a
  show "SimpleInsuranceRAGSystem_process_pdfs env csize st [f]
             = \<lparr>collection = coll,
                processed_docs = (processed_docs st)(file_name f \<mapsto>
                  \<lparr>doc_chunks = enhanced,
                   doc_metadata =
                     \<lparr>doc_file_path = file_path f, doc_file_size = file_size,
                      doc_total_pages = total_pages extracted,
                      doc_total_chunks = length enhanced,
                      doc_processed_at = ext_processed_clock env (file_name f)\<rparr>\<rparr>),
                logged = lg @ [Info_success (file_name f) (length enhanced)]\<rparr>"
    unfolding simple_round by blast
qed

lemma simple_caught:
  "ext_pdf_open env (file_path f) = Inl e \<and> ext_stat_size env (file_path f) = Inr file_size
    \<longrightarrow> logged (SimpleInsuranceRAGSystem_process_pdfs env csize st [f])
          = logged st @ [Info_processing (file_name f), Error_extracting (file_path f) e,
                         Info_success (file_name f) 0]
        \<and> processed_docs (SimpleInsuranceRAGSystem_process_pdfs env csize st [f])
            (file_name f)
          = Some \<lparr>doc_chunks = [],
                  doc_metadata =
                    \<lparr>doc_file_path = file_path f, doc_file_size = file_size,
                     doc_total_pages = 0, doc_total_chunks = 0,
                     doc_processed_at = ext_processed_clock env (file_name f)\<rparr>\<rparr>"
proof
  assume a: "ext_pdf_open env (file_path f) = Inl e \<and> ext_stat_size env (file_path f) = Inr
      file_size"
  then have ex: "extract_text_from_pdf (ext_pdf_open env) (file_path f)
       (logged st @ [Info_processing (file_name f)])
     = (Inr \<lparr>text_content = [], tables = [], total_pages = 0\<rparr>,
        (logged st @ [Info_processing (file_name f)]) @ [Error_extracting (file_path f) e])"
    by (simp add: extract_text_from_pdf_open_fails)
  have ch: "(\<lambda>name. create_chunks csize (ext_split_sentences env)
                              (ext_chunk_clock env name))
               (file_name f) \<lparr>text_content = [], tables = [], total_pages = 0\<rparr> = Inr []"
    by (simp add: create_chunks_nothing)
  have em: "create_embeddings (ext_encode env) [] = Inr []"
    by (simp add: create_embeddings_def)
  from a have sz: "ext_stat_size env (file_path f) = Inr file_size" by simp
  from process_pdf_nothing_extracted
      [where extractor = "extract_text_from_pdf (ext_pdf_open env)"
        and make_chunks = "\<lambda>name. create_chunks csize (ext_split_sentences env)
                              (ext_chunk_clock env name)"
        and embedder = "create_embeddings (ext_encode env)" and env = env, OF ex ch em sz]
  show "logged (SimpleInsuranceRAGSystem_process_pdfs env csize st [f])
             = logged st @ [Info_processing (file_name f), Error_extracting (file_path f) e,
                            Info_success (file_name f) 0]
           \<and> processed_docs (SimpleInsuranceRAGSystem_process_pdfs env csize st [f])
               (file_name f)
             = Some \<lparr>doc_chunks = [],
                     doc_metadata =
                       \<lparr>doc_file_path = file_path f, doc_file_size = file_size,
                        doc_total_pages = 0, doc_total_chunks = 0,
                        doc_processed_at = ext_processed_clock env (file_name f)\<rparr>\<rparr>"
    unfolding simple_round by simp
qed

lemma simple_page_text_fails:
  "ext_pdf_open env (file_path f) = Inr pdf
    \<and> pdf_pages pdf = Inr (earlier @ p # later) \<and> pdf_page_count pdf = Inr n
    \<and> extract_pages earlier 0 [] [] = (collected, found, None)
    \<and> page_text p = Inl e
    \<longrightarrow> extract_text_from_pdf (ext_pdf_open env) (file_path f)
          (logged st @ [Info_processing (file_name f)])
        = (Inr \<lparr>text_content = collected, tables = found, total_pages = n\<rparr>,
           (logged st @ [Info_processing (file_name f)])
             @ [Error_extracting (file_path f) e])"
proof
  assume a: "ext_pdf_open env (file_path f) = Inr pdf
       \<and> pdf_pages pdf = Inr (earlier @ p # later) \<and> pdf_page_count pdf = Inr n
       \<and> extract_pages earlier 0 [] [] = (collected, found, None)
       \<and> page_text p = Inl e"
  then have o: "ext_pdf_open env (file_path f) = Inr pdf"
    and pg: "pdf_pages pdf = Inr (earlier @ p # later)"
    and ct: "pdf_page_count pdf = Inr n"
    and bf: "extract_pages earlier 0 [] [] = (collected, found, None)"
    by simp_all
  from extract_text_from_pdf_page_fails(1)
      [where pdf_open = "ext_pdf_open env" and path = "file_path f"
         and lg = "logged st @ [Info_processing (file_name f)]", OF o pg ct bf] a
  show "extract_text_from_pdf (ext_pdf_open env) (file_path f)
             (logged st @ [Info_processing (file_name f)])
           = (Inr \<lparr>text_content = collected, tables = found, total_pages = n\<rparr>,
              (logged st @ [Info_processing (file_name f)])
                @ [Error_extracting (file_path f) e])"
    by blast
qed

lemma simple_page_tables_fail:
  "ext_pdf_open env (file_path f) = Inr pdf
    \<and> pdf_pages pdf = Inr (earlier @ p # later) \<and> pdf_page_count pdf = Inr n
    \<and> extract_pages earlier 0 [] [] = (collected, found, None)
    \<and> page_text p = Inr page_txt \<and> page_tables p = Inl e
    \<longrightarrow> extract_text_from_pdf (ext_pdf_open env) (file_path f)
          (logged st @ [Info_processing (file_name f)])
        = (Inr \<lparr>text_content = add_page_text (length earlier) page_txt collected, tables =
            found, total_pages = n\<rparr>,
           (logged st @ [Info_processing (file_name f)])
             @ [Error_extracting (file_path f) e])"
proof
  assume a: "ext_pdf_open env (file_path f) = Inr pdf
       \<and> pdf_pages pdf = Inr (earlier @ p # later) \<and> pdf_page_count pdf = Inr n
       \<and> extract_pages earlier 0 [] [] = (collected, found, None)
       \<and> page_text p = Inr page_txt \<and> page_tables p = Inl e"
  then have o: "ext_pdf_open env (file_path f) = Inr pdf"
    and pg: "pdf_pages pdf = Inr (earlier @ p # later)"
    and ct: "pdf_page_count pdf = Inr n"
    and bf: "extract_pages earlier 0 [] [] = (collected, found, None)"
    by simp_all
  from extract_text_from_pdf_page_fails(2)
      [where pdf_open = "ext_pdf_open env" and path = "file_path f"
         and lg = "logged st @ [Info_processing (file_name f)]", OF o pg ct bf] a
  show "extract_text_from_pdf (ext_pdf_open env) (file_path f)
             (logged st @ [Info_processing (file_name f)])
           = (Inr \<lparr>text_content = add_page_text (length earlier) page_txt collected, tables =
               found, total_pages = n\<rparr>,
              (logged st @ [Info_processing (file_name f)])
                @ [Error_extracting (file_path f) e])"
    by blast
qed

lemma simple_row_join_fails:
  "ext_pdf_open env (file_path f) = Inr pdf
    \<and> pdf_pages pdf = Inr (earlier @ p # later) \<and> pdf_page_count pdf = Inr n
    \<and> extract_pages earlier 0 [] [] = (collected, found, None)
    \<and> page_text p = Inr page_txt
    \<and> page_tables p = Inr (tabs_earlier @ t # tabs_later)
    \<and> add_tables (length earlier) 0 tabs_earlier found = (found_more, None)
    \<and> length t > 1 \<and> row \<in> set t \<and> py_any truthy_cell row \<and> None \<in> set row
    \<longrightarrow> extract_text_from_pdf (ext_pdf_open env) (file_path f)
          (logged st @ [Info_processing (file_name f)])
        = (Inr \<lparr>text_content = add_page_text (length earlier) page_txt collected, tables =
            found_more, total_pages = n\<rparr>,
           (logged st @ [Info_processing (file_name f)])
             @ [Error_extracting (file_path f) TypeError])"
proof
  assume a: "ext_pdf_open env (file_path f) = Inr pdf
       \<and> pdf_pages pdf = Inr (earlier @ p # later) \<and> pdf_page_count pdf = Inr n
       \<and> extract_pages earlier 0 [] [] = (collected, found, None)
       \<and> page_text p = Inr page_txt
       \<and> page_tables p = Inr (tabs_earlier @ t # tabs_later)
       \<and> add_tables (length earlier) 0 tabs_earlier found = (found_more, None)
       \<and> length t > 1 \<and> row \<in> set t \<and> py_any truthy_cell row \<and> None \<in> set row"
  then have o: "ext_pdf_open env (file_path f) = Inr pdf"
    and pg: "pdf_pages pdf = Inr (earlier @ p # later)"
    and ct: "pdf_page_count pdf = Inr n"
    and bf: "extract_pages earlier 0 [] [] = (collected, found, None)"
    by simp_all
  from extract_text_from_pdf_page_fails(3)
      [where pdf_open = "ext_pdf_open env" and path = "file_path f"
         and lg = "logged st @ [Info_processing (file_name f)]", OF o pg ct bf] a
  show "extract_text_from_pdf (ext_pdf_open env) (file_path f)
             (logged st @ [Info_processing (file_name f)])
           = (Inr \<lparr>text_content = add_page_text (length earlier) page_txt collected, tables =
               found_more, total_pages = n\<rparr>,
              (logged st @ [Info_processing (file_name f)])
                @ [Error_extracting (file_path f) TypeError])"
    by blast
qed

subsection \<open>\<open>InsuranceRAGSystem.process_pdfs\<close>\<close>

lemma policy_round:
  "InsuranceRAGSystem_process_pdfs penv csize pst [f]
     = process_pdf
         (extract_text_with_structure (ext_tabula_read penv) (ext_camelot_read penv)
            (ext_pdf_open penv))
         (\<lambda>name. create_semantic_chunks csize (ext_split_sentences penv)
                   (ext_chunk_clock penv name))
         (create_enhanced_embeddings (ext_encode penv)) penv pst f"
  by (simp add: InsuranceRAGSystem_process_pdfs_def)

lemma policy_continues:
  "InsuranceRAGSystem_process_pdfs penv csize pst (batch @ remaining)
     = InsuranceRAGSystem_process_pdfs penv csize
         (InsuranceRAGSystem_process_pdfs penv csize pst batch) remaining"
  by (simp add: InsuranceRAGSystem_process_pdfs_def process_files_append)

lemma policy_started:
  "started (logged (InsuranceRAGSystem_process_pdfs penv csize pst files))
     = started (logged pst) @ map file_name files"
  by (simp add: InsuranceRAGSystem_process_pdfs_def
              process_files_log [OF quiet_extract_text_with_structure])

lemma policy_outcomes:
  "outcomes (logged (InsuranceRAGSystem_process_pdfs penv csize pst files))
     = outcomes (logged pst) @ map file_name files"
  by (simp add: InsuranceRAGSystem_process_pdfs_def
              process_files_log [OF quiet_extract_text_with_structure])

lemma policy_others:
  "\<forall>name. name \<notin> file_name ` set files \<longrightarrow>
      processed_docs (InsuranceRAGSystem_process_pdfs penv csize pst files) name
        = processed_docs pst name"
  by (simp add: InsuranceRAGSystem_process_pdfs_def process_files_others)

lemma policy_outcome:
  "(\<exists>e. last (logged (InsuranceRAGSystem_process_pdfs penv csize pst [f]))
            = Error_processing (file_name f) e
        \<and> processed_docs (InsuranceRAGSystem_process_pdfs penv csize pst [f])
            = processed_docs pst)
    \<or> (\<exists>d. processed_docs (InsuranceRAGSystem_process_pdfs penv csize pst [f])
              (file_name f) = Some d
        \<and> last (logged (InsuranceRAGSystem_process_pdfs penv csize pst [f]))
            = Info_success (file_name f) (doc_total_chunks (doc_metadata d)))"
  unfolding policy_round by (rule process_pdf_last)

lemma policy_raises:
  "isl (fst (extract_text_with_structure (ext_tabula_read penv) (ext_camelot_read penv)
             (ext_pdf_open penv) (file_path f)
               (logged pst @ [Info_processing (file_name f)])))
     = (\<exists>pdf. ext_pdf_open penv (file_path f) = Inr pdf \<and> isl (pdf_page_count pdf))"
  by (rule extract_text_with_structure_raises)

lemma policy_propagated:
  "ext_pdf_open penv (file_path f) = Inr pdf \<and> pdf_page_count pdf = Inl e \<longrightarrow>
      last (logged (InsuranceRAGSystem_process_pdfs penv csize pst [f]))
        = Error_processing (file_name f) e
      \<and> processed_docs (InsuranceRAGSystem_process_pdfs penv csize pst [f])
        = processed_docs pst
      \<and> collection (InsuranceRAGSystem_process_pdfs penv csize pst [f])
        = collection pst"
proof
  assume a: "ext_pdf_open penv (file_path f) = Inr pdf \<and> pdf_page_count pdf = Inl e"
  then obtain lg_after where
    "extract_text_with_structure (ext_tabula_read penv) (ext_camelot_read penv)
          (ext_pdf_open penv) (file_path f)
       (logged pst @ [Info_processing (file_name f)]) = (Inl e, lg_after)"
    using extract_text_with_structure_count_fails [where pdf_open = "ext_pdf_open penv" and pdf
        = pdf and e = e]
    by blast
  from process_pdf_extract_raises
      [where extractor = "extract_text_with_structure (ext_tabula_read penv)
                             (ext_camelot_read penv) (ext_pdf_open penv)"
        and make_chunks = "\<lambda>name. create_semantic_chunks csize (ext_split_sentences penv)
                              (ext_chunk_clock penv name)"
        and embedder = "create_enhanced_embeddings (ext_encode penv)" and env = penv, OF this]
  show "last (logged (InsuranceRAGSystem_process_pdfs penv csize pst [f]))
        = Error_processing (file_name f) e
      \<and> processed_docs (InsuranceRAGSystem_process_pdfs penv csize pst [f])
        = processed_docs pst
      \<and> collection (InsuranceRAGSystem_process_pdfs penv csize pst [f])
        = collection pst"
    unfolding policy_round by simp
qed

lemma policy_chunking:
  "extract_text_with_structure (ext_tabula_read penv) (ext_camelot_read penv)
             (ext_pdf_open penv) (file_path f)
             (logged pst @ [Info_processing (file_name f)]) = (Inr pextracted, plg)
    \<and> create_semantic_chunks csize (ext_split_sentences penv)
             (ext_chunk_clock penv (file_name f))
     pextracted = Inl e
    \<longrightarrow> (\<exists>sentence_text. ext_split_sentences penv sentence_text = Inl e)
       \<and> InsuranceRAGSystem_process_pdfs penv csize pst [f]
           = pst\<lparr>logged := plg @ [Error_processing (file_name f) e]\<rparr>"
proof
  assume a: "extract_text_with_structure (ext_tabula_read penv) (ext_camelot_read penv)
                (ext_pdf_open penv) (file_path f)
                (logged pst @ [Info_processing (file_name f)]) = (Inr pextracted, plg)
       \<and> create_semantic_chunks csize (ext_split_sentences penv)
                (ext_chunk_clock penv (file_name f))
        pextracted = Inl e"
  then have ex: "extract_text_with_structure (ext_tabula_read penv) (ext_camelot_read penv)
          (ext_pdf_open penv) (file_path f)
          (logged pst @ [Info_processing (file_name f)]) = (Inr pextracted, plg)"
    and ch: "(\<lambda>name. create_semantic_chunks csize (ext_split_sentences penv)
                              (ext_chunk_clock penv name))
               (file_name f) pextracted = Inl e"
    by simp_all
  from a have "\<exists>sentence_text. ext_split_sentences penv sentence_text = Inl e"
    using create_semantic_chunks_fails by blast
  with process_pdf_stages(1)
      [where extractor = "extract_text_with_structure (ext_tabula_read penv)
                             (ext_camelot_read penv) (ext_pdf_open penv)"
        and make_chunks = "\<lambda>name. create_semantic_chunks csize (ext_split_sentences penv)
                              (ext_chunk_clock penv name)"
        and embedder = "create_enhanced_embeddings (ext_encode penv)" and env = penv, OF ex] ch
  show "(\<exists>sentence_text. ext_split_sentences penv sentence_text = Inl e)
          \<and> InsuranceRAGSystem_process_pdfs penv csize pst [f]
              = pst\<lparr>logged := plg @ [Error_processing (file_name f) e]\<rparr>"
    unfolding policy_round by simp
qed

lemma policy_embedding:
  "extract_text_with_structure (ext_tabula_read penv) (ext_camelot_read penv)
             (ext_pdf_open penv) (file_path f)
             (logged pst @ [Info_processing (file_name f)]) = (Inr pextracted, plg)
    \<and> create_semantic_chunks csize (ext_split_sentences penv)
             (ext_chunk_clock penv (file_name f))
             pextracted = Inr pchunks
    \<and> (\<exists>c \<in> set pchunks. isl (ext_encode penv (chunk_content c)))
    \<longrightarrow> (\<exists>e. (\<exists>c \<in> set pchunks. ext_encode penv (chunk_content c) = Inl e)
           \<and> InsuranceRAGSystem_process_pdfs penv csize pst [f]
               = pst\<lparr>logged := plg @ [Error_processing (file_name f) e]\<rparr>)"
proof
  assume a: "extract_text_with_structure (ext_tabula_read penv) (ext_camelot_read penv)
                (ext_pdf_open penv) (file_path f)
                (logged pst @ [Info_processing (file_name f)]) = (Inr pextracted, plg)
       \<and> create_semantic_chunks csize (ext_split_sentences penv)
                (ext_chunk_clock penv (file_name f))
                pextracted = Inr pchunks
       \<and> (\<exists>c \<in> set pchunks. isl (ext_encode penv (chunk_content c)))"
  then have ex: "extract_text_with_structure (ext_tabula_read penv) (ext_camelot_read penv)
          (ext_pdf_open penv) (file_path f)
          (logged pst @ [Info_processing (file_name f)]) = (Inr pextracted, plg)"
    and ch: "(\<lambda>name. create_semantic_chunks csize (ext_split_sentences penv)
                              (ext_chunk_clock penv name))
               (file_name f) pextracted = Inr pchunks"
    and en: "\<exists>c \<in> set pchunks. isl (ext_encode penv (chunk_content c))"
    by simp_all
  from embed_chunks_fails [OF en full_features_return] obtain e where
    e: "create_enhanced_embeddings (ext_encode penv) pchunks = Inl e"
    and c: "\<exists>c \<in> set pchunks. ext_encode penv (chunk_content c) = Inl e"
    unfolding create_enhanced_embeddings_def by blast
  from process_pdf_stages(2)
      [where extractor = "extract_text_with_structure (ext_tabula_read penv)
                             (ext_camelot_read penv) (ext_pdf_open penv)"
        and make_chunks = "\<lambda>name. create_semantic_chunks csize (ext_split_sentences penv)
                              (ext_chunk_clock penv name)"
        and embedder = "create_enhanced_embeddings (ext_encode penv)" and env = penv, OF ex] ch
            e c
  show "(\<exists>e. (\<exists>c \<in> set pchunks. ext_encode penv (chunk_content c) = Inl e)
              \<and> InsuranceRAGSystem_process_pdfs penv csize pst [f]
                  = pst\<lparr>logged := plg @ [Error_processing (file_name f) e]\<rparr>)"
    unfolding policy_round by blast
qed

lemma policy_storing:
  "extract_text_with_structure (ext_tabula_read penv) (ext_camelot_read penv)
             (ext_pdf_open penv) (file_path f)
             (logged pst @ [Info_processing (file_name f)]) = (Inr pextracted, plg)
    \<and> create_semantic_chunks csize (ext_split_sentences penv)
             (ext_chunk_clock penv (file_name f))
             pextracted = Inr pchunks
    \<and> create_enhanced_embeddings (ext_encode penv) pchunks = Inr penhanced
    \<and> store_chunks (ext_collection_add penv) (file_name f) 0 penhanced
             (collection pst) = (pcoll, Some e)
    \<longrightarrow> InsuranceRAGSystem_process_pdfs penv csize pst [f]
          = pst\<lparr>collection := pcoll,
                logged := plg @ [Error_processing (file_name f) e]\<rparr>"
proof
  assume a: "extract_text_with_structure (ext_tabula_read penv) (ext_camelot_read penv)
                (ext_pdf_open penv) (file_path f)
                (logged pst @ [Info_processing (file_name f)]) = (Inr pextracted, plg)
       \<and> create_semantic_chunks csize (ext_split_sentences penv)
                (ext_chunk_clock penv (file_name f))
                pextracted = Inr pchunks
       \<and> create_enhanced_embeddings (ext_encode penv) pchunks = Inr penhanced
       \<and> store_chunks (ext_collection_add penv) (file_name f) 0 penhanced
                (collection pst) = (pcoll, Some e)"
  then have ex: "extract_text_with_structure (ext_tabula_read penv) (ext_camelot_read penv)
          (ext_pdf_open penv) (file_path f)
          (logged pst @ [Info_processing (file_name f)]) = (Inr pextracted, plg)"
    and ch: "(\<lambda>name. create_semantic_chunks csize (ext_split_sentences penv)
                              (ext_chunk_clock penv name))
               (file_name f) pextracted = Inr pchunks"
    by simp_all
  from process_pdf_stages(3)
      [where extractor = "extract_text_with_structure (ext_tabula_read penv)
                             (ext_camelot_read penv) (ext_pdf_open penv)"
        and make_chunks = "\<lambda>name. create_semantic_chunks csize (ext_split_sentences penv)
                              (ext_chunk_clock penv name)"
        and embedder = "create_enhanced_embeddings (ext_encode penv)" and env = penv, OF ex] ch
            a
  show "InsuranceRAGSystem_process_pdfs penv csize pst [f]
             = pst\<lparr>collection := pcoll,
                   logged := plg @ [Error_processing (file_name f) e]\<rparr>"
    unfolding policy_round by blast
qed

lemma policy_file_size:
  "extract_text_with_structure (ext_tabula_read penv) (ext_camelot_read penv)
             (ext_pdf_open penv) (file_path f)
             (logged pst @ [Info_processing (file_name f)]) = (Inr pextracted, plg)
    \<and> create_semantic_chunks csize (ext_split_sentences penv)
             (ext_chunk_clock penv (file_name f))
             pextracted = Inr pchunks
    \<and> create_enhanced_embeddings (ext_encode penv) pchunks = Inr penhanced
    \<and> store_chunks (ext_collection_add penv) (file_name f) 0 penhanced
             (collection pst) = (pcoll, None)
    \<and> ext_stat_size penv (file_path f) = Inl e
    \<longrightarrow> InsuranceRAGSystem_process_pdfs penv csize pst [f]
          = pst\<lparr>collection := pcoll,
                logged := plg @ [Error_processing (file_name f) e]\<rparr>"
proof
  assume a: "extract_text_with_structure (ext_tabula_read penv) (ext_camelot_read penv)
                (ext_pdf_open penv) (file_path f)
                (logged pst @ [Info_processing (file_name f)]) = (Inr pextracted, plg)
       \<and> create_semantic_chunks csize (ext_split_sentences penv)
                (ext_chunk_clock penv (file_name f))
                pextracted = Inr pchunks
       \<and> create_enhanced_embeddings (ext_encode penv) pchunks = Inr penhanced
       \<and> store_chunks (ext_collection_add penv) (file_name f) 0 penhanced
                (collection pst) = (pcoll, None)
       \<and> ext_stat_size penv (file_path f) = Inl e"
  then have ex: "extract_text_with_structure (ext_tabula_read penv) (ext_camelot_read penv)
          (ext_pdf_open penv) (file_path f)
          (logged pst @ [Info_processing (file_name f)]) = (Inr pextracted, plg)"
    and ch: "(\<lambda>name. create_semantic_chunks csize (ext_split_sentences penv)
                              (ext_chunk_clock penv name))
               (file_name f) pextracted = Inr pchunks"
    by simp_all
  from process_pdf_stages(4)
      [where extractor = "extract_text_with_structure (ext_tabula_read penv)
                             (ext_camelot_read penv) (ext_pdf_open penv)"
        and make_chunks = "\<lambda>name. create_semantic_chunks csize (ext_split_sentences penv)
                              (ext_chunk_clock penv name)"
        and embedder = "create_enhanced_embeddings (ext_encode penv)" and env = penv, OF ex] ch
            a
  show "InsuranceRAGSystem_process_pdfs penv csize pst [f]
             = pst\<lparr>collection := pcoll,
                   logged := plg @ [Error_processing (file_name f) e]\<rparr>"
    unfolding policy_round by blast
qed

lemma policy_registered:
  "extract_text_with_structure (ext_tabula_read penv) (ext_camelot_read penv)
             (ext_pdf_open penv) (file_path f)
             (logged pst @ [Info_processing (file_name f)]) = (Inr pextracted, plg)
    \<and> create_semantic_chunks csize (ext_split_sentences penv)
             (ext_chunk_clock penv (file_name f))
             pextracted = Inr pchunks
    \<and> create_enhanced_embeddings (ext_encode penv) pchunks = Inr penhanced
    \<and> store_chunks (ext_collection_add penv) (file_name f) 0 penhanced
             (collection pst) = (pcoll, None)
    \<and> ext_stat_size penv (file_path f) = Inr file_size
    \<longrightarrow> InsuranceRAGSystem_process_pdfs penv csize pst [f]
          = \<lparr>collection = pcoll,
             processed_docs = (processed_docs pst)(file_name f \<mapsto>
               \<lparr>doc_chunks = penhanced,
                doc_metadata =
                  \<lparr>doc_file_path = file_path f, doc_file_size = file_size,
                   doc_total_pages = total_pages pextracted,
                   doc_total_chunks = length penhanced,
                   doc_processed_at = ext_processed_clock penv (file_name f)\<rparr>\<rparr>),
             logged = plg @ [Info_success (file_name f) (length penhanced)]\<rparr>"
proof
  assume a: "extract_text_with_structure (ext_tabula_read penv) (ext_camelot_read penv)
                (ext_pdf_open penv) (file_path f)
                (logged pst @ [Info_processing (file_name f)]) = (Inr pextracted, plg)
       \<and> create_semantic_chunks csize (ext_split_sentences penv)
                (ext_chunk_clock penv (file_name f))
                pextracted = Inr pchunks
       \<and> create_enhanced_embeddings (ext_encode penv) pchunks = Inr penhanced
       \<and> store_chunks (ext_collection_add penv) (file_name f) 0 penhanced
                (collection pst) = (pcoll, None)
       \<and> ext_stat_size penv (file_path f) = Inr file_size"
  then have ex: "extract_text_with_structure (ext_tabula_read penv) (ext_camelot_read penv)
          (ext_pdf_open penv) (file_path f)
          (logged pst @ [Info_processing (file_name f)]) = (Inr pextracted, plg)"
    and ch: "(\<lambda>name. create_semantic_chunks csize (ext_split_sentences penv)
                              (ext_chunk_clock penv name))
               (file_name f) pextracted = Inr pchunks"
    by simp_all
  from process_pdf_stages(5)
      [where extractor = "extract_text_with_structure (ext_tabula_read penv)
                             (ext_camelot_read penv) (ext_pdf_open penv)"
        and make_chunks = "\<lambda>name. create_semantic_chunks csize (ext_split_sentences penv)
                              (ext_chunk_clock penv name)"
        and embedder = "create_enhanced_embeddings (ext_encode penv)" and env = penv, OF ex] ch
            a
  show "InsuranceRAGSystem_process_pdfs penv csize pst [f]
             = \<lparr>collection = pcoll,
                processed_docs = (processed_docs pst)(file_name f \<mapsto>
                  \<lparr>doc_chunks = penhanced,
                   doc_metadata =
                     \<lparr>doc_file_path = file_path f, doc_file_size = file_size,
                      doc_total_pages = total_pages pextracted,
                      doc_total_chunks = length penhanced,
                      doc_processed_at = ext_processed_clock penv (file_name f)\<rparr>\<rparr>),
                logged = plg @ [Info_success (file_name f) (length penhanced)]\<rparr>"
    unfolding policy_round by blast
qed

lemma policy_caught:
  "ext_pdf_open penv (file_path f) = Inl e
    \<and> ext_tabula_read penv (file_path f) = Inl tabula_error
    \<and> ext_camelot_read penv (file_path f) = Inl camelot_error
    \<and> ext_stat_size penv (file_path f) = Inr file_size
    \<longrightarrow> logged (InsuranceRAGSystem_process_pdfs penv csize pst [f])
          = logged pst @ [Info_processing (file_name f), Warning_tabula tabula_error,
                          Warning_camelot camelot_error, Warning_pdfplumber e,
                          Error_extracting (file_path f) e, Info_success (file_name f) 0]
        \<and> processed_docs (InsuranceRAGSystem_process_pdfs penv csize pst [f])
            (file_name f)
          = Some \<lparr>doc_chunks = [],
                  doc_metadata =
                    \<lparr>doc_file_path = file_path f, doc_file_size = file_size,
                     doc_total_pages = 0, doc_total_chunks = 0,
                     doc_processed_at = ext_processed_clock penv (file_name f)\<rparr>\<rparr>"
proof
  assume a: "ext_pdf_open penv (file_path f) = Inl e
       \<and> ext_tabula_read penv (file_path f) = Inl tabula_error
       \<and> ext_camelot_read penv (file_path f) = Inl camelot_error
       \<and> ext_stat_size penv (file_path f) = Inr file_size"
  then have ex: "extract_text_with_structure (ext_tabula_read penv) (ext_camelot_read penv)
       (ext_pdf_open penv) (file_path f)
       (logged pst @ [Info_processing (file_name f)])
     = (Inr \<lparr>text_content = [], tables = [], total_pages = 0\<rparr>,
        (logged pst @ [Info_processing (file_name f)])
          @ [Warning_tabula tabula_error, Warning_camelot camelot_error,
             Warning_pdfplumber e, Error_extracting (file_path f) e])"
    by (simp add: extract_text_with_structure_nothing_opens)
  have ch: "(\<lambda>name. create_semantic_chunks csize (ext_split_sentences penv)
                              (ext_chunk_clock penv name))
               (file_name f) \<lparr>text_content = [], tables = [], total_pages = 0\<rparr> = Inr []"
    by (simp add: create_semantic_chunks_nothing)
  have em: "create_enhanced_embeddings (ext_encode penv) [] = Inr []"
    by (simp add: create_enhanced_embeddings_def)
  from a have sz: "ext_stat_size penv (file_path f) = Inr file_size" by simp
  from process_pdf_nothing_extracted
      [where extractor = "extract_text_with_structure (ext_tabula_read penv)
                             (ext_camelot_read penv) (ext_pdf_open penv)"
        and make_chunks = "\<lambda>name. create_semantic_chunks csize (ext_split_sentences penv)
                              (ext_chunk_clock penv name)"
        and embedder = "create_enhanced_embeddings (ext_encode penv)" and env = penv, OF ex ch
            em sz]
  show "logged (InsuranceRAGSystem_process_pdfs penv csize pst [f])
             = logged pst @ [Info_processing (file_name f), Warning_tabula tabula_error,
                             Warning_camelot camelot_error, Warning_pdfplumber e,
                             Error_extracting (file_path f) e, Info_success (file_name f) 0]
           \<and> processed_docs (InsuranceRAGSystem_process_pdfs penv csize pst [f])
               (file_name f)
             = Some \<lparr>doc_chunks = [],
                     doc_metadata =
                       \<lparr>doc_file_path = file_path f, doc_file_size = file_size,
                        doc_total_pages = 0, doc_total_chunks = 0,
                        doc_processed_at = ext_processed_clock penv (file_name f)\<rparr>\<rparr>"
    unfolding policy_round by simp
qed

lemma policy_tables_open_fails:
  "found_readers
        = (case ext_tabula_read penv (file_path f) of
             Inl e \<Rightarrow> [] | Inr ts \<Rightarrow> tabula_tables 0 ts)
          @ (case ext_camelot_read penv (file_path f) of
               Inl e \<Rightarrow> [] | Inr ts \<Rightarrow> camelot_tables 0 ts)
    \<and> lg_readers
        = (logged pst @ [Info_processing (file_name f)])
          @ (case ext_tabula_read penv (file_path f) of
               Inl e \<Rightarrow> [Warning_tabula e] | Inr ts \<Rightarrow> [])
          @ (case ext_camelot_read penv (file_path f) of
               Inl e \<Rightarrow> [Warning_camelot e] | Inr ts \<Rightarrow> [])
    \<and> ext_pdf_open penv (file_path f) = Inl e
    \<longrightarrow> extract_tables_from_pdf (ext_tabula_read penv) (ext_camelot_read penv)
          (ext_pdf_open penv) (file_path f)
          (logged pst @ [Info_processing (file_name f)])
        = (found_readers, lg_readers @ [Warning_pdfplumber e])"
proof
  assume a: "found_readers
           = (case ext_tabula_read penv (file_path f) of
                Inl e \<Rightarrow> [] | Inr ts \<Rightarrow> tabula_tables 0 ts)
             @ (case ext_camelot_read penv (file_path f) of
                  Inl e \<Rightarrow> [] | Inr ts \<Rightarrow> camelot_tables 0 ts)
       \<and> lg_readers
           = (logged pst @ [Info_processing (file_name f)])
             @ (case ext_tabula_read penv (file_path f) of
                  Inl e \<Rightarrow> [Warning_tabula e] | Inr ts \<Rightarrow> [])
             @ (case ext_camelot_read penv (file_path f) of
                  Inl e \<Rightarrow> [Warning_camelot e] | Inr ts \<Rightarrow> [])
       \<and> ext_pdf_open penv (file_path f) = Inl e"
  then have rd: "found_readers
        = (case ext_tabula_read penv (file_path f) of
             Inl e \<Rightarrow> [] | Inr ts \<Rightarrow> tabula_tables 0 ts)
          @ (case ext_camelot_read penv (file_path f) of
               Inl e \<Rightarrow> [] | Inr ts \<Rightarrow> camelot_tables 0 ts)"
    and lr: "lg_readers
        = (logged pst @ [Info_processing (file_name f)])
          @ (case ext_tabula_read penv (file_path f) of
               Inl e \<Rightarrow> [Warning_tabula e] | Inr ts \<Rightarrow> [])
          @ (case ext_camelot_read penv (file_path f) of
               Inl e \<Rightarrow> [Warning_camelot e] | Inr ts \<Rightarrow> [])"
    by simp_all
  from extract_tables_from_pdf_page_fails(1)
      [where tabula_read = "ext_tabula_read penv"
         and camelot_read = "ext_camelot_read penv"
         and pdf_open = "ext_pdf_open penv" and path = "file_path f"
         and lg = "logged pst @ [Info_processing (file_name f)]", OF rd lr] a
  show "extract_tables_from_pdf (ext_tabula_read penv) (ext_camelot_read penv)
             (ext_pdf_open penv) (file_path f)
             (logged pst @ [Info_processing (file_name f)])
           = (found_readers, lg_readers @ [Warning_pdfplumber e])"
    by blast
qed

lemma policy_tables_page_fails:
  "found_readers
        = (case ext_tabula_read penv (file_path f) of
             Inl e \<Rightarrow> [] | Inr ts \<Rightarrow> tabula_tables 0 ts)
          @ (case ext_camelot_read penv (file_path f) of
               Inl e \<Rightarrow> [] | Inr ts \<Rightarrow> camelot_tables 0 ts)
    \<and> lg_readers
        = (logged pst @ [Info_processing (file_name f)])
          @ (case ext_tabula_read penv (file_path f) of
               Inl e \<Rightarrow> [Warning_tabula e] | Inr ts \<Rightarrow> [])
          @ (case ext_camelot_read penv (file_path f) of
               Inl e \<Rightarrow> [Warning_camelot e] | Inr ts \<Rightarrow> [])
    \<and> ext_pdf_open penv (file_path f) = Inr pdf
    \<and> pdf_pages pdf = Inr (earlier @ p # later)
    \<and> plumber_pages earlier 0 found_readers = (pfound, None)
    \<and> page_tables p = Inl e
    \<longrightarrow> extract_tables_from_pdf (ext_tabula_read penv) (ext_camelot_read penv)
          (ext_pdf_open penv) (file_path f)
          (logged pst @ [Info_processing (file_name f)])
        = (pfound, lg_readers @ [Warning_pdfplumber e])"
proof
  assume a: "found_readers
           = (case ext_tabula_read penv (file_path f) of
                Inl e \<Rightarrow> [] | Inr ts \<Rightarrow> tabula_tables 0 ts)
             @ (case ext_camelot_read penv (file_path f) of
                  Inl e \<Rightarrow> [] | Inr ts \<Rightarrow> camelot_tables 0 ts)
       \<and> lg_readers
           = (logged pst @ [Info_processing (file_name f)])
             @ (case ext_tabula_read penv (file_path f) of
                  Inl e \<Rightarrow> [Warning_tabula e] | Inr ts \<Rightarrow> [])
             @ (case ext_camelot_read penv (file_path f) of
                  Inl e \<Rightarrow> [Warning_camelot e] | Inr ts \<Rightarrow> [])
       \<and> ext_pdf_open penv (file_path f) = Inr pdf
       \<and> pdf_pages pdf = Inr (earlier @ p # later)
       \<and> plumber_pages earlier 0 found_readers = (pfound, None)
       \<and> page_tables p = Inl e"
  then have rd: "found_readers
        = (case ext_tabula_read penv (file_path f) of
             Inl e \<Rightarrow> [] | Inr ts \<Rightarrow> tabula_tables 0 ts)
          @ (case ext_camelot_read penv (file_path f) of
               Inl e \<Rightarrow> [] | Inr ts \<Rightarrow> camelot_tables 0 ts)"
    and lr: "lg_readers
        = (logged pst @ [Info_processing (file_name f)])
          @ (case ext_tabula_read penv (file_path f) of
               Inl e \<Rightarrow> [Warning_tabula e] | Inr ts \<Rightarrow> [])
          @ (case ext_camelot_read penv (file_path f) of
               Inl e \<Rightarrow> [Warning_camelot e] | Inr ts \<Rightarrow> [])"
    by simp_all
  from extract_tables_from_pdf_page_fails(2)
      [where tabula_read = "ext_tabula_read penv"
         and camelot_read = "ext_camelot_read penv"
         and pdf_open = "ext_pdf_open penv" and path = "file_path f"
         and lg = "logged pst @ [Info_processing (file_name f)]", OF rd lr] a
  show "extract_tables_from_pdf (ext_tabula_read penv) (ext_camelot_read penv)
             (ext_pdf_open penv) (file_path f)
             (logged pst @ [Info_processing (file_name f)])
           = (pfound, lg_readers @ [Warning_pdfplumber e])"
    by blast
qed

lemma policy_tables_row_join_fails:
  "found_readers
        = (case ext_tabula_read penv (file_path f) of
             Inl e \<Rightarrow> [] | Inr ts \<Rightarrow> tabula_tables 0 ts)
          @ (case ext_camelot_read penv (file_path f) of
               Inl e \<Rightarrow> [] | Inr ts \<Rightarrow> camelot_tables 0 ts)
    \<and> lg_readers
        = (logged pst @ [Info_processing (file_name f)])
          @ (case ext_tabula_read penv (file_path f) of
               Inl e \<Rightarrow> [Warning_tabula e] | Inr ts \<Rightarrow> [])
          @ (case ext_camelot_read penv (file_path f) of
               Inl e \<Rightarrow> [Warning_camelot e] | Inr ts \<Rightarrow> [])
    \<and> ext_pdf_open penv (file_path f) = Inr pdf
    \<and> pdf_pages pdf = Inr (earlier @ p # later)
    \<and> plumber_pages earlier 0 found_readers = (pfound, None)
    \<and> page_tables p = Inr (tabs_earlier @ t # tabs_later)
    \<and> add_plumber_tables (length earlier) 0 tabs_earlier pfound = (pfound_more, None)
    \<and> length t > 1 \<and> row \<in> set t \<and> py_any truthy_cell row \<and> None \<in> set row
    \<longrightarrow> extract_tables_from_pdf (ext_tabula_read penv) (ext_camelot_read penv)
          (ext_pdf_open penv) (file_path f)
          (logged pst @ [Info_processing (file_name f)])
        = (pfound_more, lg_readers @ [Warning_pdfplumber TypeError])"
proof
  assume a: "found_readers
           = (case ext_tabula_read penv (file_path f) of
                Inl e \<Rightarrow> [] | Inr ts \<Rightarrow> tabula_tables 0 ts)
             @ (case ext_camelot_read penv (file_path f) of
                  Inl e \<Rightarrow> [] | Inr ts \<Rightarrow> camelot_tables 0 ts)
       \<and> lg_readers
           = (logged pst @ [Info_processing (file_name f)])
             @ (case ext_tabula_read penv (file_path f) of
                  Inl e \<Rightarrow> [Warning_tabula e] | Inr ts \<Rightarrow> [])
             @ (case ext_camelot_read penv (file_path f) of
                  Inl e \<Rightarrow> [Warning_camelot e] | Inr ts \<Rightarrow> [])
       \<and> ext_pdf_open penv (file_path f) = Inr pdf
       \<and> pdf_pages pdf = Inr (earlier @ p # later)
       \<and> plumber_pages earlier 0 found_readers = (pfound, None)
       \<and> page_tables p = Inr (tabs_earlier @ t # tabs_later)
       \<and> add_plumber_tables (length earlier) 0 tabs_earlier pfound = (pfound_more, None)
       \<and> length t > 1 \<and> row \<in> set t \<and> py_any truthy_cell row \<and> None \<in> set row"
  then have rd: "found_readers
        = (case ext_tabula_read penv (file_path f) of
             Inl e \<Rightarrow> [] | Inr ts \<Rightarrow> tabula_tables 0 ts)
          @ (case ext_camelot_read penv (file_path f) of
               Inl e \<Rightarrow> [] | Inr ts \<Rightarrow> camelot_tables 0 ts)"
    and lr: "lg_readers
        = (logged pst @ [Info_processing (file_name f)])
          @ (case ext_tabula_read penv (file_path f) of
               Inl e \<Rightarrow> [Warning_tabula e] | Inr ts \<Rightarrow> [])
          @ (case ext_camelot_read penv (file_path f) of
               Inl e \<Rightarrow> [Warning_camelot e] | Inr ts \<Rightarrow> [])"
    by simp_all
  from extract_tables_from_pdf_page_fails(3)
      [where tabula_read = "ext_tabula_read penv"
         and camelot_read = "ext_camelot_read penv"
         and pdf_open = "ext_pdf_open penv" and path = "file_path f"
         and lg = "logged pst @ [Info_processing (file_name f)]", OF rd lr] a
  show "extract_tables_from_pdf (ext_tabula_read penv) (ext_camelot_read penv)
             (ext_pdf_open penv) (file_path f)
             (logged pst @ [Info_processing (file_name f)])
           = (pfound_more, lg_readers @ [Warning_pdfplumber TypeError])"
    by blast
qed

lemma policy_text_open_fails:
  "extract_tables_from_pdf (ext_tabula_read penv) (ext_camelot_read penv)
          (ext_pdf_open penv) (file_path f)
          (logged pst @ [Info_processing (file_name f)]) = (pfound, lg_tables)
    \<and> ext_pdf_open penv (file_path f) = Inl e
    \<longrightarrow> extract_text_with_structure (ext_tabula_read penv) (ext_camelot_read penv)
             (ext_pdf_open penv) (file_path f)
          (logged pst @ [Info_processing (file_name f)])
        = (Inr \<lparr>text_content = [], tables = pfound, total_pages = 0\<rparr>,
           lg_tables @ [Error_extracting (file_path f) e])"
proof
  assume a: "extract_tables_from_pdf (ext_tabula_read penv) (ext_camelot_read penv)
             (ext_pdf_open penv) (file_path f)
             (logged pst @ [Info_processing (file_name f)]) = (pfound, lg_tables)
       \<and> ext_pdf_open penv (file_path f) = Inl e"
  then have tb: "extract_tables_from_pdf (ext_tabula_read penv) (ext_camelot_read penv)
        (ext_pdf_open penv) (file_path f)
        (logged pst @ [Info_processing (file_name f)]) = (pfound, lg_tables)"
    by simp
  from extract_text_with_structure_page_fails(1)
      [where tabula_read = "ext_tabula_read penv"
         and camelot_read = "ext_camelot_read penv"
         and pdf_open = "ext_pdf_open penv" and path = "file_path f"
         and lg = "logged pst @ [Info_processing (file_name f)]", OF tb] a
  show "extract_text_with_structure (ext_tabula_read penv) (ext_camelot_read penv)
                (ext_pdf_open penv) (file_path f)
             (logged pst @ [Info_processing (file_name f)])
           = (Inr \<lparr>text_content = [], tables = pfound, total_pages = 0\<rparr>,
              lg_tables @ [Error_extracting (file_path f) e])"
    by blast
qed

lemma policy_page_text_fails:
  "extract_tables_from_pdf (ext_tabula_read penv) (ext_camelot_read penv)
          (ext_pdf_open penv) (file_path f)
          (logged pst @ [Info_processing (file_name f)]) = (pfound, lg_tables)
    \<and> ext_pdf_open penv (file_path f) = Inr pdf
    \<and> pdf_pages pdf = Inr (earlier @ p # later) \<and> pdf_page_count pdf = Inr n
    \<and> extract_page_texts earlier 0 [] = (collected, None) \<and> page_text p = Inl e
    \<longrightarrow> extract_text_with_structure (ext_tabula_read penv) (ext_camelot_read penv)
             (ext_pdf_open penv) (file_path f)
          (logged pst @ [Info_processing (file_name f)])
        = (Inr \<lparr>text_content = collected, tables = pfound, total_pages = n\<rparr>,
           lg_tables @ [Error_extracting (file_path f) e])"
proof
  assume a: "extract_tables_from_pdf (ext_tabula_read penv) (ext_camelot_read penv)
             (ext_pdf_open penv) (file_path f)
             (logged pst @ [Info_processing (file_name f)]) = (pfound, lg_tables)
       \<and> ext_pdf_open penv (file_path f) = Inr pdf
       \<and> pdf_pages pdf = Inr (earlier @ p # later) \<and> pdf_page_count pdf = Inr n
       \<and> extract_page_texts earlier 0 [] = (collected, None) \<and> page_text p = Inl e"
  then have tb: "extract_tables_from_pdf (ext_tabula_read penv) (ext_camelot_read penv)
        (ext_pdf_open penv) (file_path f)
        (logged pst @ [Info_processing (file_name f)]) = (pfound, lg_tables)"
    by simp
  from extract_text_with_structure_page_fails(2)
      [where tabula_read = "ext_tabula_read penv"
         and camelot_read = "ext_camelot_read penv"
         and pdf_open = "ext_pdf_open penv" and path = "file_path f"
         and lg = "logged pst @ [Info_processing (file_name f)]", OF tb] a
  show "extract_text_with_structure (ext_tabula_read penv) (ext_camelot_read penv)
                (ext_pdf_open penv) (file_path f)
             (logged pst @ [Info_processing (file_name f)])
           = (Inr \<lparr>text_content = collected, tables = pfound, total_pages = n\<rparr>,
              lg_tables @ [Error_extracting (file_path f) e])"
    by blast
qed

lemma policy_text_returns:
  "extract_tables_from_pdf (ext_tabula_read penv) (ext_camelot_read penv)
          (ext_pdf_open penv) (file_path f)
          (logged pst @ [Info_processing (file_name f)]) = (pfound, lg_tables)
    \<and> ext_pdf_open penv (file_path f) = Inr pdf
    \<and> pdf_pages pdf = Inr pages \<and> pdf_page_count pdf = Inr n
    \<and> extract_page_texts pages 0 [] = (collected, None)
    \<longrightarrow> extract_text_with_structure (ext_tabula_read penv) (ext_camelot_read penv)
             (ext_pdf_open penv) (file_path f)
          (logged pst @ [Info_processing (file_name f)])
        = (Inr \<lparr>text_content = collected, tables = pfound, total_pages = n\<rparr>,
           lg_tables)"
proof
  assume a: "extract_tables_from_pdf (ext_tabula_read penv) (ext_camelot_read penv)
             (ext_pdf_open penv) (file_path f)
             (logged pst @ [Info_processing (file_name f)]) = (pfound, lg_tables)
       \<and> ext_pdf_open penv (file_path f) = Inr pdf
       \<and> pdf_pages pdf = Inr pages \<and> pdf_page_count pdf = Inr n
       \<and> extract_page_texts pages 0 [] = (collected, None)"
  then have tb: "extract_tables_from_pdf (ext_tabula_read penv) (ext_camelot_read penv)
        (ext_pdf_open penv) (file_path f)
        (logged pst @ [Info_processing (file_name f)]) = (pfound, lg_tables)"
    by simp
  from extract_text_with_structure_page_fails(3)
      [where tabula_read = "ext_tabula_read penv"
         and camelot_read = "ext_camelot_read penv"
         and pdf_open = "ext_pdf_open penv" and path = "file_path f"
         and lg = "logged pst @ [Info_processing (file_name f)]", OF tb] a
  show "extract_text_with_structure (ext_tabula_read penv) (ext_camelot_read penv)
                (ext_pdf_open penv) (file_path f)
             (logged pst @ [Info_processing (file_name f)])
           = (Inr \<lparr>text_content = collected, tables = pfound, total_pages = n\<rparr>,
              lg_tables)"
    by blast
qed


subsection \<open>Failures in a batch\<close>

text \<open>
  C8 (as the code behaves), for \<open>SimpleInsuranceRAGSystem.process_pdfs\<close> and then for
  \<open>InsuranceRAGSystem.process_pdfs\<close>. For each class the statements are, in this order:

  The batch. (1) Processing a batch and then the remaining files is processing them
  all, whatever failed. (2, 3) The log has one start entry and one outcome entry, a
  success or an error, for every file of the batch, in the order of the batch. (4) No
  registry entry under another name than those of the batch is changed.

  One file. (5) Either the last log entry is the error of this file and the registry
  is as it was, or the file is registered and the last log entry is its success.

  Failures that leave the \<open>try\<close> block of \<open>process_pdfs\<close>: the file is skipped. (6) The
  extraction method raises exactly when the file opens and \<open>len(pdf.pages)\<close> in its
  return statement raises; (7) then the error is logged, and registry and collection
  are unchanged. With the extraction method having returned the data \<open>extracted\<close> and
  the log \<open>lg\<close>: (8) when the chunk builder raises, which it does only with an exception
  of the sentence splitter, (9) when the embedding model raises on a chunk, (10) when
  the store raises, (11) when the file size cannot be read, the state after the file is
  the state before it with the error added to the log \<open>lg\<close> and, from the store on, with
  the collection as the store left it; (12) when nothing raises, the file is registered
  with its chunks, size and pages, and its success is logged.

  Failures inside the \<open>try\<close> blocks of the extraction methods: they are caught and
  logged there, what was collected is returned, and the file is not skipped, since
  (8) to (12) apply to what was returned. (13) A file that cannot be opened (in the
  second class, with both table readers failing too) is registered with no chunks and
  no pages, and its success is logged after the extraction error. In the first class,
  the pages before the failing page having been read: (14) when \<open>extract_text\<close> raises
  on a page, the lines and tables of the pages before are returned; (15) when
  \<open>extract_tables\<close> raises on it, the lines of this page are returned as well; (16) when
  a row of one of its tables cannot be joined, because one of its cells is \<open>None\<close> and
  another is not empty, the tables before this one are returned as well, and the error
  is a \<open>TypeError\<close>. In the second class, where the tables are read first and by three
  libraries: (14) to (16) are the failure to open the file, of \<open>extract_tables\<close> on a
  page and of a row join in the third library, logged as a warning, the tables found so
  far being returned; (17) and (18) are the failure to open the file and of
  \<open>extract_text\<close> on a page in \<open>extract_text_with_structure\<close>; (19) when no page
  fails there, the lines of all pages are returned with the tables and the log of the
  table extraction.
\<close>

theorem process_pdfs_failures:
  "SimpleInsuranceRAGSystem_process_pdfs env csize st (batch @ remaining)
     = SimpleInsuranceRAGSystem_process_pdfs env csize
         (SimpleInsuranceRAGSystem_process_pdfs env csize st batch) remaining
   \<and> started (logged (SimpleInsuranceRAGSystem_process_pdfs env csize st files))
     = started (logged st) @ map file_name files
   \<and> outcomes (logged (SimpleInsuranceRAGSystem_process_pdfs env csize st files))
     = outcomes (logged st) @ map file_name files
   \<and> (\<forall>name. name \<notin> file_name ` set files \<longrightarrow>
      processed_docs (SimpleInsuranceRAGSystem_process_pdfs env csize st files) name
        = processed_docs st name)
   \<and> ((\<exists>e. last (logged (SimpleInsuranceRAGSystem_process_pdfs env csize st [f]))
            = Error_processing (file_name f) e
        \<and> processed_docs (SimpleInsuranceRAGSystem_process_pdfs env csize st [f])
            = processed_docs st)
    \<or> (\<exists>d. processed_docs (SimpleInsuranceRAGSystem_process_pdfs env csize st [f])
              (file_name f) = Some d
        \<and> last (logged (SimpleInsuranceRAGSystem_process_pdfs env csize st [f]))
            = Info_success (file_name f) (doc_total_chunks (doc_metadata d))))
   \<and> isl (fst (extract_text_from_pdf (ext_pdf_open env) (file_path f)
               (logged st @ [Info_processing (file_name f)])))
     = (\<exists>pdf. ext_pdf_open env (file_path f) = Inr pdf \<and> isl (pdf_page_count pdf))
   \<and> (ext_pdf_open env (file_path f) = Inr pdf \<and> pdf_page_count pdf = Inl e \<longrightarrow>
      last (logged (SimpleInsuranceRAGSystem_process_pdfs env csize st [f]))
        = Error_processing (file_name f) e
      \<and> processed_docs (SimpleInsuranceRAGSystem_process_pdfs env csize st [f])
        = processed_docs st
      \<and> collection (SimpleInsuranceRAGSystem_process_pdfs env csize st [f])
        = collection st)
   \<and> (extract_text_from_pdf (ext_pdf_open env) (file_path f)
             (logged st @ [Info_processing (file_name f)]) = (Inr extracted, lg)
    \<and> create_chunks csize (ext_split_sentences env) (ext_chunk_clock env (file_name f))
     extracted = Inl e
    \<longrightarrow> (\<exists>sentence_text. ext_split_sentences env sentence_text = Inl e)
       \<and> SimpleInsuranceRAGSystem_process_pdfs env csize st [f]
           = st\<lparr>logged := lg @ [Error_processing (file_name f) e]\<rparr>)
   \<and> (extract_text_from_pdf (ext_pdf_open env) (file_path f)
             (logged st @ [Info_processing (file_name f)]) = (Inr extracted, lg)
    \<and> create_chunks csize (ext_split_sentences env) (ext_chunk_clock env (file_name f))
             extracted = Inr chunks
    \<and> (\<exists>c \<in> set chunks. isl (ext_encode env (chunk_content c)))
    \<longrightarrow> (\<exists>e. (\<exists>c \<in> set chunks. ext_encode env (chunk_content c) = Inl e)
           \<and> SimpleInsuranceRAGSystem_process_pdfs env csize st [f]
               = st\<lparr>logged := lg @ [Error_processing (file_name f) e]\<rparr>))
   \<and> (extract_text_from_pdf (ext_pdf_open env) (file_path f)
             (logged st @ [Info_processing (file_name f)]) = (Inr extracted, lg)
    \<and> create_chunks csize (ext_split_sentences env) (ext_chunk_clock env (file_name f))
             extracted = Inr chunks
    \<and> create_embeddings (ext_encode env) chunks = Inr enhanced
    \<and> store_chunks (ext_collection_add env) (file_name f) 0 enhanced
             (collection st) = (coll, Some e)
    \<longrightarrow> SimpleInsuranceRAGSystem_process_pdfs env csize st [f]
          = st\<lparr>collection := coll,
                logged := lg @ [Error_processing (file_name f) e]\<rparr>)
   \<and> (extract_text_from_pdf (ext_pdf_open env) (file_path f)
             (logged st @ [Info_processing (file_name f)]) = (Inr extracted, lg)
    \<and> create_chunks csize (ext_split_sentences env) (ext_chunk_clock env (file_name f))
             extracted = Inr chunks
    \<and> create_embeddings (ext_encode env) chunks = Inr enhanced
    \<and> store_chunks (ext_collection_add env) (file_name f) 0 enhanced
             (collection st) = (coll, None)
    \<and> ext_stat_size env (file_path f) = Inl e
    \<longrightarrow> SimpleInsuranceRAGSystem_process_pdfs env csize st [f]
          = st\<lparr>collection := coll,
                logged := lg @ [Error_processing (file_name f) e]\<rparr>)
   \<and> (extract_text_from_pdf (ext_pdf_open env) (file_path f)
             (logged st @ [Info_processing (file_name f)]) = (Inr extracted, lg)
    \<and> create_chunks csize (ext_split_sentences env) (ext_chunk_clock env (file_name f))
             extracted = Inr chunks
    \<and> create_embeddings (ext_encode env) chunks = Inr enhanced
    \<and> store_chunks (ext_collection_add env) (file_name f) 0 enhanced
             (collection st) = (coll, None)
    \<and> ext_stat_size env (file_path f) = Inr file_size
    \<longrightarrow> SimpleInsuranceRAGSystem_process_pdfs env csize st [f]
          = \<lparr>collection = coll,
             processed_docs = (processed_docs st)(file_name f \<mapsto>
               \<lparr>doc_chunks = enhanced,
                doc_metadata =
                  \<lparr>doc_file_path = file_path f, doc_file_size = file_size,
                   doc_total_pages = total_pages extracted,
                   doc_total_chunks = length enhanced,
                   doc_processed_at = ext_processed_clock env (file_name f)\<rparr>\<rparr>),
             logged = lg @ [Info_success (file_name f) (length enhanced)]\<rparr>)
   \<and> (ext_pdf_open env (file_path f) = Inl e \<and> ext_stat_size env (file_path f) = Inr file_size
    \<longrightarrow> logged (SimpleInsuranceRAGSystem_process_pdfs env csize st [f])
          = logged st @ [Info_processing (file_name f), Error_extracting (file_path f) e,
                         Info_success (file_name f) 0]
        \<and> processed_docs (SimpleInsuranceRAGSystem_process_pdfs env csize st [f])
            (file_name f)
          = Some \<lparr>doc_chunks = [],
                  doc_metadata =
                    \<lparr>doc_file_path = file_path f, doc_file_size = file_size,
                     doc_total_pages = 0, doc_total_chunks = 0,
                     doc_processed_at = ext_processed_clock env (file_name f)\<rparr>\<rparr>)
   \<and> (ext_pdf_open env (file_path f) = Inr pdf
    \<and> pdf_pages pdf = Inr (earlier @ p # later) \<and> pdf_page_count pdf = Inr n
    \<and> extract_pages earlier 0 [] [] = (collected, found, None)
    \<and> page_text p = Inl e
    \<longrightarrow> extract_text_from_pdf (ext_pdf_open env) (file_path f)
          (logged st @ [Info_processing (file_name f)])
        = (Inr \<lparr>text_content = collected, tables = found, total_pages = n\<rparr>,
           (logged st @ [Info_processing (file_name f)])
             @ [Error_extracting (file_path f) e]))
   \<and> (ext_pdf_open env (file_path f) = Inr pdf
    \<and> pdf_pages pdf = Inr (earlier @ p # later) \<and> pdf_page_count pdf = Inr n
    \<and> extract_pages earlier 0 [] [] = (collected, found, None)
    \<and> page_text p = Inr page_txt \<and> page_tables p = Inl e
    \<longrightarrow> extract_text_from_pdf (ext_pdf_open env) (file_path f)
          (logged st @ [Info_processing (file_name f)])
        = (Inr \<lparr>text_content = add_page_text (length earlier) page_txt collected, tables =
            found, total_pages = n\<rparr>,
           (logged st @ [Info_processing (file_name f)])
             @ [Error_extracting (file_path f) e]))
   \<and> (ext_pdf_open env (file_path f) = Inr pdf
    \<and> pdf_pages pdf = Inr (earlier @ p # later) \<and> pdf_page_count pdf = Inr n
    \<and> extract_pages earlier 0 [] [] = (collected, found, None)
    \<and> page_text p = Inr page_txt
    \<and> page_tables p = Inr (tabs_earlier @ t # tabs_later)
    \<and> add_tables (length earlier) 0 tabs_earlier found = (found_more, None)
    \<and> length t > 1 \<and> row \<in> set t \<and> py_any truthy_cell row \<and> None \<in> set row
    \<longrightarrow> extract_text_from_pdf (ext_pdf_open env) (file_path f)
          (logged st @ [Info_processing (file_name f)])
        = (Inr \<lparr>text_content = add_page_text (length earlier) page_txt collected, tables =
            found_more, total_pages = n\<rparr>,
           (logged st @ [Info_processing (file_name f)])
             @ [Error_extracting (file_path f) TypeError]))
   \<and> InsuranceRAGSystem_process_pdfs penv csize pst (batch @ remaining)
     = InsuranceRAGSystem_process_pdfs penv csize
         (InsuranceRAGSystem_process_pdfs penv csize pst batch) remaining
   \<and> started (logged (InsuranceRAGSystem_process_pdfs penv csize pst files))
     = started (logged pst) @ map file_name files
   \<and> outcomes (logged (InsuranceRAGSystem_process_pdfs penv csize pst files))
     = outcomes (logged pst) @ map file_name files
   \<and> (\<forall>name. name \<notin> file_name ` set files \<longrightarrow>
      processed_docs (InsuranceRAGSystem_process_pdfs penv csize pst files) name
        = processed_docs pst name)
   \<and> ((\<exists>e. last (logged (InsuranceRAGSystem_process_pdfs penv csize pst [f]))
            = Error_processing (file_name f) e
        \<and> processed_docs (InsuranceRAGSystem_process_pdfs penv csize pst [f])
            = processed_docs pst)
    \<or> (\<exists>d. processed_docs (InsuranceRAGSystem_process_pdfs penv csize pst [f])
              (file_name f) = Some d
        \<and> last (logged (InsuranceRAGSystem_process_pdfs penv csize pst [f]))
            = Info_success (file_name f) (doc_total_chunks (doc_metadata d))))
   \<and> isl (fst (extract_text_with_structure (ext_tabula_read penv) (ext_camelot_read penv)
             (ext_pdf_open penv) (file_path f)
               (logged pst @ [Info_processing (file_name f)])))
     = (\<exists>pdf. ext_pdf_open penv (file_path f) = Inr pdf \<and> isl (pdf_page_count pdf))
   \<and> (ext_pdf_open penv (file_path f) = Inr pdf \<and> pdf_page_count pdf = Inl e \<longrightarrow>
      last (logged (InsuranceRAGSystem_process_pdfs penv csize pst [f]))
        = Error_processing (file_name f) e
      \<and> processed_docs (InsuranceRAGSystem_process_pdfs penv csize pst [f])
        = processed_docs pst
      \<and> collection (InsuranceRAGSystem_process_pdfs penv csize pst [f])
        = collection pst)
   \<and> (extract_text_with_structure (ext_tabula_read penv) (ext_camelot_read penv)
             (ext_pdf_open penv) (file_path f)
             (logged pst @ [Info_processing (file_name f)]) = (Inr pextracted, plg)
    \<and> create_semantic_chunks csize (ext_split_sentences penv)
             (ext_chunk_clock penv (file_name f))
     pextracted = Inl e
    \<longrightarrow> (\<exists>sentence_text. ext_split_sentences penv sentence_text = Inl e)
       \<and> InsuranceRAGSystem_process_pdfs penv csize pst [f]
           = pst\<lparr>logged := plg @ [Error_processing (file_name f) e]\<rparr>)
   \<and> (extract_text_with_structure (ext_tabula_read penv) (ext_camelot_read penv)
             (ext_pdf_open penv) (file_path f)
             (logged pst @ [Info_processing (file_name f)]) = (Inr pextracted, plg)
    \<and> create_semantic_chunks csize (ext_split_sentences penv)
             (ext_chunk_clock penv (file_name f))
             pextracted = Inr pchunks
    \<and> (\<exists>c \<in> set pchunks. isl (ext_encode penv (chunk_content c)))
    \<longrightarrow> (\<exists>e. (\<exists>c \<in> set pchunks. ext_encode penv (chunk_content c) = Inl e)
           \<and> InsuranceRAGSystem_process_pdfs penv csize pst [f]
               = pst\<lparr>logged := plg @ [Error_processing (file_name f) e]\<rparr>))
   \<and> (extract_text_with_structure (ext_tabula_read penv) (ext_camelot_read penv)
             (ext_pdf_open penv) (file_path f)
             (logged pst @ [Info_processing (file_name f)]) = (Inr pextracted, plg)
    \<and> create_semantic_chunks csize (ext_split_sentences penv)
             (ext_chunk_clock penv (file_name f))
             pextracted = Inr pchunks
    \<and> create_enhanced_embeddings (ext_encode penv) pchunks = Inr penhanced
    \<and> store_chunks (ext_collection_add penv) (file_name f) 0 penhanced
             (collection pst) = (pcoll, Some e)
    \<longrightarrow> InsuranceRAGSystem_process_pdfs penv csize pst [f]
          = pst\<lparr>collection := pcoll,
                logged := plg @ [Error_processing (file_name f) e]\<rparr>)
   \<and> (extract_text_with_structure (ext_tabula_read penv) (ext_camelot_read penv)
             (ext_pdf_open penv) (file_path f)
             (logged pst @ [Info_processing (file_name f)]) = (Inr pextracted, plg)
    \<and> create_semantic_chunks csize (ext_split_sentences penv)
             (ext_chunk_clock penv (file_name f))
             pextracted = Inr pchunks
    \<and> create_enhanced_embeddings (ext_encode penv) pchunks = Inr penhanced
    \<and> store_chunks (ext_collection_add penv) (file_name f) 0 penhanced
             (collection pst) = (pcoll, None)
    \<and> ext_stat_size penv (file_path f) = Inl e
    \<longrightarrow> InsuranceRAGSystem_process_pdfs penv csize pst [f]
          = pst\<lparr>collection := pcoll,
                logged := plg @ [Error_processing (file_name f) e]\<rparr>)
   \<and> (extract_text_with_structure (ext_tabula_read penv) (ext_camelot_read penv)
             (ext_pdf_open penv) (file_path f)
             (logged pst @ [Info_processing (file_name f)]) = (Inr pextracted, plg)
    \<and> create_semantic_chunks csize (ext_split_sentences penv)
             (ext_chunk_clock penv (file_name f))
             pextracted = Inr pchunks
    \<and> create_enhanced_embeddings (ext_encode penv) pchunks = Inr penhanced
    \<and> store_chunks (ext_collection_add penv) (file_name f) 0 penhanced
             (collection pst) = (pcoll, None)
    \<and> ext_stat_size penv (file_path f) = Inr file_size
    \<longrightarrow> InsuranceRAGSystem_process_pdfs penv csize pst [f]
          = \<lparr>collection = pcoll,
             processed_docs = (processed_docs pst)(file_name f \<mapsto>
               \<lparr>doc_chunks = penhanced,
                doc_metadata =
                  \<lparr>doc_file_path = file_path f, doc_file_size = file_size,
                   doc_total_pages = total_pages pextracted,
                   doc_total_chunks = length penhanced,
                   doc_processed_at = ext_processed_clock penv (file_name f)\<rparr>\<rparr>),
             logged = plg @ [Info_success (file_name f) (length penhanced)]\<rparr>)
   \<and> (ext_pdf_open penv (file_path f) = Inl e
    \<and> ext_tabula_read penv (file_path f) = Inl tabula_error
    \<and> ext_camelot_read penv (file_path f) = Inl camelot_error
    \<and> ext_stat_size penv (file_path f) = Inr file_size
    \<longrightarrow> logged (InsuranceRAGSystem_process_pdfs penv csize pst [f])
          = logged pst @ [Info_processing (file_name f), Warning_tabula tabula_error,
                          Warning_camelot camelot_error, Warning_pdfplumber e,
                          Error_extracting (file_path f) e, Info_success (file_name f) 0]
        \<and> processed_docs (InsuranceRAGSystem_process_pdfs penv csize pst [f])
            (file_name f)
          = Some \<lparr>doc_chunks = [],
                  doc_metadata =
                    \<lparr>doc_file_path = file_path f, doc_file_size = file_size,
                     doc_total_pages = 0, doc_total_chunks = 0,
                     doc_processed_at = ext_processed_clock penv (file_name f)\<rparr>\<rparr>)
   \<and> (found_readers
        = (case ext_tabula_read penv (file_path f) of
             Inl e \<Rightarrow> [] | Inr ts \<Rightarrow> tabula_tables 0 ts)
          @ (case ext_camelot_read penv (file_path f) of
               Inl e \<Rightarrow> [] | Inr ts \<Rightarrow> camelot_tables 0 ts)
    \<and> lg_readers
        = (logged pst @ [Info_processing (file_name f)])
          @ (case ext_tabula_read penv (file_path f) of
               Inl e \<Rightarrow> [Warning_tabula e] | Inr ts \<Rightarrow> [])
          @ (case ext_camelot_read penv (file_path f) of
               Inl e \<Rightarrow> [Warning_camelot e] | Inr ts \<Rightarrow> [])
    \<and> ext_pdf_open penv (file_path f) = Inl e
    \<longrightarrow> extract_tables_from_pdf (ext_tabula_read penv) (ext_camelot_read penv)
          (ext_pdf_open penv) (file_path f)
          (logged pst @ [Info_processing (file_name f)])
        = (found_readers, lg_readers @ [Warning_pdfplumber e]))
   \<and> (found_readers
        = (case ext_tabula_read penv (file_path f) of
             Inl e \<Rightarrow> [] | Inr ts \<Rightarrow> tabula_tables 0 ts)
          @ (case ext_camelot_read penv (file_path f) of
               Inl e \<Rightarrow> [] | Inr ts \<Rightarrow> camelot_tables 0 ts)
    \<and> lg_readers
        = (logged pst @ [Info_processing (file_name f)])
          @ (case ext_tabula_read penv (file_path f) of
               Inl e \<Rightarrow> [Warning_tabula e] | Inr ts \<Rightarrow> [])
          @ (case ext_camelot_read penv (file_path f) of
               Inl e \<Rightarrow> [Warning_camelot e] | Inr ts \<Rightarrow> [])
    \<and> ext_pdf_open penv (file_path f) = Inr pdf
    \<and> pdf_pages pdf = Inr (earlier @ p # later)
    \<and> plumber_pages earlier 0 found_readers = (pfound, None)
    \<and> page_tables p = Inl e
    \<longrightarrow> extract_tables_from_pdf (ext_tabula_read penv) (ext_camelot_read penv)
          (ext_pdf_open penv) (file_path f)
          (logged pst @ [Info_processing (file_name f)])
        = (pfound, lg_readers @ [Warning_pdfplumber e]))
   \<and> (found_readers
        = (case ext_tabula_read penv (file_path f) of
             Inl e \<Rightarrow> [] | Inr ts \<Rightarrow> tabula_tables 0 ts)
          @ (case ext_camelot_read penv (file_path f) of
               Inl e \<Rightarrow> [] | Inr ts \<Rightarrow> camelot_tables 0 ts)
    \<and> lg_readers
        = (logged pst @ [Info_processing (file_name f)])
          @ (case ext_tabula_read penv (file_path f) of
               Inl e \<Rightarrow> [Warning_tabula e] | Inr ts \<Rightarrow> [])
          @ (case ext_camelot_read penv (file_path f) of
               Inl e \<Rightarrow> [Warning_camelot e] | Inr ts \<Rightarrow> [])
    \<and> ext_pdf_open penv (file_path f) = Inr pdf
    \<and> pdf_pages pdf = Inr (earlier @ p # later)
    \<and> plumber_pages earlier 0 found_readers = (pfound, None)
    \<and> page_tables p = Inr (tabs_earlier @ t # tabs_later)
    \<and> add_plumber_tables (length earlier) 0 tabs_earlier pfound = (pfound_more, None)
    \<and> length t > 1 \<and> row \<in> set t \<and> py_any truthy_cell row \<and> None \<in> set row
    \<longrightarrow> extract_tables_from_pdf (ext_tabula_read penv) (ext_camelot_read penv)
          (ext_pdf_open penv) (file_path f)
          (logged pst @ [Info_processing (file_name f)])
        = (pfound_more, lg_readers @ [Warning_pdfplumber TypeError]))
   \<and> (extract_tables_from_pdf (ext_tabula_read penv) (ext_camelot_read penv)
          (ext_pdf_open penv) (file_path f)
          (logged pst @ [Info_processing (file_name f)]) = (pfound, lg_tables)
    \<and> ext_pdf_open penv (file_path f) = Inl e
    \<longrightarrow> extract_text_with_structure (ext_tabula_read penv) (ext_camelot_read penv)
             (ext_pdf_open penv) (file_path f)
          (logged pst @ [Info_processing (file_name f)])
        = (Inr \<lparr>text_content = [], tables = pfound, total_pages = 0\<rparr>,
           lg_tables @ [Error_extracting (file_path f) e]))
   \<and> (extract_tables_from_pdf (ext_tabula_read penv) (ext_camelot_read penv)
          (ext_pdf_open penv) (file_path f)
          (logged pst @ [Info_processing (file_name f)]) = (pfound, lg_tables)
    \<and> ext_pdf_open penv (file_path f) = Inr pdf
    \<and> pdf_pages pdf = Inr (earlier @ p # later) \<and> pdf_page_count pdf = Inr n
    \<and> extract_page_texts earlier 0 [] = (collected, None) \<and> page_text p = Inl e
    \<longrightarrow> extract_text_with_structure (ext_tabula_read penv) (ext_camelot_read penv)
             (ext_pdf_open penv) (file_path f)
          (logged pst @ [Info_processing (file_name f)])
        = (Inr \<lparr>text_content = collected, tables = pfound, total_pages = n\<rparr>,
           lg_tables @ [Error_extracting (file_path f) e]))
   \<and> (extract_tables_from_pdf (ext_tabula_read penv) (ext_camelot_read penv)
          (ext_pdf_open penv) (file_path f)
          (logged pst @ [Info_processing (file_name f)]) = (pfound, lg_tables)
    \<and> ext_pdf_open penv (file_path f) = Inr pdf
    \<and> pdf_pages pdf = Inr pages \<and> pdf_page_count pdf = Inr n
    \<and> extract_page_texts pages 0 [] = (collected, None)
    \<longrightarrow> extract_text_with_structure (ext_tabula_read penv) (ext_camelot_read penv)
             (ext_pdf_open penv) (file_path f)
          (logged pst @ [Info_processing (file_name f)])
        = (Inr \<lparr>text_content = collected, tables = pfound, total_pages = n\<rparr>,
           lg_tables))"
  by (intro conjI)
     (rule simple_continues, rule simple_started, rule simple_outcomes, rule simple_others,
      rule simple_outcome, rule simple_raises, rule simple_propagated,
      rule simple_chunking, rule simple_embedding, rule simple_storing,
      rule simple_file_size, rule simple_registered, rule simple_caught,
      rule simple_page_text_fails, rule simple_page_tables_fail,
      rule simple_row_join_fails, rule policy_continues, rule policy_started,
      rule policy_outcomes, rule policy_others, rule policy_outcome, rule policy_raises,
      rule policy_propagated, rule policy_chunking, rule policy_embedding,
      rule policy_storing, rule policy_file_size, rule policy_registered,
      rule policy_caught, rule policy_tables_open_fails, rule policy_tables_page_fails,
      rule policy_tables_row_join_fails, rule policy_text_open_fails,
      rule policy_page_text_fails, rule policy_text_returns)

subsection \<open>The examples\<close>

lemma externals_fields:
  "ext_pdf_open demo_externals = demo_open"
  "ext_tabula_read demo_externals = (\<lambda>path. Inl (ExternalError ''tabula''))"
  "ext_camelot_read demo_externals = (\<lambda>path. Inl (ExternalError ''camelot''))"
  "ext_split_sentences demo_externals = (\<lambda>t. Inr [t])"
  "ext_encode demo_externals = (\<lambda>t. Inl (ExternalError ''model unavailable''))"
  "ext_collection_add demo_externals = (\<lambda>coll entry. (coll @ [entry], None))"
  "ext_stat_size demo_externals = (\<lambda>path. Inr 2048)"
  "ext_chunk_clock demo_externals = (\<lambda>name k. ''2024-01-15T10:00:00'')"
  "ext_processed_clock demo_externals = (\<lambda>name. ''2024-01-15T10:00:01'')"
  "ext_pdf_open working_externals = demo_open"
  "ext_tabula_read working_externals = (\<lambda>path. Inl (ExternalError ''tabula''))"
  "ext_camelot_read working_externals = (\<lambda>path. Inl (ExternalError ''camelot''))"
  "ext_split_sentences working_externals = (\<lambda>t. Inr [t])"
  "ext_encode working_externals = (\<lambda>t. Inr (length t))"
  "ext_collection_add working_externals = (\<lambda>coll entry. (coll @ [entry], None))"
  "ext_stat_size working_externals = (\<lambda>path. Inr 2048)"
  "ext_chunk_clock working_externals = (\<lambda>name k. ''2024-01-15T10:00:00'')"
  "ext_processed_clock working_externals = (\<lambda>name. ''2024-01-15T10:00:01'')"
  "ext_pdf_open no_splitter_externals = demo_open"
  "ext_tabula_read no_splitter_externals = (\<lambda>path. Inl (ExternalError ''tabula''))"
  "ext_camelot_read no_splitter_externals = (\<lambda>path. Inl (ExternalError ''camelot''))"
  "ext_split_sentences no_splitter_externals = (\<lambda>t. Inl (ExternalError ''spacy''))"
  "ext_encode no_splitter_externals = (\<lambda>t. Inr (length t))"
  "ext_collection_add no_splitter_externals = (\<lambda>coll entry. (coll @ [entry], None))"
  "ext_stat_size no_splitter_externals = (\<lambda>path. Inr 2048)"
  "ext_chunk_clock no_splitter_externals = (\<lambda>name k. ''2024-01-15T10:00:00'')"
  "ext_processed_clock no_splitter_externals = (\<lambda>name. ''2024-01-15T10:00:01'')"
  "ext_pdf_open no_store_externals = demo_open"
  "ext_tabula_read no_store_externals = (\<lambda>path. Inl (ExternalError ''tabula''))"
  "ext_camelot_read no_store_externals = (\<lambda>path. Inl (ExternalError ''camelot''))"
  "ext_split_sentences no_store_externals = (\<lambda>t. Inr [t])"
  "ext_encode no_store_externals = (\<lambda>t. Inr (length t))"
  "ext_collection_add no_store_externals = (\<lambda>coll entry. (coll, Some (ExternalError
      ''store'')))"
  "ext_stat_size no_store_externals = (\<lambda>path. Inr 2048)"
  "ext_chunk_clock no_store_externals = (\<lambda>name k. ''2024-01-15T10:00:00'')"
  "ext_processed_clock no_store_externals = (\<lambda>name. ''2024-01-15T10:00:01'')"
  "ext_pdf_open no_stat_externals = demo_open"
  "ext_tabula_read no_stat_externals = (\<lambda>path. Inl (ExternalError ''tabula''))"
  "ext_camelot_read no_stat_externals = (\<lambda>path. Inl (ExternalError ''camelot''))"
  "ext_split_sentences no_stat_externals = (\<lambda>t. Inr [t])"
  "ext_encode no_stat_externals = (\<lambda>t. Inr (length t))"
  "ext_collection_add no_stat_externals = (\<lambda>coll entry. (coll @ [entry], None))"
  "ext_stat_size no_stat_externals = (\<lambda>path. Inl (ExternalError ''stat''))"
  "ext_chunk_clock no_stat_externals = (\<lambda>name k. ''2024-01-15T10:00:00'')"
  "ext_processed_clock no_stat_externals = (\<lambda>name. ''2024-01-15T10:00:01'')"
  by (simp_all add: demo_externals_def working_externals_def no_splitter_externals_def
      no_store_externals_def no_stat_externals_def)

lemma file_fields:
  "file_name broken_file = ''broken.pdf''" "file_path broken_file =
      ''Training_pdfs/broken.pdf''"
  "file_name damaged_file = ''damaged.pdf''"
  "file_path damaged_file = ''Training_pdfs/damaged.pdf''"
  "file_name policy_file = ''policy.pdf''" "file_path policy_file =
      ''Training_pdfs/policy.pdf''"
  "file_name partial_file = ''partial.pdf''"
  "file_path partial_file = ''Training_pdfs/partial.pdf''"
  "file_name scan_file = ''scan.pdf''" "file_path scan_file = ''Training_pdfs/scan.pdf''"
  "file_name tables_file = ''tables.pdf''" "file_path tables_file =
      ''Training_pdfs/tables.pdf''"
  by (simp_all add: broken_file_def damaged_file_def policy_file_def partial_file_def
      scan_file_def tables_file_def)

lemma empty_state_fields:
  "collection empty_state = []" "processed_docs empty_state = Map.empty"
  "logged empty_state = []"
  by (simp_all add: empty_state_def)

lemma demo_open_paths:
  "demo_open ''Training_pdfs/broken.pdf'' = Inl (ExternalError ''PDFSyntaxError'')"
  "demo_open ''Training_pdfs/damaged.pdf'' = Inr damaged_pdf"
  "demo_open ''Training_pdfs/policy.pdf'' = Inr policy_pdf"
  "demo_open ''Training_pdfs/partial.pdf'' = Inr partial_pdf"
  "demo_open ''Training_pdfs/scan.pdf'' = Inr scan_pdf"
  "demo_open ''Training_pdfs/tables.pdf'' = Inr tables_pdf"
  by (simp_all add: demo_open_def)

lemma demo_pdfs:
  "pdf_page_count damaged_pdf = Inl (ExternalError ''PSEOF'')"
  "pdf_pages policy_pdf = Inr [coverage_page]" "pdf_page_count policy_pdf = Inr 1"
  "pdf_pages partial_pdf = Inr ([coverage_page] @ unreadable_page # [])"
  "pdf_page_count partial_pdf = Inr 2"
  "pdf_pages scan_pdf = Inr [scan_page]" "pdf_page_count scan_pdf = Inr 1"
  "pdf_pages tables_pdf = Inr [tables_page]" "pdf_page_count tables_pdf = Inr 1"
  "page_text unreadable_page = Inl (ExternalError ''page unreadable'')"
  "page_text scan_page = Inr (Some ''Coverage applies.'')"
  "page_tables scan_page = Inl (ExternalError ''tables unreadable'')"
  "page_text tables_page = Inr (Some ''Coverage applies.'')"
  "page_tables tables_page = Inr [premium_table]"
  by (simp_all add: damaged_pdf_def policy_pdf_def partial_pdf_def scan_pdf_def tables_pdf_def
      unreadable_page_def scan_page_def tables_page_def)

lemma premium_table_row:
  "length premium_table = 2" "[Some ''A'', None] \<in> set premium_table"
  "truthy_cell (Some ''A'')"
  by (simp_all add: premium_table_def truthy_cell_def)

lemma coverage_page_lines:
  "add_page_text 0 (Some ''Coverage applies.'') [] = [coverage_item]"
  by code_simp

lemma coverage_page_extracted:
  "extract_pages [coverage_page] 0 [] [] = ([coverage_item], [], None)"
  "extract_page_texts [coverage_page] 0 [] = ([coverage_item], None)"
  "extract_page_texts [scan_page] 0 [] = ([coverage_item], None)"
  "extract_page_texts [tables_page] 0 [] = ([coverage_item], None)"
  "plumber_pages [coverage_page] 0 [] = ([], None)"
  by code_simp+

lemma no_pages:
  "extract_pages [] k collected found = (collected, found, None)"
  "extract_page_texts [] k collected = (collected, None)"
  "plumber_pages [] k pfound = (pfound, None)"
  by simp_all

lemma policy_pdf_extracted:
  "extract_text_from_pdf demo_open ''Training_pdfs/policy.pdf'' lg
     = (Inr \<lparr>text_content = [coverage_item], tables = [], total_pages = 1\<rparr>, lg)"
  by (simp add: extract_text_from_pdf_def demo_open_paths demo_pdfs coverage_page_extracted
      del: extract_pages.simps)

lemma readers_fail:
  "extract_tables_from_pdf (\<lambda>path. Inl (ExternalError ''tabula''))
       (\<lambda>path. Inl (ExternalError ''camelot'')) demo_open ''Training_pdfs/policy.pdf'' lg
     = ([], lg @ [Warning_tabula (ExternalError ''tabula''),
                  Warning_camelot (ExternalError ''camelot'')])"
  "extract_tables_from_pdf (\<lambda>path. Inl (ExternalError ''tabula''))
       (\<lambda>path. Inl (ExternalError ''camelot'')) demo_open ''Training_pdfs/partial.pdf'' lg
     = ([], lg @ [Warning_tabula (ExternalError ''tabula''),
                  Warning_camelot (ExternalError ''camelot'')])"
  by (simp_all add: extract_tables_from_pdf_def demo_open_paths demo_pdfs policy_pdf_def
      partial_pdf_def coverage_page_def unreadable_page_def)

lemma policy_pdf_extracted_with_structure:
  "extract_text_with_structure (\<lambda>path. Inl (ExternalError ''tabula''))
       (\<lambda>path. Inl (ExternalError ''camelot'')) demo_open ''Training_pdfs/policy.pdf'' lg
     = (Inr \<lparr>text_content = [coverage_item], tables = [], total_pages = 1\<rparr>,
        lg @ [Warning_tabula (ExternalError ''tabula''),
              Warning_camelot (ExternalError ''camelot'')])"
  by (simp add: extract_text_with_structure_def readers_fail demo_open_paths demo_pdfs
      coverage_page_extracted del: extract_page_texts.simps)

lemma coverage_chunked:
  "chunk_text_content 512 (\<lambda>t. Inr [t]) (\<lambda>k. ''2024-01-15T10:00:00'') [coverage_item]
     = Inr [coverage_chunk]"
  "chunk_text_content 1 (\<lambda>t. Inl (ExternalError ''spacy'')) (\<lambda>k. ''2024-01-15T10:00:00'')
       [coverage_item]
     = Inl (ExternalError ''spacy'')"
  by code_simp+

lemma coverage_chunks:
  "create_chunks 512 (\<lambda>t. Inr [t]) (\<lambda>k. ''2024-01-15T10:00:00'')
       \<lparr>text_content = [coverage_item], tables = [], total_pages = n\<rparr> = Inr [coverage_chunk]"
  "create_chunks 1 (\<lambda>t. Inl (ExternalError ''spacy'')) (\<lambda>k. ''2024-01-15T10:00:00'')
       \<lparr>text_content = [coverage_item], tables = [], total_pages = n\<rparr>
     = Inl (ExternalError ''spacy'')"
  "create_semantic_chunks 512 (\<lambda>t. Inr [t]) (\<lambda>k. ''2024-01-15T10:00:00'')
       \<lparr>text_content = [coverage_item], tables = [], total_pages = n\<rparr> = Inr [coverage_chunk]"
  "create_semantic_chunks 1 (\<lambda>t. Inl (ExternalError ''spacy''))
       (\<lambda>k. ''2024-01-15T10:00:00'')
       \<lparr>text_content = [coverage_item], tables = [], total_pages = n\<rparr>
     = Inl (ExternalError ''spacy'')"
  by (simp_all add: create_chunks_def create_semantic_chunks_def coverage_chunked)

lemma coverage_embedded:
  "\<exists>x. create_embeddings (\<lambda>t. Inr (length t)) [coverage_chunk] = Inr [x]"
  "\<exists>y. create_enhanced_embeddings (\<lambda>t. Inr (length t)) [coverage_chunk] = Inr [y]"
proof -
  have "\<forall>c \<in> set [coverage_chunk]. \<exists>v. (\<lambda>t. Inr (length t) :: py_error + nat) (chunk_content c)
      = Inr v"
    by simp
  from embed_chunks_returns [OF this simple_features_return, of _ "[]"]
    embed_chunks_returns [OF this full_features_return, of _ "[]"]
  show "\<exists>x. create_embeddings (\<lambda>t. Inr (length t)) [coverage_chunk] = Inr [x]"
    "\<exists>y. create_enhanced_embeddings (\<lambda>t. Inr (length t)) [coverage_chunk] = Inr [y]"
    unfolding create_embeddings_def create_enhanced_embeddings_def
    by (auto simp: length_Suc_conv)
qed


text \<open>
  The theorem at the example files, each processed alone from the empty state, for the
  first class and then for the second. On \<open>policy.pdf\<close> the embedding model, the
  sentence splitter (with chunk size 1), the store and the file system fail in turn:
  each time the error is logged and the file is not registered, and when the file
  system fails the chunk stored before stays in the collection. \<open>damaged.pdf\<close> makes
  the return statement of the extraction method raise. \<open>broken.pdf\<close> cannot be
  opened, and the success of the file is logged with no chunk. In \<open>partial.pdf\<close>,
  \<open>scan.pdf\<close> and \<open>tables.pdf\<close> the text of the second page, the tables of the page
  and a row of a table fail inside the extraction method: the error is logged there,
  and the file is registered with the one chunk of the page that was read.
\<close>

theorem process_pdfs_failures_witness:
  "SimpleInsuranceRAGSystem_process_pdfs demo_externals 512 empty_state [policy_file]
     = empty_state\<lparr>logged := [Info_processing ''policy.pdf'',
         Error_processing ''policy.pdf'' (ExternalError ''model unavailable'')]\<rparr>
   \<and> SimpleInsuranceRAGSystem_process_pdfs no_splitter_externals 1 empty_state [policy_file]
     = empty_state\<lparr>logged := [Info_processing ''policy.pdf'',
         Error_processing ''policy.pdf'' (ExternalError ''spacy'')]\<rparr>
   \<and> SimpleInsuranceRAGSystem_process_pdfs no_store_externals 512 empty_state [policy_file]
     = empty_state\<lparr>logged := [Info_processing ''policy.pdf'',
         Error_processing ''policy.pdf'' (ExternalError ''store'')]\<rparr>
   \<and> logged (SimpleInsuranceRAGSystem_process_pdfs no_stat_externals 512 empty_state
       [policy_file])
     = [Info_processing ''policy.pdf'',
        Error_processing ''policy.pdf'' (ExternalError ''stat'')]
   \<and> processed_docs (SimpleInsuranceRAGSystem_process_pdfs no_stat_externals 512 empty_state
       [policy_file])
       ''policy.pdf'' = None
   \<and> length (collection (SimpleInsuranceRAGSystem_process_pdfs no_stat_externals 512 empty_state
       [policy_file])) = 1
   \<and> last (logged (SimpleInsuranceRAGSystem_process_pdfs demo_externals 512 empty_state
       [damaged_file]))
     = Error_processing ''damaged.pdf'' (ExternalError ''PSEOF'')
   \<and> processed_docs (SimpleInsuranceRAGSystem_process_pdfs demo_externals 512 empty_state
       [damaged_file])
       ''damaged.pdf'' = None
   \<and> logged (SimpleInsuranceRAGSystem_process_pdfs demo_externals 512 empty_state [broken_file])
     = [Info_processing ''broken.pdf'',
        Error_extracting ''Training_pdfs/broken.pdf'' (ExternalError ''PDFSyntaxError''),
        Info_success ''broken.pdf'' 0]
   \<and> logged (SimpleInsuranceRAGSystem_process_pdfs working_externals 512 empty_state
       [partial_file])
     = [Info_processing ''partial.pdf'',
        Error_extracting ''Training_pdfs/partial.pdf'' (ExternalError ''page unreadable''),
        Info_success ''partial.pdf'' 1]
   \<and> processed_docs (SimpleInsuranceRAGSystem_process_pdfs working_externals 512 empty_state
       [partial_file])
       ''partial.pdf'' \<noteq> None
   \<and> logged (SimpleInsuranceRAGSystem_process_pdfs working_externals 512 empty_state
       [scan_file])
     = [Info_processing ''scan.pdf'',
        Error_extracting ''Training_pdfs/scan.pdf'' (ExternalError ''tables unreadable''),
        Info_success ''scan.pdf'' 1]
   \<and> processed_docs (SimpleInsuranceRAGSystem_process_pdfs working_externals 512 empty_state
       [scan_file])
       ''scan.pdf'' \<noteq> None
   \<and> logged (SimpleInsuranceRAGSystem_process_pdfs working_externals 512 empty_state
       [tables_file])
     = [Info_processing ''tables.pdf'',
        Error_extracting ''Training_pdfs/tables.pdf'' TypeError,
        Info_success ''tables.pdf'' 1]
   \<and> processed_docs (SimpleInsuranceRAGSystem_process_pdfs working_externals 512 empty_state
       [tables_file])
       ''tables.pdf'' \<noteq> None
   \<and> outcomes (logged (SimpleInsuranceRAGSystem_process_pdfs demo_externals 512 empty_state
       [broken_file, damaged_file, policy_file]))
     = [''broken.pdf'', ''damaged.pdf'', ''policy.pdf'']
   \<and> InsuranceRAGSystem_process_pdfs demo_externals 512 empty_state [policy_file]
     = empty_state\<lparr>logged := [Info_processing ''policy.pdf'', Warning_tabula (ExternalError
         ''tabula''),
    Warning_camelot (ExternalError ''camelot''),
         Error_processing ''policy.pdf'' (ExternalError ''model unavailable'')]\<rparr>
   \<and> InsuranceRAGSystem_process_pdfs no_splitter_externals 1 empty_state [policy_file]
     = empty_state\<lparr>logged := [Info_processing ''policy.pdf'', Warning_tabula (ExternalError
         ''tabula''),
    Warning_camelot (ExternalError ''camelot''),
         Error_processing ''policy.pdf'' (ExternalError ''spacy'')]\<rparr>
   \<and> InsuranceRAGSystem_process_pdfs no_store_externals 512 empty_state [policy_file]
     = empty_state\<lparr>logged := [Info_processing ''policy.pdf'', Warning_tabula (ExternalError
         ''tabula''),
    Warning_camelot (ExternalError ''camelot''),
         Error_processing ''policy.pdf'' (ExternalError ''store'')]\<rparr>
   \<and> logged (InsuranceRAGSystem_process_pdfs no_stat_externals 512 empty_state [policy_file])
     = [Info_processing ''policy.pdf'', Warning_tabula (ExternalError ''tabula''),
    Warning_camelot (ExternalError ''camelot''),
        Error_processing ''policy.pdf'' (ExternalError ''stat'')]
   \<and> processed_docs (InsuranceRAGSystem_process_pdfs no_stat_externals 512 empty_state
       [policy_file])
       ''policy.pdf'' = None
   \<and> length (collection (InsuranceRAGSystem_process_pdfs no_stat_externals 512 empty_state
       [policy_file])) = 1
   \<and> last (logged (InsuranceRAGSystem_process_pdfs demo_externals 512 empty_state
       [damaged_file]))
     = Error_processing ''damaged.pdf'' (ExternalError ''PSEOF'')
   \<and> processed_docs (InsuranceRAGSystem_process_pdfs demo_externals 512 empty_state
       [damaged_file])
       ''damaged.pdf'' = None
   \<and> logged (InsuranceRAGSystem_process_pdfs demo_externals 512 empty_state [broken_file])
     = [Info_processing ''broken.pdf'', Warning_tabula (ExternalError ''tabula''),
    Warning_camelot (ExternalError ''camelot''),
        Warning_pdfplumber (ExternalError ''PDFSyntaxError''),
        Error_extracting ''Training_pdfs/broken.pdf'' (ExternalError ''PDFSyntaxError''),
        Info_success ''broken.pdf'' 0]
   \<and> logged (InsuranceRAGSystem_process_pdfs working_externals 512 empty_state [partial_file])
     = [Info_processing ''partial.pdf'', Warning_tabula (ExternalError ''tabula''),
    Warning_camelot (ExternalError ''camelot''),
        Error_extracting ''Training_pdfs/partial.pdf'' (ExternalError ''page unreadable''),
        Info_success ''partial.pdf'' 1]
   \<and> processed_docs (InsuranceRAGSystem_process_pdfs working_externals 512 empty_state
       [partial_file])
       ''partial.pdf'' \<noteq> None
   \<and> extract_tables_from_pdf (\<lambda>path. Inl (ExternalError ''tabula''))
       (\<lambda>path. Inl (ExternalError ''camelot'')) demo_open ''Training_pdfs/scan.pdf''
       [Info_processing ''scan.pdf'']
     = ([], [Info_processing ''scan.pdf'', Warning_tabula (ExternalError ''tabula''),
    Warning_camelot (ExternalError ''camelot''),
             Warning_pdfplumber (ExternalError ''tables unreadable'')])
   \<and> extract_tables_from_pdf (\<lambda>path. Inl (ExternalError ''tabula''))
       (\<lambda>path. Inl (ExternalError ''camelot'')) demo_open ''Training_pdfs/tables.pdf''
       [Info_processing ''tables.pdf'']
     = ([], [Info_processing ''tables.pdf'', Warning_tabula (ExternalError ''tabula''),
    Warning_camelot (ExternalError ''camelot''),
             Warning_pdfplumber TypeError])
   \<and> logged (InsuranceRAGSystem_process_pdfs working_externals 512 empty_state [scan_file])
     = [Info_processing ''scan.pdf'', Warning_tabula (ExternalError ''tabula''),
    Warning_camelot (ExternalError ''camelot''),
        Warning_pdfplumber (ExternalError ''tables unreadable''),
        Info_success ''scan.pdf'' 1]
   \<and> processed_docs (InsuranceRAGSystem_process_pdfs working_externals 512 empty_state
       [scan_file])
       ''scan.pdf'' \<noteq> None
   \<and> logged (InsuranceRAGSystem_process_pdfs working_externals 512 empty_state [tables_file])
     = [Info_processing ''tables.pdf'', Warning_tabula (ExternalError ''tabula''),
    Warning_camelot (ExternalError ''camelot''),
        Warning_pdfplumber TypeError,
        Info_success ''tables.pdf'' 1]
   \<and> processed_docs (InsuranceRAGSystem_process_pdfs working_externals 512 empty_state
       [tables_file])
       ''tables.pdf'' \<noteq> None
   \<and> extract_tables_from_pdf (\<lambda>path. Inl (ExternalError ''tabula''))
       (\<lambda>path. Inl (ExternalError ''camelot'')) demo_open ''Training_pdfs/broken.pdf''
       [Info_processing ''broken.pdf'']
     = ([], [Info_processing ''broken.pdf'', Warning_tabula (ExternalError ''tabula''),
    Warning_camelot (ExternalError ''camelot''),
             Warning_pdfplumber (ExternalError ''PDFSyntaxError'')])
   \<and> extract_text_with_structure (\<lambda>path. Inl (ExternalError ''tabula''))
       (\<lambda>path. Inl (ExternalError ''camelot'')) demo_open ''Training_pdfs/broken.pdf''
       [Info_processing ''broken.pdf'']
     = (Inr \<lparr>text_content = [], tables = [], total_pages = 0\<rparr>,
        [Info_processing ''broken.pdf'', Warning_tabula (ExternalError ''tabula''),
    Warning_camelot (ExternalError ''camelot''),
         Warning_pdfplumber (ExternalError ''PDFSyntaxError''),
         Error_extracting ''Training_pdfs/broken.pdf'' (ExternalError ''PDFSyntaxError'')])"
proof -
  let ?s_demo = "demo_externals
      :: (nat, unit, (nat, features) store_entry list) externals"
  let ?s_working = "working_externals
      :: (nat, unit, (nat, features) store_entry list) externals"
  let ?s_no_splitter = "no_splitter_externals
      :: (nat, unit, (nat, features) store_entry list) externals"
  let ?s_no_store = "no_store_externals
      :: (nat, unit, (nat, features) store_entry list) externals"
  let ?s_no_stat = "no_stat_externals
      :: (nat, unit, (nat, features) store_entry list) externals"
  let ?s_empty = "empty_state
      :: (nat, features, (nat, features) store_entry list) rag_state"
  let ?p_demo = "demo_externals
      :: (nat, unit full_features_ext, (nat, full_features) store_entry list) externals"
  let ?p_working = "working_externals
      :: (nat, unit full_features_ext, (nat, full_features) store_entry list) externals"
  let ?p_no_splitter = "no_splitter_externals
      :: (nat, unit full_features_ext, (nat, full_features) store_entry list) externals"
  let ?p_no_store = "no_store_externals
      :: (nat, unit full_features_ext, (nat, full_features) store_entry list) externals"
  let ?p_no_stat = "no_stat_externals
      :: (nat, unit full_features_ext, (nat, full_features) store_entry list) externals"
  let ?p_empty = "empty_state
      :: (nat, full_features, (nat, full_features) store_entry list) rag_state"
  from coverage_embedded obtain x y where
    x: "create_embeddings (\<lambda>t. Inr (length t)) [coverage_chunk] = Inr [x]"
    and y: "create_enhanced_embeddings (\<lambda>t. Inr (length t)) [coverage_chunk] = Inr [y]"
    by blast
  from process_pdfs_failures
      [where env = ?s_demo and st = ?s_empty and csize = 512 and f = policy_file
         and extracted = "\<lparr>text_content = [coverage_item], tables = [], total_pages = 1\<rparr>"
         and lg = "[Info_processing ''policy.pdf'']" and chunks = "[coverage_chunk]",
       THEN conjunct2, THEN conjunct2, THEN conjunct2, THEN conjunct2, THEN conjunct2,
       THEN conjunct2, THEN conjunct2, THEN conjunct2, THEN conjunct1]
  have s_embedding: "SimpleInsuranceRAGSystem_process_pdfs ?s_demo 512 ?s_empty [policy_file]
        = empty_state\<lparr>logged := [Info_processing ''policy.pdf'',
            Error_processing ''policy.pdf'' (ExternalError ''model unavailable'')]\<rparr>"
    by (simp add: externals_fields file_fields empty_state_def demo_open_paths demo_pdfs
        policy_pdf_extracted policy_pdf_extracted_with_structure coverage_chunks
        coverage_page_lines coverage_page_extracted premium_table_row readers_fail no_pages
        del: extract_pages.simps extract_page_texts.simps plumber_pages.simps)
  from process_pdfs_failures
      [where env = ?s_no_splitter and st = ?s_empty and csize = 1 and f = policy_file
         and extracted = "\<lparr>text_content = [coverage_item], tables = [], total_pages = 1\<rparr>"
         and lg = "[Info_processing ''policy.pdf'']" and e = "ExternalError ''spacy''",
       THEN conjunct2, THEN conjunct2, THEN conjunct2, THEN conjunct2, THEN conjunct2,
       THEN conjunct2, THEN conjunct2, THEN conjunct1]
  have s_chunking: "SimpleInsuranceRAGSystem_process_pdfs ?s_no_splitter 1 ?s_empty
      [policy_file]
        = empty_state\<lparr>logged := [Info_processing ''policy.pdf'',
            Error_processing ''policy.pdf'' (ExternalError ''spacy'')]\<rparr>"
    by (simp add: externals_fields file_fields empty_state_def demo_open_paths demo_pdfs
        policy_pdf_extracted policy_pdf_extracted_with_structure coverage_chunks
        coverage_page_lines coverage_page_extracted premium_table_row readers_fail no_pages
        del: extract_pages.simps extract_page_texts.simps plumber_pages.simps)
  from process_pdfs_failures
      [where env = ?s_no_store and st = ?s_empty and csize = 512 and f = policy_file
         and extracted = "\<lparr>text_content = [coverage_item], tables = [], total_pages = 1\<rparr>"
         and lg = "[Info_processing ''policy.pdf'']" and chunks = "[coverage_chunk]"
         and enhanced = "[x]" and coll = "[]" and e = "ExternalError ''store''",
       THEN conjunct2, THEN conjunct2, THEN conjunct2, THEN conjunct2, THEN conjunct2,
       THEN conjunct2, THEN conjunct2, THEN conjunct2, THEN conjunct2, THEN conjunct1]
    x
  have s_storing: "SimpleInsuranceRAGSystem_process_pdfs ?s_no_store 512 ?s_empty [policy_file]
        = empty_state\<lparr>logged := [Info_processing ''policy.pdf'',
            Error_processing ''policy.pdf'' (ExternalError ''store'')]\<rparr>"
    by (simp add: externals_fields file_fields empty_state_def demo_open_paths demo_pdfs
        policy_pdf_extracted policy_pdf_extracted_with_structure coverage_chunks
        coverage_page_lines coverage_page_extracted premium_table_row readers_fail no_pages
        del: extract_pages.simps extract_page_texts.simps plumber_pages.simps)
  from process_pdfs_failures
      [where env = ?s_no_stat and st = ?s_empty and csize = 512 and f = policy_file
         and extracted = "\<lparr>text_content = [coverage_item], tables = [], total_pages = 1\<rparr>"
         and lg = "[Info_processing ''policy.pdf'']" and chunks = "[coverage_chunk]"
         and enhanced = "[x]" and coll = "[store_entry_of ''policy.pdf'' 0 x]"
         and e = "ExternalError ''stat''",
       THEN conjunct2, THEN conjunct2, THEN conjunct2, THEN conjunct2, THEN conjunct2,
       THEN conjunct2, THEN conjunct2, THEN conjunct2, THEN conjunct2, THEN conjunct2,
       THEN conjunct1]
    x
  have s_file_size: "logged (SimpleInsuranceRAGSystem_process_pdfs ?s_no_stat 512 ?s_empty
      [policy_file])
        = [Info_processing ''policy.pdf'',
           Error_processing ''policy.pdf'' (ExternalError ''stat'')]"
    and s_file_size_registry: "processed_docs (SimpleInsuranceRAGSystem_process_pdfs ?s_no_stat
        512 ?s_empty [policy_file])
          ''policy.pdf'' = None"
    and s_file_size_stored: "length (collection (SimpleInsuranceRAGSystem_process_pdfs
        ?s_no_stat 512 ?s_empty [policy_file])) = 1"
    by (simp_all add: externals_fields file_fields empty_state_def demo_open_paths demo_pdfs
        policy_pdf_extracted policy_pdf_extracted_with_structure coverage_chunks
        coverage_page_lines coverage_page_extracted premium_table_row readers_fail no_pages
        del: extract_pages.simps extract_page_texts.simps plumber_pages.simps)
  from process_pdfs_failures
      [where env = ?s_demo and st = ?s_empty and csize = 512 and f = damaged_file
         and pdf = damaged_pdf and e = "ExternalError ''PSEOF''",
       THEN conjunct2, THEN conjunct2, THEN conjunct2, THEN conjunct2, THEN conjunct2,
       THEN conjunct2, THEN conjunct1]
  have s_propagated: "last (logged (SimpleInsuranceRAGSystem_process_pdfs ?s_demo 512 ?s_empty
      [damaged_file]))
        = Error_processing ''damaged.pdf'' (ExternalError ''PSEOF'')"
    and s_propagated_registry: "processed_docs (SimpleInsuranceRAGSystem_process_pdfs ?s_demo
        512 ?s_empty [damaged_file])
          ''damaged.pdf'' = None"
    by (simp_all add: externals_fields file_fields empty_state_def demo_open_paths demo_pdfs
        policy_pdf_extracted policy_pdf_extracted_with_structure coverage_chunks
        coverage_page_lines coverage_page_extracted premium_table_row readers_fail no_pages
        del: extract_pages.simps extract_page_texts.simps plumber_pages.simps)
  from process_pdfs_failures
      [where env = ?s_demo and st = ?s_empty and csize = 512 and f = broken_file
         and e = "ExternalError ''PDFSyntaxError''" and file_size = 2048,
       THEN conjunct2, THEN conjunct2, THEN conjunct2, THEN conjunct2, THEN conjunct2,
       THEN conjunct2, THEN conjunct2, THEN conjunct2, THEN conjunct2, THEN conjunct2,
       THEN conjunct2, THEN conjunct2, THEN conjunct1]
  have s_caught: "logged (SimpleInsuranceRAGSystem_process_pdfs ?s_demo 512 ?s_empty
      [broken_file])
        = [Info_processing ''broken.pdf'',
           Error_extracting ''Training_pdfs/broken.pdf'' (ExternalError ''PDFSyntaxError''),
           Info_success ''broken.pdf'' 0]"
    by (simp add: externals_fields file_fields empty_state_def demo_open_paths demo_pdfs
        policy_pdf_extracted policy_pdf_extracted_with_structure coverage_chunks
        coverage_page_lines coverage_page_extracted premium_table_row readers_fail no_pages
        del: extract_pages.simps extract_page_texts.simps plumber_pages.simps)
  from process_pdfs_failures
      [where env = ?s_working and st = ?s_empty and csize = 512 and f = partial_file
         and pdf = partial_pdf and earlier = "[coverage_page]" and p = unreadable_page
         and later = "[]" and n = 2 and collected = "[coverage_item]" and found = "[]"
         and e = "ExternalError ''page unreadable''",
       THEN conjunct2, THEN conjunct2, THEN conjunct2, THEN conjunct2, THEN conjunct2,
       THEN conjunct2, THEN conjunct2, THEN conjunct2, THEN conjunct2, THEN conjunct2,
       THEN conjunct2, THEN conjunct2, THEN conjunct2, THEN conjunct1]
  have s_partial_extracted: "extract_text_from_pdf (ext_pdf_open ?s_working) (file_path
      partial_file)
            (logged ?s_empty @ [Info_processing (file_name partial_file)])
        = (Inr \<lparr>text_content = [coverage_item], tables = [], total_pages = 2\<rparr>,
           (logged ?s_empty @ [Info_processing (file_name partial_file)])
             @ [Error_extracting (file_path partial_file) (ExternalError ''page unreadable'')])"
    by (simp add: externals_fields file_fields empty_state_def demo_open_paths demo_pdfs
        policy_pdf_extracted policy_pdf_extracted_with_structure coverage_chunks
        coverage_page_lines coverage_page_extracted premium_table_row readers_fail no_pages
        del: extract_pages.simps extract_page_texts.simps plumber_pages.simps)
  from process_pdfs_failures
      [where env = ?s_working and st = ?s_empty and csize = 512 and f = partial_file
         and extracted = "\<lparr>text_content = [coverage_item], tables = [], total_pages = 2\<rparr>"
         and lg = "[Info_processing ''partial.pdf'', Error_extracting
             ''Training_pdfs/partial.pdf'' (ExternalError ''page unreadable'')]"
         and chunks = "[coverage_chunk]" and enhanced = "[x]"
         and coll = "[store_entry_of ''partial.pdf'' 0 x]" and file_size = 2048,
       THEN conjunct2, THEN conjunct2, THEN conjunct2, THEN conjunct2, THEN conjunct2,
       THEN conjunct2, THEN conjunct2, THEN conjunct2, THEN conjunct2, THEN conjunct2,
       THEN conjunct2, THEN conjunct1]
    x s_partial_extracted
  have s_partial: "logged (SimpleInsuranceRAGSystem_process_pdfs ?s_working 512 ?s_empty
      [partial_file])
        = [Info_processing ''partial.pdf'',
           Error_extracting ''Training_pdfs/partial.pdf'' (ExternalError ''page unreadable''),
           Info_success ''partial.pdf'' 1]"
    and s_partial_registry: "processed_docs (SimpleInsuranceRAGSystem_process_pdfs ?s_working
        512 ?s_empty [partial_file])
          ''partial.pdf'' \<noteq> None"
    by (simp_all add: externals_fields file_fields empty_state_def demo_open_paths demo_pdfs
        policy_pdf_extracted policy_pdf_extracted_with_structure coverage_chunks
        coverage_page_lines coverage_page_extracted premium_table_row readers_fail no_pages
        del: extract_pages.simps extract_page_texts.simps plumber_pages.simps)
  from process_pdfs_failures
      [where env = ?s_working and st = ?s_empty and csize = 512 and f = scan_file
         and pdf = scan_pdf and earlier = "[]" and p = scan_page and later = "[]" and n = 1
         and collected = "[]" and found = "[]" and page_txt = "Some ''Coverage applies.''"
         and e = "ExternalError ''tables unreadable''",
       THEN conjunct2, THEN conjunct2, THEN conjunct2, THEN conjunct2, THEN conjunct2,
       THEN conjunct2, THEN conjunct2, THEN conjunct2, THEN conjunct2, THEN conjunct2,
       THEN conjunct2, THEN conjunct2, THEN conjunct2, THEN conjunct2, THEN conjunct1]
  have s_scan_extracted: "extract_text_from_pdf (ext_pdf_open ?s_working) (file_path scan_file)
            (logged ?s_empty @ [Info_processing (file_name scan_file)])
        = (Inr \<lparr>text_content = [coverage_item], tables = [], total_pages = 1\<rparr>,
           (logged ?s_empty @ [Info_processing (file_name scan_file)])
             @ [Error_extracting (file_path scan_file) (ExternalError ''tables unreadable'')])"
    by (simp add: externals_fields file_fields empty_state_def demo_open_paths demo_pdfs
        policy_pdf_extracted policy_pdf_extracted_with_structure coverage_chunks
        coverage_page_lines coverage_page_extracted premium_table_row readers_fail no_pages
        del: extract_pages.simps extract_page_texts.simps plumber_pages.simps)
  from process_pdfs_failures
      [where env = ?s_working and st = ?s_empty and csize = 512 and f = scan_file
         and extracted = "\<lparr>text_content = [coverage_item], tables = [], total_pages = 1\<rparr>"
         and lg = "[Info_processing ''scan.pdf'', Error_extracting ''Training_pdfs/scan.pdf''
             (ExternalError ''tables unreadable'')]"
         and chunks = "[coverage_chunk]" and enhanced = "[x]"
         and coll = "[store_entry_of ''scan.pdf'' 0 x]" and file_size = 2048,
       THEN conjunct2, THEN conjunct2, THEN conjunct2, THEN conjunct2, THEN conjunct2,
       THEN conjunct2, THEN conjunct2, THEN conjunct2, THEN conjunct2, THEN conjunct2,
       THEN conjunct2, THEN conjunct1]
    x s_scan_extracted
  have s_scan: "logged (SimpleInsuranceRAGSystem_process_pdfs ?s_working 512 ?s_empty
      [scan_file])
        = [Info_processing ''scan.pdf'',
           Error_extracting ''Training_pdfs/scan.pdf'' (ExternalError ''tables unreadable''),
           Info_success ''scan.pdf'' 1]"
    and s_scan_registry: "processed_docs (SimpleInsuranceRAGSystem_process_pdfs ?s_working 512
        ?s_empty [scan_file])
          ''scan.pdf'' \<noteq> None"
    by (simp_all add: externals_fields file_fields empty_state_def demo_open_paths demo_pdfs
        policy_pdf_extracted policy_pdf_extracted_with_structure coverage_chunks
        coverage_page_lines coverage_page_extracted premium_table_row readers_fail no_pages
        del: extract_pages.simps extract_page_texts.simps plumber_pages.simps)
  from process_pdfs_failures
      [where env = ?s_working and st = ?s_empty and csize = 512 and f = tables_file
         and pdf = tables_pdf and earlier = "[]" and p = tables_page and later = "[]"
         and n = 1 and collected = "[]" and found = "[]"
         and page_txt = "Some ''Coverage applies.''" and tabs_earlier = "[]"
         and t = premium_table and tabs_later = "[]" and found_more = "[]"
         and row = "[Some ''A'', None]",
       THEN conjunct2, THEN conjunct2, THEN conjunct2, THEN conjunct2, THEN conjunct2,
       THEN conjunct2, THEN conjunct2, THEN conjunct2, THEN conjunct2, THEN conjunct2,
       THEN conjunct2, THEN conjunct2, THEN conjunct2, THEN conjunct2, THEN conjunct2,
       THEN conjunct1]
  have s_tables_extracted: "extract_text_from_pdf (ext_pdf_open ?s_working) (file_path
      tables_file)
            (logged ?s_empty @ [Info_processing (file_name tables_file)])
        = (Inr \<lparr>text_content = [coverage_item], tables = [], total_pages = 1\<rparr>,
           (logged ?s_empty @ [Info_processing (file_name tables_file)])
             @ [Error_extracting (file_path tables_file) TypeError])"
    by (simp add: externals_fields file_fields empty_state_def demo_open_paths demo_pdfs
        policy_pdf_extracted policy_pdf_extracted_with_structure coverage_chunks
        coverage_page_lines coverage_page_extracted premium_table_row readers_fail no_pages
        del: extract_pages.simps extract_page_texts.simps plumber_pages.simps)
  from process_pdfs_failures
      [where env = ?s_working and st = ?s_empty and csize = 512 and f = tables_file
         and extracted = "\<lparr>text_content = [coverage_item], tables = [], total_pages = 1\<rparr>"
         and lg = "[Info_processing ''tables.pdf'', Error_extracting
             ''Training_pdfs/tables.pdf'' TypeError]"
         and chunks = "[coverage_chunk]" and enhanced = "[x]"
         and coll = "[store_entry_of ''tables.pdf'' 0 x]" and file_size = 2048,
       THEN conjunct2, THEN conjunct2, THEN conjunct2, THEN conjunct2, THEN conjunct2,
       THEN conjunct2, THEN conjunct2, THEN conjunct2, THEN conjunct2, THEN conjunct2,
       THEN conjunct2, THEN conjunct1]
    x s_tables_extracted
  have s_tables: "logged (SimpleInsuranceRAGSystem_process_pdfs ?s_working 512 ?s_empty
      [tables_file])
        = [Info_processing ''tables.pdf'',
           Error_extracting ''Training_pdfs/tables.pdf'' TypeError,
           Info_success ''tables.pdf'' 1]"
    and s_tables_registry: "processed_docs (SimpleInsuranceRAGSystem_process_pdfs ?s_working 512
        ?s_empty [tables_file])
          ''tables.pdf'' \<noteq> None"
    by (simp_all add: externals_fields file_fields empty_state_def demo_open_paths demo_pdfs
        policy_pdf_extracted policy_pdf_extracted_with_structure coverage_chunks
        coverage_page_lines coverage_page_extracted premium_table_row readers_fail no_pages
        del: extract_pages.simps extract_page_texts.simps plumber_pages.simps)
  from process_pdfs_failures
      [where env = ?s_demo and st = ?s_empty and csize = 512 and f = policy_file
         and files = "[broken_file, damaged_file, policy_file]",
       THEN conjunct2, THEN conjunct2, THEN conjunct1]
    outcomes_simps
  have s_batch: "outcomes (logged (SimpleInsuranceRAGSystem_process_pdfs ?s_demo 512 ?s_empty
      [broken_file, damaged_file, policy_file]))
        = [''broken.pdf'', ''damaged.pdf'', ''policy.pdf'']"
    by (simp add: externals_fields file_fields empty_state_def demo_open_paths demo_pdfs
        policy_pdf_extracted policy_pdf_extracted_with_structure coverage_chunks
        coverage_page_lines coverage_page_extracted premium_table_row readers_fail no_pages
        del: extract_pages.simps extract_page_texts.simps plumber_pages.simps)
  from process_pdfs_failures
      [where penv = ?p_demo and pst = ?p_empty and csize = 512 and f = policy_file
         and pextracted = "\<lparr>text_content = [coverage_item], tables = [], total_pages = 1\<rparr>"
         and plg = "[Info_processing ''policy.pdf'', Warning_tabula (ExternalError ''tabula''),
 Warning_camelot (ExternalError ''camelot'')]"
         and pchunks = "[coverage_chunk]",
       THEN conjunct2, THEN conjunct2, THEN conjunct2, THEN conjunct2, THEN conjunct2,
       THEN conjunct2, THEN conjunct2, THEN conjunct2, THEN conjunct2, THEN conjunct2,
       THEN conjunct2, THEN conjunct2, THEN conjunct2, THEN conjunct2, THEN conjunct2,
       THEN conjunct2, THEN conjunct2, THEN conjunct2, THEN conjunct2, THEN conjunct2,
       THEN conjunct2, THEN conjunct2, THEN conjunct2, THEN conjunct2, THEN conjunct1]
  have p_embedding: "InsuranceRAGSystem_process_pdfs ?p_demo 512 ?p_empty [policy_file]
        = empty_state\<lparr>logged := [Info_processing ''policy.pdf'', Warning_tabula (ExternalError
            ''tabula''),
       Warning_camelot (ExternalError ''camelot''),
            Error_processing ''policy.pdf'' (ExternalError ''model unavailable'')]\<rparr>"
    by (simp add: externals_fields file_fields empty_state_def demo_open_paths demo_pdfs
        policy_pdf_extracted policy_pdf_extracted_with_structure coverage_chunks
        coverage_page_lines coverage_page_extracted premium_table_row readers_fail no_pages
        del: extract_pages.simps extract_page_texts.simps plumber_pages.simps)
  from process_pdfs_failures
      [where penv = ?p_no_splitter and pst = ?p_empty and csize = 1 and f = policy_file
         and pextracted = "\<lparr>text_content = [coverage_item], tables = [], total_pages = 1\<rparr>"
         and plg = "[Info_processing ''policy.pdf'', Warning_tabula (ExternalError ''tabula''),
 Warning_camelot (ExternalError ''camelot'')]"
         and e = "ExternalError ''spacy''",
       THEN conjunct2, THEN conjunct2, THEN conjunct2, THEN conjunct2, THEN conjunct2,
       THEN conjunct2, THEN conjunct2, THEN conjunct2, THEN conjunct2, THEN conjunct2,
       THEN conjunct2, THEN conjunct2, THEN conjunct2, THEN conjunct2, THEN conjunct2,
       THEN conjunct2, THEN conjunct2, THEN conjunct2, THEN conjunct2, THEN conjunct2,
       THEN conjunct2, THEN conjunct2, THEN conjunct2, THEN conjunct1]
  have p_chunking: "InsuranceRAGSystem_process_pdfs ?p_no_splitter 1 ?p_empty [policy_file]
        = empty_state\<lparr>logged := [Info_processing ''policy.pdf'', Warning_tabula (ExternalError
            ''tabula''),
       Warning_camelot (ExternalError ''camelot''),
            Error_processing ''policy.pdf'' (ExternalError ''spacy'')]\<rparr>"
    by (simp add: externals_fields file_fields empty_state_def demo_open_paths demo_pdfs
        policy_pdf_extracted policy_pdf_extracted_with_structure coverage_chunks
        coverage_page_lines coverage_page_extracted premium_table_row readers_fail no_pages
        del: extract_pages.simps extract_page_texts.simps plumber_pages.simps)
  from process_pdfs_failures
      [where penv = ?p_no_store and pst = ?p_empty and csize = 512 and f = policy_file
         and pextracted = "\<lparr>text_content = [coverage_item], tables = [], total_pages = 1\<rparr>"
         and plg = "[Info_processing ''policy.pdf'', Warning_tabula (ExternalError ''tabula''),
 Warning_camelot (ExternalError ''camelot'')]"
         and pchunks = "[coverage_chunk]" and penhanced = "[y]" and pcoll = "[]"
         and e = "ExternalError ''store''",
       THEN conjunct2, THEN conjunct2, THEN conjunct2, THEN conjunct2, THEN conjunct2,
       THEN conjunct2, THEN conjunct2, THEN conjunct2, THEN conjunct2, THEN conjunct2,
       THEN conjunct2, THEN conjunct2, THEN conjunct2, THEN conjunct2, THEN conjunct2,
       THEN conjunct2, THEN conjunct2, THEN conjunct2, THEN conjunct2, THEN conjunct2,
       THEN conjunct2, THEN conjunct2, THEN conjunct2, THEN conjunct2, THEN conjunct2,
       THEN conjunct1]
    y
  have p_storing: "InsuranceRAGSystem_process_pdfs ?p_no_store 512 ?p_empty [policy_file]
        = empty_state\<lparr>logged := [Info_processing ''policy.pdf'', Warning_tabula (ExternalError
            ''tabula''),
       Warning_camelot (ExternalError ''camelot''),
            Error_processing ''policy.pdf'' (ExternalError ''store'')]\<rparr>"
    by (simp add: externals_fields file_fields empty_state_def demo_open_paths demo_pdfs
        policy_pdf_extracted policy_pdf_extracted_with_structure coverage_chunks
        coverage_page_lines coverage_page_extracted premium_table_row readers_fail no_pages
        del: extract_pages.simps extract_page_texts.simps plumber_pages.simps)
  from process_pdfs_failures
      [where penv = ?p_no_stat and pst = ?p_empty and csize = 512 and f = policy_file
         and pextracted = "\<lparr>text_content = [coverage_item], tables = [], total_pages = 1\<rparr>"
         and plg = "[Info_processing ''policy.pdf'', Warning_tabula (ExternalError ''tabula''),
 Warning_camelot (ExternalError ''camelot'')]"
         and pchunks = "[coverage_chunk]" and penhanced = "[y]"
         and pcoll = "[store_entry_of ''policy.pdf'' 0 y]" and e = "ExternalError ''stat''",
       THEN conjunct2, THEN conjunct2, THEN conjunct2, THEN conjunct2, THEN conjunct2,
       THEN conjunct2, THEN conjunct2, THEN conjunct2, THEN conjunct2, THEN conjunct2,
       THEN conjunct2, THEN conjunct2, THEN conjunct2, THEN conjunct2, THEN conjunct2,
       THEN conjunct2, THEN conjunct2, THEN conjunct2, THEN conjunct2, THEN conjunct2,
       THEN conjunct2, THEN conjunct2, THEN conjunct2, THEN conjunct2, THEN conjunct2,
       THEN conjunct2, THEN conjunct1]
    y
  have p_file_size: "logged (InsuranceRAGSystem_process_pdfs ?p_no_stat 512 ?p_empty
      [policy_file])
        = [Info_processing ''policy.pdf'', Warning_tabula (ExternalError ''tabula''),
       Warning_camelot (ExternalError ''camelot''),
           Error_processing ''policy.pdf'' (ExternalError ''stat'')]"
    and p_file_size_registry: "processed_docs (InsuranceRAGSystem_process_pdfs ?p_no_stat 512
        ?p_empty [policy_file])
          ''policy.pdf'' = None"
    and p_file_size_stored: "length (collection (InsuranceRAGSystem_process_pdfs ?p_no_stat 512
        ?p_empty [policy_file])) = 1"
    by (simp_all add: externals_fields file_fields empty_state_def demo_open_paths demo_pdfs
        policy_pdf_extracted policy_pdf_extracted_with_structure coverage_chunks
        coverage_page_lines coverage_page_extracted premium_table_row readers_fail no_pages
        del: extract_pages.simps extract_page_texts.simps plumber_pages.simps)
  from process_pdfs_failures
      [where penv = ?p_demo and pst = ?p_empty and csize = 512 and f = damaged_file
         and pdf = damaged_pdf and e = "ExternalError ''PSEOF''",
       THEN conjunct2, THEN conjunct2, THEN conjunct2, THEN conjunct2, THEN conjunct2,
       THEN conjunct2, THEN conjunct2, THEN conjunct2, THEN conjunct2, THEN conjunct2,
       THEN conjunct2, THEN conjunct2, THEN conjunct2, THEN conjunct2, THEN conjunct2,
       THEN conjunct2, THEN conjunct2, THEN conjunct2, THEN conjunct2, THEN conjunct2,
       THEN conjunct2, THEN conjunct2, THEN conjunct1]
  have p_propagated: "last (logged (InsuranceRAGSystem_process_pdfs ?p_demo 512 ?p_empty
      [damaged_file]))
        = Error_processing ''damaged.pdf'' (ExternalError ''PSEOF'')"
    and p_propagated_registry: "processed_docs (InsuranceRAGSystem_process_pdfs ?p_demo 512
        ?p_empty [damaged_file])
          ''damaged.pdf'' = None"
    by (simp_all add: externals_fields file_fields empty_state_def demo_open_paths demo_pdfs
        policy_pdf_extracted policy_pdf_extracted_with_structure coverage_chunks
        coverage_page_lines coverage_page_extracted premium_table_row readers_fail no_pages
        del: extract_pages.simps extract_page_texts.simps plumber_pages.simps)
  from process_pdfs_failures
      [where penv = ?p_demo and pst = ?p_empty and csize = 512 and f = broken_file
         and e = "ExternalError ''PDFSyntaxError''" and file_size = 2048
         and tabula_error = "ExternalError ''tabula''"
         and camelot_error = "ExternalError ''camelot''",
       THEN conjunct2, THEN conjunct2, THEN conjunct2, THEN conjunct2, THEN conjunct2,
       THEN conjunct2, THEN conjunct2, THEN conjunct2, THEN conjunct2, THEN conjunct2,
       THEN conjunct2, THEN conjunct2, THEN conjunct2, THEN conjunct2, THEN conjunct2,
       THEN conjunct2, THEN conjunct2, THEN conjunct2, THEN conjunct2, THEN conjunct2,
       THEN conjunct2, THEN conjunct2, THEN conjunct2, THEN conjunct2, THEN conjunct2,
       THEN conjunct2, THEN conjunct2, THEN conjunct2, THEN conjunct1]
  have p_caught: "logged (InsuranceRAGSystem_process_pdfs ?p_demo 512 ?p_empty [broken_file])
        = [Info_processing ''broken.pdf'', Warning_tabula (ExternalError ''tabula''),
       Warning_camelot (ExternalError ''camelot''),
           Warning_pdfplumber (ExternalError ''PDFSyntaxError''),
           Error_extracting ''Training_pdfs/broken.pdf'' (ExternalError ''PDFSyntaxError''),
           Info_success ''broken.pdf'' 0]"
    by (simp add: externals_fields file_fields empty_state_def demo_open_paths demo_pdfs
        policy_pdf_extracted policy_pdf_extracted_with_structure coverage_chunks
        coverage_page_lines coverage_page_extracted premium_table_row readers_fail no_pages
        del: extract_pages.simps extract_page_texts.simps plumber_pages.simps)
  from process_pdfs_failures
      [where penv = ?p_working and pst = ?p_empty and csize = 512 and f = partial_file
         and pfound = "[]"
         and lg_tables = "[Info_processing ''partial.pdf'', Warning_tabula (ExternalError
             ''tabula''),
 Warning_camelot (ExternalError ''camelot'')]"
         and pdf = partial_pdf and earlier = "[coverage_page]" and p = unreadable_page
         and later = "[]" and n = 2 and collected = "[coverage_item]"
         and e = "ExternalError ''page unreadable''",
       THEN conjunct2, THEN conjunct2, THEN conjunct2, THEN conjunct2, THEN conjunct2,
       THEN conjunct2, THEN conjunct2, THEN conjunct2, THEN conjunct2, THEN conjunct2,
       THEN conjunct2, THEN conjunct2, THEN conjunct2, THEN conjunct2, THEN conjunct2,
       THEN conjunct2, THEN conjunct2, THEN conjunct2, THEN conjunct2, THEN conjunct2,
       THEN conjunct2, THEN conjunct2, THEN conjunct2, THEN conjunct2, THEN conjunct2,
       THEN conjunct2, THEN conjunct2, THEN conjunct2, THEN conjunct2, THEN conjunct2,
       THEN conjunct2, THEN conjunct2, THEN conjunct2, THEN conjunct1]
  have p_partial_extracted: "extract_text_with_structure (ext_tabula_read ?p_working)
            (ext_camelot_read ?p_working) (ext_pdf_open ?p_working) (file_path partial_file)
            (logged ?p_empty @ [Info_processing (file_name partial_file)])
        = (Inr \<lparr>text_content = [coverage_item], tables = [], total_pages = 2\<rparr>,
           [Info_processing ''partial.pdf'', Warning_tabula (ExternalError ''tabula''),
       Warning_camelot (ExternalError ''camelot'')] @ [Error_extracting (file_path partial_file)
           (ExternalError ''page unreadable'')])"
    by (simp add: externals_fields file_fields empty_state_def demo_open_paths demo_pdfs
        policy_pdf_extracted policy_pdf_extracted_with_structure coverage_chunks
        coverage_page_lines coverage_page_extracted premium_table_row readers_fail no_pages
        del: extract_pages.simps extract_page_texts.simps plumber_pages.simps)
  from process_pdfs_failures
      [where penv = ?p_working and pst = ?p_empty and csize = 512 and f = partial_file
         and pextracted = "\<lparr>text_content = [coverage_item], tables = [], total_pages = 2\<rparr>"
         and plg = "[Info_processing ''partial.pdf'', Warning_tabula (ExternalError ''tabula''),
 Warning_camelot (ExternalError ''camelot''), Error_extracting ''Training_pdfs/partial.pdf''
     (ExternalError ''page unreadable'')]"
         and pchunks = "[coverage_chunk]" and penhanced = "[y]"
         and pcoll = "[store_entry_of ''partial.pdf'' 0 y]" and file_size = 2048,
       THEN conjunct2, THEN conjunct2, THEN conjunct2, THEN conjunct2, THEN conjunct2,
       THEN conjunct2, THEN conjunct2, THEN conjunct2, THEN conjunct2, THEN conjunct2,
       THEN conjunct2, THEN conjunct2, THEN conjunct2, THEN conjunct2, THEN conjunct2,
       THEN conjunct2, THEN conjunct2, THEN conjunct2, THEN conjunct2, THEN conjunct2,
       THEN conjunct2, THEN conjunct2, THEN conjunct2, THEN conjunct2, THEN conjunct2,
       THEN conjunct2, THEN conjunct2, THEN conjunct1]
    y p_partial_extracted
  have p_partial: "logged (InsuranceRAGSystem_process_pdfs ?p_working 512 ?p_empty
      [partial_file])
        = [Info_processing ''partial.pdf'', Warning_tabula (ExternalError ''tabula''),
       Warning_camelot (ExternalError ''camelot''),
           Error_extracting ''Training_pdfs/partial.pdf'' (ExternalError ''page unreadable''),
           Info_success ''partial.pdf'' 1]"
    and p_partial_registry: "processed_docs (InsuranceRAGSystem_process_pdfs ?p_working 512
        ?p_empty [partial_file])
          ''partial.pdf'' \<noteq> None"
    by (simp_all add: externals_fields file_fields empty_state_def demo_open_paths demo_pdfs
        policy_pdf_extracted policy_pdf_extracted_with_structure coverage_chunks
        coverage_page_lines coverage_page_extracted premium_table_row readers_fail no_pages
        del: extract_pages.simps extract_page_texts.simps plumber_pages.simps)
  from process_pdfs_failures
      [where penv = ?p_working and pst = ?p_empty and csize = 512 and f = scan_file
         and found_readers = "[]"
         and lg_readers = "[Info_processing ''scan.pdf'', Warning_tabula (ExternalError
             ''tabula''),
 Warning_camelot (ExternalError ''camelot'')]"
         and pdf = scan_pdf and earlier = "[]" and p = scan_page and later = "[]"
         and pfound = "[]" and e = "ExternalError ''tables unreadable''",
       THEN conjunct2, THEN conjunct2, THEN conjunct2, THEN conjunct2, THEN conjunct2,
       THEN conjunct2, THEN conjunct2, THEN conjunct2, THEN conjunct2, THEN conjunct2,
       THEN conjunct2, THEN conjunct2, THEN conjunct2, THEN conjunct2, THEN conjunct2,
       THEN conjunct2, THEN conjunct2, THEN conjunct2, THEN conjunct2, THEN conjunct2,
       THEN conjunct2, THEN conjunct2, THEN conjunct2, THEN conjunct2, THEN conjunct2,
       THEN conjunct2, THEN conjunct2, THEN conjunct2, THEN conjunct2, THEN conjunct2,
       THEN conjunct1]
  have p_scan_tables: "extract_tables_from_pdf (\<lambda>path. Inl (ExternalError ''tabula''))
          (\<lambda>path. Inl (ExternalError ''camelot'')) demo_open ''Training_pdfs/scan.pdf''
          [Info_processing ''scan.pdf'']
        = ([], [Info_processing ''scan.pdf'', Warning_tabula (ExternalError ''tabula''),
       Warning_camelot (ExternalError ''camelot''),
                Warning_pdfplumber (ExternalError ''tables unreadable'')])"
    by (simp add: externals_fields file_fields empty_state_def demo_open_paths demo_pdfs
        policy_pdf_extracted policy_pdf_extracted_with_structure coverage_chunks
        coverage_page_lines coverage_page_extracted premium_table_row readers_fail no_pages
        del: extract_pages.simps extract_page_texts.simps plumber_pages.simps)
  from process_pdfs_failures
      [where penv = ?p_working and pst = ?p_empty and csize = 512 and f = tables_file
         and found_readers = "[]"
         and lg_readers = "[Info_processing ''tables.pdf'', Warning_tabula (ExternalError
             ''tabula''),
 Warning_camelot (ExternalError ''camelot'')]"
         and pdf = tables_pdf and earlier = "[]" and p = tables_page and later = "[]"
         and pfound = "[]" and tabs_earlier = "[]" and t = premium_table and tabs_later = "[]"
         and pfound_more = "[]" and row = "[Some ''A'', None]",
       THEN conjunct2, THEN conjunct2, THEN conjunct2, THEN conjunct2, THEN conjunct2,
       THEN conjunct2, THEN conjunct2, THEN conjunct2, THEN conjunct2, THEN conjunct2,
       THEN conjunct2, THEN conjunct2, THEN conjunct2, THEN conjunct2, THEN conjunct2,
       THEN conjunct2, THEN conjunct2, THEN conjunct2, THEN conjunct2, THEN conjunct2,
       THEN conjunct2, THEN conjunct2, THEN conjunct2, THEN conjunct2, THEN conjunct2,
       THEN conjunct2, THEN conjunct2, THEN conjunct2, THEN conjunct2, THEN conjunct2,
       THEN conjunct2, THEN conjunct1]
  have p_tables_tables: "extract_tables_from_pdf (\<lambda>path. Inl (ExternalError ''tabula''))
          (\<lambda>path. Inl (ExternalError ''camelot'')) demo_open ''Training_pdfs/tables.pdf''
          [Info_processing ''tables.pdf'']
        = ([], [Info_processing ''tables.pdf'', Warning_tabula (ExternalError ''tabula''),
       Warning_camelot (ExternalError ''camelot''),
                Warning_pdfplumber TypeError])"
    by (simp add: externals_fields file_fields empty_state_def demo_open_paths demo_pdfs
        policy_pdf_extracted policy_pdf_extracted_with_structure coverage_chunks
        coverage_page_lines coverage_page_extracted premium_table_row readers_fail no_pages
        del: extract_pages.simps extract_page_texts.simps plumber_pages.simps)
  from process_pdfs_failures
      [where penv = ?p_working and pst = ?p_empty and csize = 512 and f = scan_file
         and pfound = "[]"
         and lg_tables = "[Info_processing ''scan.pdf'', Warning_tabula (ExternalError
             ''tabula''),
 Warning_camelot (ExternalError ''camelot''), Warning_pdfplumber (ExternalError
     ''tables unreadable'')]"
         and pdf = scan_pdf and pages = "[scan_page]" and n = 1
         and collected = "[coverage_item]",
       THEN conjunct2, THEN conjunct2, THEN conjunct2, THEN conjunct2, THEN conjunct2,
       THEN conjunct2, THEN conjunct2, THEN conjunct2, THEN conjunct2, THEN conjunct2,
       THEN conjunct2, THEN conjunct2, THEN conjunct2, THEN conjunct2, THEN conjunct2,
       THEN conjunct2, THEN conjunct2, THEN conjunct2, THEN conjunct2, THEN conjunct2,
       THEN conjunct2, THEN conjunct2, THEN conjunct2, THEN conjunct2, THEN conjunct2,
       THEN conjunct2, THEN conjunct2, THEN conjunct2, THEN conjunct2, THEN conjunct2,
       THEN conjunct2, THEN conjunct2, THEN conjunct2, THEN conjunct2]
    p_scan_tables
  have p_scan_extracted: "extract_text_with_structure (ext_tabula_read ?p_working)
            (ext_camelot_read ?p_working) (ext_pdf_open ?p_working) (file_path scan_file)
            (logged ?p_empty @ [Info_processing (file_name scan_file)])
        = (Inr \<lparr>text_content = [coverage_item], tables = [], total_pages = 1\<rparr>,
           [Info_processing ''scan.pdf'', Warning_tabula (ExternalError ''tabula''),
       Warning_camelot (ExternalError ''camelot''),
            Warning_pdfplumber (ExternalError ''tables unreadable'')])"
    by (simp add: externals_fields file_fields empty_state_def demo_open_paths demo_pdfs
        policy_pdf_extracted policy_pdf_extracted_with_structure coverage_chunks
        coverage_page_lines coverage_page_extracted premium_table_row readers_fail no_pages
        del: extract_pages.simps extract_page_texts.simps plumber_pages.simps)
  from process_pdfs_failures
      [where penv = ?p_working and pst = ?p_empty and csize = 512 and f = scan_file
         and pextracted = "\<lparr>text_content = [coverage_item], tables = [], total_pages = 1\<rparr>"
         and plg = "[Info_processing ''scan.pdf'', Warning_tabula (ExternalError ''tabula''),
 Warning_camelot (ExternalError ''camelot''), Warning_pdfplumber (ExternalError
     ''tables unreadable'')]"
         and pchunks = "[coverage_chunk]" and penhanced = "[y]"
         and pcoll = "[store_entry_of ''scan.pdf'' 0 y]" and file_size = 2048,
       THEN conjunct2, THEN conjunct2, THEN conjunct2, THEN conjunct2, THEN conjunct2,
       THEN conjunct2, THEN conjunct2, THEN conjunct2, THEN conjunct2, THEN conjunct2,
       THEN conjunct2, THEN conjunct2, THEN conjunct2, THEN conjunct2, THEN conjunct2,
       THEN conjunct2, THEN conjunct2, THEN conjunct2, THEN conjunct2, THEN conjunct2,
       THEN conjunct2, THEN conjunct2, THEN conjunct2, THEN conjunct2, THEN conjunct2,
       THEN conjunct2, THEN conjunct2, THEN conjunct1]
    y p_scan_extracted
  have p_scan: "logged (InsuranceRAGSystem_process_pdfs ?p_working 512 ?p_empty [scan_file])
        = [Info_processing ''scan.pdf'', Warning_tabula (ExternalError ''tabula''),
       Warning_camelot (ExternalError ''camelot''),
           Warning_pdfplumber (ExternalError ''tables unreadable''),
           Info_success ''scan.pdf'' 1]"
    and p_scan_registry: "processed_docs (InsuranceRAGSystem_process_pdfs ?p_working 512
        ?p_empty [scan_file])
          ''scan.pdf'' \<noteq> None"
    by (simp_all add: externals_fields file_fields empty_state_def demo_open_paths demo_pdfs
        policy_pdf_extracted policy_pdf_extracted_with_structure coverage_chunks
        coverage_page_lines coverage_page_extracted premium_table_row readers_fail no_pages
        del: extract_pages.simps extract_page_texts.simps plumber_pages.simps)
  from process_pdfs_failures
      [where penv = ?p_working and pst = ?p_empty and csize = 512 and f = tables_file
         and pfound = "[]"
         and lg_tables = "[Info_processing ''tables.pdf'', Warning_tabula (ExternalError
             ''tabula''),
 Warning_camelot (ExternalError ''camelot''), Warning_pdfplumber TypeError]"
         and pdf = tables_pdf and pages = "[tables_page]" and n = 1
         and collected = "[coverage_item]",
       THEN conjunct2, THEN conjunct2, THEN conjunct2, THEN conjunct2, THEN conjunct2,
       THEN conjunct2, THEN conjunct2, THEN conjunct2, THEN conjunct2, THEN conjunct2,
       THEN conjunct2, THEN conjunct2, THEN conjunct2, THEN conjunct2, THEN conjunct2,
       THEN conjunct2, THEN conjunct2, THEN conjunct2, THEN conjunct2, THEN conjunct2,
       THEN conjunct2, THEN conjunct2, THEN conjunct2, THEN conjunct2, THEN conjunct2,
       THEN conjunct2, THEN conjunct2, THEN conjunct2, THEN conjunct2, THEN conjunct2,
       THEN conjunct2, THEN conjunct2, THEN conjunct2, THEN conjunct2]
    p_tables_tables
  have p_tables_extracted: "extract_text_with_structure (ext_tabula_read ?p_working)
            (ext_camelot_read ?p_working) (ext_pdf_open ?p_working) (file_path tables_file)
            (logged ?p_empty @ [Info_processing (file_name tables_file)])
        = (Inr \<lparr>text_content = [coverage_item], tables = [], total_pages = 1\<rparr>,
           [Info_processing ''tables.pdf'', Warning_tabula (ExternalError ''tabula''),
       Warning_camelot (ExternalError ''camelot''),
            Warning_pdfplumber TypeError])"
    by (simp add: externals_fields file_fields empty_state_def demo_open_paths demo_pdfs
        policy_pdf_extracted policy_pdf_extracted_with_structure coverage_chunks
        coverage_page_lines coverage_page_extracted premium_table_row readers_fail no_pages
        del: extract_pages.simps extract_page_texts.simps plumber_pages.simps)
  from process_pdfs_failures
      [where penv = ?p_working and pst = ?p_empty and csize = 512 and f = tables_file
         and pextracted = "\<lparr>text_content = [coverage_item], tables = [], total_pages = 1\<rparr>"
         and plg = "[Info_processing ''tables.pdf'', Warning_tabula (ExternalError ''tabula''),
 Warning_camelot (ExternalError ''camelot''), Warning_pdfplumber TypeError]"
         and pchunks = "[coverage_chunk]" and penhanced = "[y]"
         and pcoll = "[store_entry_of ''tables.pdf'' 0 y]" and file_size = 2048,
       THEN conjunct2, THEN conjunct2, THEN conjunct2, THEN conjunct2, THEN conjunct2,
       THEN conjunct2, THEN conjunct2, THEN conjunct2, THEN conjunct2, THEN conjunct2,
       THEN conjunct2, THEN conjunct2, THEN conjunct2, THEN conjunct2, THEN conjunct2,
       THEN conjunct2, THEN conjunct2, THEN conjunct2, THEN conjunct2, THEN conjunct2,
       THEN conjunct2, THEN conjunct2, THEN conjunct2, THEN conjunct2, THEN conjunct2,
       THEN conjunct2, THEN conjunct2, THEN conjunct1]
    y p_tables_extracted
  have p_tables: "logged (InsuranceRAGSystem_process_pdfs ?p_working 512 ?p_empty [tables_file])
        = [Info_processing ''tables.pdf'', Warning_tabula (ExternalError ''tabula''),
       Warning_camelot (ExternalError ''camelot''),
           Warning_pdfplumber TypeError,
           Info_success ''tables.pdf'' 1]"
    and p_tables_registry: "processed_docs (InsuranceRAGSystem_process_pdfs ?p_working 512
        ?p_empty [tables_file])
          ''tables.pdf'' \<noteq> None"
    by (simp_all add: externals_fields file_fields empty_state_def demo_open_paths demo_pdfs
        policy_pdf_extracted policy_pdf_extracted_with_structure coverage_chunks
        coverage_page_lines coverage_page_extracted premium_table_row readers_fail no_pages
        del: extract_pages.simps extract_page_texts.simps plumber_pages.simps)
  from process_pdfs_failures
      [where penv = ?p_working and pst = ?p_empty and csize = 512 and f = broken_file
         and found_readers = "[]"
         and lg_readers = "[Info_processing ''broken.pdf'', Warning_tabula (ExternalError
             ''tabula''),
 Warning_camelot (ExternalError ''camelot'')]"
         and e = "ExternalError ''PDFSyntaxError''",
       THEN conjunct2, THEN conjunct2, THEN conjunct2, THEN conjunct2, THEN conjunct2,
       THEN conjunct2, THEN conjunct2, THEN conjunct2, THEN conjunct2, THEN conjunct2,
       THEN conjunct2, THEN conjunct2, THEN conjunct2, THEN conjunct2, THEN conjunct2,
       THEN conjunct2, THEN conjunct2, THEN conjunct2, THEN conjunct2, THEN conjunct2,
       THEN conjunct2, THEN conjunct2, THEN conjunct2, THEN conjunct2, THEN conjunct2,
       THEN conjunct2, THEN conjunct2, THEN conjunct2, THEN conjunct2, THEN conjunct1]
  have p_broken_tables: "extract_tables_from_pdf (\<lambda>path. Inl (ExternalError ''tabula''))
          (\<lambda>path. Inl (ExternalError ''camelot'')) demo_open ''Training_pdfs/broken.pdf''
          [Info_processing ''broken.pdf'']
        = ([], [Info_processing ''broken.pdf'', Warning_tabula (ExternalError ''tabula''),
       Warning_camelot (ExternalError ''camelot''),
                Warning_pdfplumber (ExternalError ''PDFSyntaxError'')])"
    by (simp add: externals_fields file_fields empty_state_def demo_open_paths demo_pdfs
        policy_pdf_extracted policy_pdf_extracted_with_structure coverage_chunks
        coverage_page_lines coverage_page_extracted premium_table_row readers_fail no_pages
        del: extract_pages.simps extract_page_texts.simps plumber_pages.simps)
  from process_pdfs_failures
      [where penv = ?p_working and pst = ?p_empty and csize = 512 and f = broken_file
         and pfound = "[]"
         and lg_tables = "[Info_processing ''broken.pdf'', Warning_tabula (ExternalError
             ''tabula''),
 Warning_camelot (ExternalError ''camelot''),
            Warning_pdfplumber (ExternalError ''PDFSyntaxError'')]"
         and e = "ExternalError ''PDFSyntaxError''",
       THEN conjunct2, THEN conjunct2, THEN conjunct2, THEN conjunct2, THEN conjunct2,
       THEN conjunct2, THEN conjunct2, THEN conjunct2, THEN conjunct2, THEN conjunct2,
       THEN conjunct2, THEN conjunct2, THEN conjunct2, THEN conjunct2, THEN conjunct2,
       THEN conjunct2, THEN conjunct2, THEN conjunct2, THEN conjunct2, THEN conjunct2,
       THEN conjunct2, THEN conjunct2, THEN conjunct2, THEN conjunct2, THEN conjunct2,
       THEN conjunct2, THEN conjunct2, THEN conjunct2, THEN conjunct2, THEN conjunct2,
       THEN conjunct2, THEN conjunct2, THEN conjunct1]
    p_broken_tables
  have p_broken_text: "extract_text_with_structure (\<lambda>path. Inl (ExternalError ''tabula''))
          (\<lambda>path. Inl (ExternalError ''camelot'')) demo_open ''Training_pdfs/broken.pdf''
          [Info_processing ''broken.pdf'']
        = (Inr \<lparr>text_content = [], tables = [], total_pages = 0\<rparr>,
           [Info_processing ''broken.pdf'', Warning_tabula (ExternalError ''tabula''),
       Warning_camelot (ExternalError ''camelot''),
            Warning_pdfplumber (ExternalError ''PDFSyntaxError''),
            Error_extracting ''Training_pdfs/broken.pdf'' (ExternalError ''PDFSyntaxError'')])"
    by (simp add: externals_fields file_fields empty_state_def demo_open_paths demo_pdfs
        policy_pdf_extracted policy_pdf_extracted_with_structure coverage_chunks
        coverage_page_lines coverage_page_extracted premium_table_row readers_fail no_pages
        del: extract_pages.simps extract_page_texts.simps plumber_pages.simps)
  from s_embedding s_chunking s_storing s_file_size s_file_size_registry s_file_size_stored
    s_propagated s_propagated_registry s_caught s_partial s_partial_registry s_scan
    s_scan_registry s_tables s_tables_registry s_batch p_embedding p_chunking p_storing
    p_file_size p_file_size_registry p_file_size_stored p_propagated p_propagated_registry
    p_caught p_partial p_partial_registry p_scan_tables p_tables_tables p_scan
    p_scan_registry p_tables p_tables_registry p_broken_tables p_broken_text
  show ?thesis by (intro conjI)
qed


text \<open>
  C8 as stated fails: \<open>broken.pdf\<close> cannot be opened, so its extraction fails, and yet
  it is not skipped. In both classes it is registered, with no chunks and no pages, and
  the last log entry reports its success.
\<close>

theorem failed_extraction_is_registered:
  "processed_docs
     (SimpleInsuranceRAGSystem_process_pdfs demo_externals 512 empty_state [broken_file])
     ''broken.pdf''
     = Some \<lparr>doc_chunks = [],
             doc_metadata =
               \<lparr>doc_file_path = ''Training_pdfs/broken.pdf'', doc_file_size = 2048,
                doc_total_pages = 0, doc_total_chunks = 0,
                doc_processed_at = ''2024-01-15T10:00:01''\<rparr>\<rparr>
   \<and> logged (SimpleInsuranceRAGSystem_process_pdfs demo_externals 512 empty_state [broken_file])
     = [Info_processing ''broken.pdf'',
        Error_extracting ''Training_pdfs/broken.pdf'' (ExternalError ''PDFSyntaxError''),
        Info_success ''broken.pdf'' 0]
   \<and> processed_docs
       (InsuranceRAGSystem_process_pdfs demo_externals 512 empty_state [broken_file])
       ''broken.pdf''
     = Some \<lparr>doc_chunks = [],
             doc_metadata =
               \<lparr>doc_file_path = ''Training_pdfs/broken.pdf'', doc_file_size = 2048,
                doc_total_pages = 0, doc_total_chunks = 0,
                doc_processed_at = ''2024-01-15T10:00:01''\<rparr>\<rparr>
   \<and> last (logged
       (InsuranceRAGSystem_process_pdfs demo_externals 512 empty_state [broken_file]))
     = Info_success ''broken.pdf'' 0"
  by (simp add: SimpleInsuranceRAGSystem_process_pdfs_def InsuranceRAGSystem_process_pdfs_def
      process_pdf_def try_process_def extract_text_from_pdf_def extract_text_with_structure_def
      extract_tables_from_pdf_def create_chunks_def create_semantic_chunks_def
      chunk_text_content_def create_embeddings_def create_enhanced_embeddings_def
      demo_externals_def demo_open_def empty_state_def broken_file_def)

end
